theory Spec2Isabelle
  imports Complex_Main "HOL-Library.Sublist"
begin

section \<open>Numbers\<close>

text \<open>
  TypeScript's \<open>number\<close> is an IEEE 754 double: an arithmetic operation returns the double
  nearest to the exact result, a tie going to the even significand. \<open>fl p\<close> is this rounding
  on the reals for a binary format with \<open>p\<close> significant bits: \<open>fl64\<close> for a \<open>number\<close>,
  \<open>fl32\<close> for the single-precision entries of a tensor. The exponent is not bounded:
  overflow, subnormal numbers and the sign of zero are not modelled.

  The operations whose rounding decides a comparison or a displayed digit are modelled
  with their rounding: the speed quotient of the route check, the progress statistics and
  the hazard predictor. The great-circle distance and the spline are idealised on the
  reals; the language leaves the precision of \<open>Math.cos\<close>, \<open>Math.sin\<close> and \<open>Math.asin\<close> to
  the implementation. The non-finite results that a division can produce are written out
  in \<open>jsnum\<close>, so that a quotient by zero is never HOL's \<open>x / 0 = 0\<close>.
\<close>

definition pow2 :: "int \<Rightarrow> real" where
  "pow2 k = (if 0 \<le> k then 2 ^ nat k else 1 / 2 ^ nat (- k))"

definition roundHalfEven :: "real \<Rightarrow> int" where
  \<comment> \<open>the nearest integer, a tie going to the even one\<close>
  "roundHalfEven r =
     (let f = \<lfloor>r\<rfloor>; d = r - of_int f
      in if d < 1 / 2 then f else if 1 / 2 < d then f + 1 else if even f then f else f + 1)"

definition fl :: "int \<Rightarrow> real \<Rightarrow> real" where
  \<comment> \<open>\<open>x\<close> lies in the binade \<open>[2 ^ e, 2 ^ (e + 1))\<close>, where the numbers of the format are
      the multiples of \<open>2 ^ (e - p + 1)\<close>\<close>
  "fl p x =
     (if x = 0 then 0
      else (let e = \<lfloor>log 2 \<bar>x\<bar>\<rfloor>; ulp = pow2 (e - p + 1)
            in of_int (roundHalfEven (x / ulp)) * ulp))"

definition fl64 :: "real \<Rightarrow> real" where
  "fl64 = fl 53"

definition fl32 :: "real \<Rightarrow> real" where
  "fl32 = fl 24"

definition js_plus :: "real \<Rightarrow> real \<Rightarrow> real" where
  "js_plus x y = fl64 (x + y)"

definition js_minus :: "real \<Rightarrow> real \<Rightarrow> real" where
  "js_minus x y = fl64 (x - y)"

definition js_times :: "real \<Rightarrow> real \<Rightarrow> real" where
  "js_times x y = fl64 (x * y)"

definition js_quot :: "real \<Rightarrow> real \<Rightarrow> real" where
  \<comment> \<open>\<open>x / y\<close> for a divisor that is not zero\<close>
  "js_quot x y = fl64 (x / y)"

definition Math_PI :: real where
  "Math_PI = fl64 pi"

datatype jsnum = Fin real | PosInf | NegInf | NaN

definition js_div :: "real \<Rightarrow> real \<Rightarrow> jsnum" where
  \<comment> \<open>\<open>x / y\<close> on finite operands, for any divisor\<close>
  "js_div x y =
     (if y \<noteq> 0 then Fin (js_quot x y)
      else if 0 < x then PosInf else if x < 0 then NegInf else NaN)"

fun js_lt :: "jsnum \<Rightarrow> real \<Rightarrow> bool" where
  \<comment> \<open>\<open>a < b\<close> with a finite right operand; every comparison with NaN is false.\<close>
  "js_lt (Fin a) b = (a < b)"
| "js_lt NegInf b = True"
| "js_lt PosInf b = False"
| "js_lt NaN b = False"

fun js_gt :: "jsnum \<Rightarrow> real \<Rightarrow> bool" where
  "js_gt (Fin a) b = (b < a)"
| "js_gt PosInf b = True"
| "js_gt NegInf b = False"
| "js_gt NaN b = False"

definition Math_round :: "real \<Rightarrow> real" where
  \<comment> \<open>\<open>Math.round\<close>: the integer nearest to the exact value of its argument, a tie
      going up\<close>
  "Math_round x = of_int \<lfloor>x + 1 / 2\<rfloor>"

definition toFixed1 :: "real \<Rightarrow> real" where
  \<comment> \<open>\<open>x.toFixed(1)\<close>, as the decimal number that the string denotes. \<open>toFixed\<close> takes
      the one-decimal string nearest to the exact value of the magnitude (the larger one
      on a tie) and puts the sign in front.\<close>
  "toFixed1 x =
     (if x < 0 then - (of_int \<lfloor>- x * 10 + 1 / 2\<rfloor> / 10)
      else of_int \<lfloor>x * 10 + 1 / 2\<rfloor> / 10)"

section \<open>Data model (types, in src/unnamed/part_003)\<close>

datatype TravelMode = Car | Bike | Bus | Walk

record LatLon =
  lat :: real
  lon :: real

record Location = LatLon +
  name :: string

record Sighting = LatLon +
  image :: "string option"

record PredictionPoint = LatLon +
  addr :: "string option"

record CurrentPoint = PredictionPoint +
  dist_km :: real

type_synonym point = "real \<times> real"

record Route =
  path :: "point list"
  distanceKm :: real
  durationMinutes :: real
  start :: Location
  endLoc :: Location
  mode :: TravelMode
  isHighRisk :: "bool option"

section \<open>Great-circle distance (calculateDistance, in src/App.tsx)\<close>

definition calculateDistance :: "'a LatLon_scheme \<Rightarrow> 'b LatLon_scheme \<Rightarrow> real" where
  "calculateDistance loc1 loc2 =
     (let R = 6371;
          dLat = (lat loc2 - lat loc1) * pi / 180;
          dLon = (lon loc2 - lon loc1) * pi / 180;
          a = 0.5 - cos dLat / 2 +
              cos (lat loc1 * pi / 180) * cos (lat loc2 * pi / 180) * (1 - cos dLon) / 2
      in R * 2 * arcsin (sqrt a))"

section \<open>Route plausibility (isRouteReasonable, in src/App.tsx)\<close>

fun minSpeed :: "TravelMode \<Rightarrow> real" where
  "minSpeed Car = 10"
| "minSpeed Bus = 10"
| "minSpeed Bike = 8"
| "minSpeed Walk = 2"

fun maxSpeed :: "TravelMode \<Rightarrow> real" where
  "maxSpeed Car = 120"
| "maxSpeed Bus = 100"
| "maxSpeed Bike = 35"
| "maxSpeed Walk = 8"

definition isRouteReasonable :: "Route \<Rightarrow> Location \<Rightarrow> Location \<Rightarrow> bool" where
  "isRouteReasonable route start' end' =
     (let straightLineDistance = calculateDistance start' end';
          maxReasonableDistance = straightLineDistance * 7
      in if distanceKm route > maxReasonableDistance then False
         else if durationMinutes route > 0 then
           (let avgSpeedKmh = js_quot (distanceKm route) (js_quot (durationMinutes route) 60)
            in if avgSpeedKmh < minSpeed (mode route) \<or> avgSpeedKmh > maxSpeed (mode route)
               then False else True)
         else True)"

definition getSafeNavigationRoute' ::
  "string + Route option \<Rightarrow> Location \<Rightarrow> Location \<Rightarrow> string + Route option" where
  \<comment> \<open>The routing broker \<open>getSafeNavigationRoute\<close>. \<open>fetched\<close> is the outcome of the
      request \<open>_fetchValhallaRoute(start, end, avoidPolygons, mode)\<close>: the message of the
      error it throws, no route, or a route. An error is thrown on to the caller.\<close>
  "getSafeNavigationRoute' fetched start' end' =
     (case fetched of
        Inl message' \<Rightarrow> Inl message'
      | Inr None \<Rightarrow> Inr None
      | Inr (Some valhallaRoute) \<Rightarrow>
          if isRouteReasonable valhallaRoute start' end' then Inr (Some valhallaRoute)
          else Inr None)"

text \<open>
  The implied average speed of a route as the specification words it, distance divided by
  duration, in km/h. It is the quotient that the source computes, for any duration: a
  positive distance covered in zero minutes has an infinite implied speed.
\<close>

definition impliedAverageSpeed :: "Route \<Rightarrow> jsnum" where
  "impliedAverageSpeed route =
     js_div (distanceKm route) (js_quot (durationMinutes route) 60)"

section \<open>Spline smoothing (createSplinePath, in src/App.tsx)\<close>

definition getSplinePoint :: "real \<Rightarrow> point \<Rightarrow> point \<Rightarrow> point \<Rightarrow> point \<Rightarrow> real \<Rightarrow> point" where
  "getSplinePoint t p0 p1 p2 p3 tension =
     (let t2 = t * t;
          t3 = t2 * t;
          b1 = - tension * t3 + 2 * tension * t2 - tension * t;
          b2 = (2 - tension) * t3 + (tension - 3) * t2 + 1;
          b3 = (tension - 2) * t3 + (3 - 2 * tension) * t2 + tension * t;
          b4 = tension * t3 - tension * t2;
          x = fst p0 * b1 + fst p1 * b2 + fst p2 * b3 + fst p3 * b4;
          y = snd p0 * b1 + snd p1 * b2 + snd p2 * b3 + snd p3 * b4
      in (x, y))"

definition substepCounters :: "real \<Rightarrow> nat list" where
  \<comment> \<open>The values of \<open>t\<close> in \<open>for (let t = 0; t <= substeps; t++)\<close>.\<close>
  "substepCounters substeps = (if substeps < 0 then [] else [0 ..< nat \<lfloor>substeps\<rfloor> + 1])"

definition splineSegment :: "point list \<Rightarrow> real \<Rightarrow> real \<Rightarrow> nat \<Rightarrow> point list" where
  \<comment> \<open>The inner loop for one \<open>i\<close>: the points pushed between \<open>points[i]\<close> and
      \<open>points[i + 1]\<close>.\<close>
  "splineSegment points substeps tension i =
     map (\<lambda>t. getSplinePoint (real t / substeps)
                 (points ! (i - 1)) (points ! i) (points ! (i + 1)) (points ! (i + 2)) tension)
         (substepCounters substeps)"

definition createSplinePath :: "point list \<Rightarrow> real \<Rightarrow> real \<Rightarrow> point list option" where
  \<comment> \<open>\<open>None\<close> stands for the one result the reals cannot hold: with \<open>substeps = 0\<close>
      the only parameter is \<open>0 / 0 = NaN\<close> and every interpolated coordinate is NaN.\<close>
  "createSplinePath waypoints substeps tension =
     (if length waypoints < 2 then Some waypoints
      else if substeps = 0 then None
      else
        (let points = hd waypoints # waypoints @ [last waypoints];
             path = concat (map (splineSegment points substeps tension)
                                [1 ..< length points - 2])
         in Some (if length path > 0 then path @ [last waypoints] else path)))"

section \<open>Nearest point on a path (getPathDataFromLocation, in src/App.tsx)\<close>

text \<open>
  The running minimum starts at \<open>Infinity\<close>; it is a \<open>real option\<close> with \<open>None\<close> for
  \<open>Infinity\<close>.
\<close>

fun belowMin :: "real \<Rightarrow> real option \<Rightarrow> bool" where
  "belowMin d None = True"
| "belowMin d (Some m) = (d < m)"

definition INCREASING_THRESHOLD :: nat where
  "INCREASING_THRESHOLD = 30"

fun searchPath ::
  "'a LatLon_scheme \<Rightarrow> point list \<Rightarrow> nat \<Rightarrow> nat \<Rightarrow> real option \<Rightarrow> nat \<Rightarrow> nat \<times> real option" where
  \<comment> \<open>The search loop from index \<open>i\<close> on, over the vertices still ahead; it carries
      \<open>closestPointIndex\<close>, \<open>minDistance\<close> and \<open>increasingCount\<close>.\<close>
  "searchPath userLocation [] i closestPointIndex minDistance increasingCount =
     (closestPointIndex, minDistance)"
| "searchPath userLocation (p # ps) i closestPointIndex minDistance increasingCount =
     (let pathPoint = \<lparr>lat = fst p, lon = snd p\<rparr>;
          distance = calculateDistance userLocation pathPoint
      in if belowMin distance minDistance
         then searchPath userLocation ps (i + 1) i (Some distance) 0
         else if increasingCount + 1 > INCREASING_THRESHOLD
              then (closestPointIndex, minDistance)
              else searchPath userLocation ps (i + 1) closestPointIndex minDistance
                     (increasingCount + 1))"

record PathData =
  remainingPath :: "point list"
  distanceToPathKm :: "real option"
  closestPointIndex :: nat

definition getPathDataFromLocation :: "'a LatLon_scheme \<Rightarrow> point list \<Rightarrow> nat \<Rightarrow> PathData" where
  "getPathDataFromLocation userLocation routePath searchStartIndex =
     (if length routePath < 2
      then \<lparr>remainingPath = [], distanceToPathKm = None, closestPointIndex = 0\<rparr>
      else
        (let searchFrom = searchStartIndex - 20  \<comment> \<open>\<open>Math.max(0, searchStartIndex - 20)\<close>: subtraction on \<open>nat\<close> stops at 0\<close>;
             (closest, minDistance) =
               searchPath userLocation (drop searchFrom routePath) searchFrom
                 searchStartIndex None 0
         in \<lparr>remainingPath = (lat userLocation, lon userLocation) # drop closest routePath,
             distanceToPathKm = minDistance,
             closestPointIndex = closest\<rparr>))"

section \<open>Hazard predictor (predictAnimalPaths, in src/App.tsx)\<close>

record SpeciesKey =
  scientificName :: string

record SightingSet = SpeciesKey +
  sightings :: "Sighting list"

record PathPredictions = SpeciesKey +
  predictions :: "LatLon list"

text \<open>
  TensorFlow.js is not part of the sources: the global \<open>tf\<close> is a parameter, \<open>None\<close> when
  it is undefined. Of the library the predictor uses the conversion of a \<open>number\<close> to an
  entry of a tensor (\<open>tf.tensor2d\<close>, \<open>tf.tensor1d\<close>; the entries are single-precision
  numbers), the entrywise difference and sum, and the mean of a column. \<open>Math.random\<close>,
  \<open>Math.cos\<close> and \<open>Math.sin\<close> are parameters as well: \<open>Math_random m k\<close> is the value of
  the \<open>k\<close>-th call of \<open>Math.random()\<close>.
\<close>

record TensorFlow =
  toTensor :: "real \<Rightarrow> real"
  tensorSub :: "real \<Rightarrow> real \<Rightarrow> real"
  tensorAdd :: "real \<Rightarrow> real \<Rightarrow> real"
  tensorMean :: "real list \<Rightarrow> real"

record MathObject =
  Math_random :: "nat \<Rightarrow> real"
  Math_cos :: "real \<Rightarrow> real"
  Math_sin :: "real \<Rightarrow> real"

definition tensor2d :: "TensorFlow \<Rightarrow> point list \<Rightarrow> point list" where
  "tensor2d tf rows = map (\<lambda>row. (toTensor tf (fst row), toTensor tf (snd row))) rows"

definition tensorDeltas :: "TensorFlow \<Rightarrow> point list \<Rightarrow> point list" where
  \<comment> \<open>\<open>tensor.slice(1).sub(tensor.slice(0, tensor.shape[0] - 1))\<close>\<close>
  "tensorDeltas tf tensor =
     map2 (\<lambda>q p. (tensorSub tf (fst q) (fst p), tensorSub tf (snd q) (snd p)))
       (drop 1 tensor) (take (length tensor - 1) tensor)"

definition tensorMean0 :: "TensorFlow \<Rightarrow> point list \<Rightarrow> point" where
  \<comment> \<open>\<open>tf.mean(deltas, 0)\<close>: the mean of each column\<close>
  "tensorMean0 tf rows = (tensorMean tf (map fst rows), tensorMean tf (map snd rows))"

definition randomFallback :: "MathObject \<Rightarrow> nat \<Rightarrow> Sighting \<Rightarrow> LatLon list" where
  \<comment> \<open>the branch for a single sighting\<close>
  "randomFallback m k lastSighting =
     (let randomAngle = js_times (js_times (Math_random m k) 2) Math_PI;
          randomDist = fl64 (1 / 100);
          pred1 = \<lparr>lat = js_plus (lat lastSighting) (js_times randomDist (Math_cos m randomAngle)),
                   lon = js_plus (lon lastSighting) (js_times randomDist (Math_sin m randomAngle))\<rparr>;
          pred2 = \<lparr>lat = js_plus (lat pred1) (js_times randomDist (Math_cos m randomAngle)),
                   lon = js_plus (lon pred1) (js_times randomDist (Math_sin m randomAngle))\<rparr>
      in [pred1, pred2])"

definition linearExtrapolation :: "TensorFlow \<Rightarrow> Sighting list \<Rightarrow> LatLon list" where
  \<comment> \<open>the branch for two sightings or more; the entries of the two result tensors are
      read back as numbers\<close>
  "linearExtrapolation tf ss =
     (let lastSighting = hd ss;
          coords = rev (map (\<lambda>s. (lat s, lon s)) ss);
          tensor = tensor2d tf coords;
          deltas = tensorDeltas tf tensor;
          avgDelta = tensorMean0 tf deltas;
          lastPointTensor = (toTensor tf (lat lastSighting), toTensor tf (lon lastSighting));
          pred1Tensor = (tensorAdd tf (fst lastPointTensor) (fst avgDelta),
                         tensorAdd tf (snd lastPointTensor) (snd avgDelta));
          pred2Tensor = (tensorAdd tf (fst pred1Tensor) (fst avgDelta),
                         tensorAdd tf (snd pred1Tensor) (snd avgDelta))
      in [\<lparr>lat = fst pred1Tensor, lon = snd pred1Tensor\<rparr>,
          \<lparr>lat = fst pred2Tensor, lon = snd pred2Tensor\<rparr>])"

fun predictSets ::
  "TensorFlow \<Rightarrow> MathObject \<Rightarrow> nat \<Rightarrow> SightingSet list \<Rightarrow> PathPredictions list" where
  \<comment> \<open>The callback of \<open>sightingSets.map\<close>, set by set; the counter of the calls of
      \<open>Math.random()\<close> moves on where a value is drawn.\<close>
  "predictSets tf m k [] = []"
| "predictSets tf m k (set' # rest) =
     (if length (sightings set') < 1
      then \<lparr>scientificName = scientificName set', predictions = []\<rparr> # predictSets tf m k rest
      else if length (sightings set') < 2
      then \<lparr>scientificName = scientificName set',
            predictions = randomFallback m k (hd (sightings set'))\<rparr>
           # predictSets tf m (k + 1) rest
      else \<lparr>scientificName = scientificName set',
            predictions = linearExtrapolation tf (sightings set')\<rparr>
           # predictSets tf m k rest)"

definition predictAnimalPaths ::
  "TensorFlow option \<Rightarrow> MathObject \<Rightarrow> SightingSet list \<Rightarrow> PathPredictions list" where
  "predictAnimalPaths tf m sightingSets =
     (case tf of
        None \<Rightarrow> []
      | Some tf' \<Rightarrow>
          filter (\<lambda>p. length (predictions p) > 0) (predictSets tf' m 0 sightingSets))"

text \<open>
  The mean displacement as the specification words it: the displacements between
  consecutive sightings, taken from the older to the newer one, averaged. The list is
  ordered most recent first, so the step from entry \<open>i + 1\<close> to entry \<open>i\<close> moves forward
  in time. \<open>displacementsBy sub\<close> takes the differences with the subtraction \<open>sub\<close>;
  \<open>tensorDisplacements\<close> are the differences as the library computes them, between the
  tensor entries of the coordinates, and \<open>tensorMeanDisplacement\<close> is the library's mean
  of them in the order from the oldest to the newest.
\<close>

fun displacementsBy :: "(real \<Rightarrow> real \<Rightarrow> real) \<Rightarrow> Sighting list \<Rightarrow> point list" where
  "displacementsBy sub (newer # older # rest) =
     (sub (lat newer) (lat older), sub (lon newer) (lon older))
       # displacementsBy sub (older # rest)"
| "displacementsBy sub ss = []"

definition displacements :: "Sighting list \<Rightarrow> point list" where
  "displacements ss = displacementsBy (\<lambda>a b. a - b) ss"

definition meanDisplacement :: "Sighting list \<Rightarrow> point" where
  "meanDisplacement ss =
     (sum_list (map fst (displacements ss)) / real (length ss - 1),
      sum_list (map snd (displacements ss)) / real (length ss - 1))"

definition tensorDisplacements :: "TensorFlow \<Rightarrow> Sighting list \<Rightarrow> point list" where
  "tensorDisplacements tf ss =
     displacementsBy (\<lambda>a b. tensorSub tf (toTensor tf a) (toTensor tf b)) ss"

definition tensorMeanDisplacement :: "TensorFlow \<Rightarrow> Sighting list \<Rightarrow> point" where
  "tensorMeanDisplacement tf ss =
     (tensorMean tf (map fst (rev (tensorDisplacements tf ss))),
      tensorMean tf (map snd (rev (tensorDisplacements tf ss))))"

text \<open>
  Two waypoints: a displacement \<open>d\<close> taken from a point \<open>p\<close> and taken again from the
  result, with the addition \<open>add\<close>.
\<close>

definition twoSteps :: "(real \<Rightarrow> real \<Rightarrow> real) \<Rightarrow> point \<Rightarrow> point \<Rightarrow> LatLon list" where
  "twoSteps add p d =
     [\<lparr>lat = add (fst p) (fst d), lon = add (snd p) (snd d)\<rparr>,
      \<lparr>lat = add (add (fst p) (fst d)) (fst d), lon = add (add (snd p) (snd d)) (snd d)\<rparr>]"

text \<open>
  The library works without rounding on a list of sightings when every operation the
  predictor asks of it returns the exact result: the conversion of each coordinate, each
  difference, the two means and the four sums.
\<close>

definition withoutRounding :: "TensorFlow \<Rightarrow> Sighting list \<Rightarrow> bool" where
  "withoutRounding tf ss =
     (let cur = hd ss; d = meanDisplacement ss
      in list_all (\<lambda>s. toTensor tf (lat s) = lat s \<and> toTensor tf (lon s) = lon s) ss \<and>
         displacementsBy (tensorSub tf) ss = displacements ss \<and>
         tensorMean tf (map fst (rev (displacements ss))) = fst d \<and>
         tensorMean tf (map snd (rev (displacements ss))) = snd d \<and>
         tensorAdd tf (lat cur) (fst d) = lat cur + fst d \<and>
         tensorAdd tf (lon cur) (snd d) = lon cur + snd d \<and>
         tensorAdd tf (lat cur + fst d) (fst d) = lat cur + 2 * fst d \<and>
         tensorAdd tf (lon cur + snd d) (snd d) = lon cur + 2 * snd d)"

section \<open>Resilient fetch (fetchJson, in src/App.tsx)\<close>

text \<open>
  The network is the function \<open>fetch\<close>: the outcome of the \<open>i\<close>-th call of \<open>fetch\<close>,
  counted from 0. A response carries its status and its body text (\<open>None\<close> where reading
  the body fails); \<open>parse\<close> is \<open>JSON.parse\<close>, \<open>None\<close> for a syntax error.
\<close>

datatype fetchOutcome = NetworkFailure | Response nat "string option"

datatype fetchError =
    InvalidJson
  | ApiError nat
  | NetworkError
  | DataNotFetched

datatype 'j attempt =
    Returned "'j option"
  | Continued fetchError
  | Thrown fetchError

definition tryBody :: "(string \<Rightarrow> 'j option) \<Rightarrow> fetchOutcome \<Rightarrow> 'j attempt" where
  \<comment> \<open>The body of the \<open>try\<close> block of one iteration: it returns, reaches \<open>continue\<close>
      after its own sleep, or throws.\<close>
  "tryBody parse outcome =
     (case outcome of
        NetworkFailure \<Rightarrow> Thrown NetworkError
      | Response status body \<Rightarrow>
          if 200 \<le> status \<and> status \<le> 299 then
            (case body of
               None \<Rightarrow> Thrown NetworkError
             | Some text \<Rightarrow>
                 if text = [] then Returned None
                 else (case parse text of
                         Some v \<Rightarrow> Returned (Some v)
                       | None \<Rightarrow> Thrown InvalidJson))
          else if status \<ge> 500 \<and> status < 600 then Continued (ApiError status)
          else (case body of
                  None \<Rightarrow> Thrown NetworkError
                | Some errorText \<Rightarrow> Thrown (ApiError status)))"

record 'j fetchRun =
  outcome :: "fetchError + 'j option"
  calls :: nat
  sleeps :: "nat list"
  lastError :: "fetchError option"

fun fetchLoop ::
  "(nat \<Rightarrow> fetchOutcome) \<Rightarrow> (string \<Rightarrow> 'j option) \<Rightarrow> nat \<Rightarrow> nat \<Rightarrow> nat \<Rightarrow>
   fetchError option \<Rightarrow> nat list \<Rightarrow> 'j fetchRun" where
  \<comment> \<open>\<open>for (let i = 0; i < retries; i++)\<close> with \<open>n\<close> iterations left. Both the
      \<open>continue\<close> branch and the \<open>catch\<close> block sleep for \<open>delay\<close>, double it and go
      to the next iteration; the \<open>catch\<close> block receives every error thrown in the
      \<open>try\<close> block.\<close>
  "fetchLoop fetch parse 0 i delay lastErr slept =
     \<lparr>outcome = Inl DataNotFetched, calls = i, sleeps = slept, lastError = lastErr\<rparr>"
| "fetchLoop fetch parse (Suc n) i delay lastErr slept =
     (case tryBody parse (fetch i) of
        Returned v \<Rightarrow> \<lparr>outcome = Inr v, calls = i + 1, sleeps = slept, lastError = lastErr\<rparr>
      | Continued e \<Rightarrow> fetchLoop fetch parse n (i + 1) (delay * 2) (Some e) (slept @ [delay])
      | Thrown e \<Rightarrow> fetchLoop fetch parse n (i + 1) (delay * 2) (Some e) (slept @ [delay]))"

definition fetchJson ::
  "(nat \<Rightarrow> fetchOutcome) \<Rightarrow> (string \<Rightarrow> 'j option) \<Rightarrow> nat \<Rightarrow> nat \<Rightarrow> 'j fetchRun" where
  "fetchJson fetch parse retries initialDelay =
     fetchLoop fetch parse retries 0 initialDelay None []"

section \<open>Route arbitration (calculateSafeRoute, in src/hooks/useAnimalData.ts)\<close>

type_synonym polygon = "real list list"

datatype routeMessage =
    NoMessage
  | CalculatingSafestRoute
  | RequestFailed string
  | NoDirectRoute
  | SaferRouteFound "real option"
  | HighRiskWarning
  | RouteChecked
  | CannotStartNavigation
  | ProceedToStart real
  | NoSafePlaces
  | NoClosestSafePlace
  | EmergencyRouteCalculated
  | NoRouteToSafePlace

record Arbitration =
  finalRoute :: Route
  alternative :: "Route option"
  arbitrationMessage :: routeMessage

definition DURATION_MULTIPLIER_THRESHOLD :: real where
  "DURATION_MULTIPLIER_THRESHOLD = 2.5"

definition DURATION_ABSOLUTE_THRESHOLD_MINS :: real where
  "DURATION_ABSOLUTE_THRESHOLD_MINS = 120"

definition chooseRoute :: "Route \<Rightarrow> polygon list \<Rightarrow> Route option \<Rightarrow> Arbitration" where
  \<comment> \<open>The decision once the direct route is known; \<open>safeAlternative\<close> is what the
      request with the avoidance polygons returned, read only when there are polygons.\<close>
  "chooseRoute directRoute avoidancePolygons safeAlternative =
     (if length avoidancePolygons > 0 then
        (case safeAlternative of
           Some safe \<Rightarrow>
             if durationMinutes safe < durationMinutes directRoute * DURATION_MULTIPLIER_THRESHOLD \<and>
                durationMinutes safe < durationMinutes directRoute + DURATION_ABSOLUTE_THRESHOLD_MINS
             then
               (let durationDiff = durationMinutes safe - durationMinutes directRoute
                in \<lparr>finalRoute = safe,
                    alternative = Some (directRoute\<lparr>isHighRisk := Some True\<rparr>),
                    arbitrationMessage =
                      SaferRouteFound (if durationDiff > 0 then Some durationDiff else None)\<rparr>)
             else \<lparr>finalRoute = directRoute\<lparr>isHighRisk := Some True\<rparr>,
                   alternative = safeAlternative,
                   arbitrationMessage = HighRiskWarning\<rparr>
         | None \<Rightarrow> \<lparr>finalRoute = directRoute\<lparr>isHighRisk := Some True\<rparr>,
                     alternative = safeAlternative,
                     arbitrationMessage = HighRiskWarning\<rparr>)
      else \<lparr>finalRoute = directRoute, alternative = None, arbitrationMessage = RouteChecked\<rparr>)"

definition calculateSafeRoute ::
  "(polygon list \<Rightarrow> string + Route option) \<Rightarrow> polygon list \<Rightarrow> routeMessage + Arbitration" where
  \<comment> \<open>From the request of the direct route on. \<open>getSafeNavigationRoute\<close> answers a
      request with a route, with no route, or throws (\<open>Inl\<close>); the \<open>catch\<close> block turns
      every error into the error message.\<close>
  "calculateSafeRoute getSafeNavigationRoute avoidancePolygons =
     (case getSafeNavigationRoute [] of
        Inl err \<Rightarrow> Inl (RequestFailed err)
      | Inr None \<Rightarrow> Inl NoDirectRoute
      | Inr (Some directRoute) \<Rightarrow>
          if length avoidancePolygons > 0 then
            (case getSafeNavigationRoute avoidancePolygons of
               Inl err \<Rightarrow> Inl (RequestFailed err)
             | Inr safeAlternative \<Rightarrow>
                 Inr (chooseRoute directRoute avoidancePolygons safeAlternative))
          else Inr (chooseRoute directRoute avoidancePolygons None))"

section \<open>Navigation session (src/hooks/useAnimalData.ts)\<close>

subsection \<open>Session data\<close>

datatype RiskLevel = High | Medium | Low

record AnimalPrediction =
  animalId :: string
  scientific :: string
  common :: string
  emoji :: string
  color :: string
  riskLevel :: RiskLevel
  animalImage :: "string option"
  current :: CurrentPoint
  preds :: "PredictionPoint list"
  fullPath :: "point list"
  animalDistanceToPathKm :: "real option"

text \<open>
  An alert message is kept as its template and the values put into it; a distance stands
  for its one-decimal rendering.
\<close>

datatype alertMessage =
    HazardDetected string "real option" real
  | ReachedStart
  | SignalLost
  | Rerouting string

fun stringIncludes :: "string \<Rightarrow> string \<Rightarrow> bool" where
  \<comment> \<open>\<open>text.includes(pattern)\<close>\<close>
  "stringIncludes [] pattern = (pattern = [])"
| "stringIncludes (c # cs) pattern = (prefix pattern (c # cs) \<or> stringIncludes cs pattern)"

fun includesSignalLost :: "alertMessage \<Rightarrow> bool" where
  \<comment> \<open>\<open>message.includes("Live location signal lost")\<close>: the fixed wording of the
      other templates does not hold the phrase, the names put into them may.\<close>
  "includesSignalLost SignalLost = True"
| "includesSignalLost ReachedStart = False"
| "includesSignalLost (HazardDetected commonName toPath toAnimal) =
     stringIncludes commonName ''Live location signal lost''"
| "includesSignalLost (Rerouting placeName') = stringIncludes placeName' ''Live location signal lost''"

record NavigationAlert =
  animal :: "AnimalPrediction option"
  message :: alertMessage

record NavigationStats =
  remainingKm :: real
  etaMinutes :: real
  progressPercent :: real

record WeatherData =
  temperature :: real
  weatherCode :: int
  windSpeed :: real
  isDay :: int

datatype SafePlaceType = Police | Ranger

record SafePlace = LatLon +
  placeId :: int
  placeType :: SafePlaceType
  placeName :: string
  address :: "string option"
  hours :: "string option"
  phone :: "string option"

record RouteSnapshot =
  snapshotStart :: Location
  snapshotEnd :: Location
  snapshotMode :: TravelMode
  snapshotDistanceKm :: real
  snapshotDurationMinutes :: real

datatype AppState = IDLE | LOADING | SUCCESS | ERROR

text \<open>
  The state of the hook that the navigation functions read and write. React state and
  the \<open>useRef\<close> mirror that an effect copies from it after a render are separate fields
  (\<open>navigationAlert\<close> and \<open>navigationAlertRef\<close>): the position handler reads the mirror and
  writes the state. A state that is always written together with its ref
  (\<open>closestPathIndex\<close>, \<open>isApproachingStart\<close>) is one field. \<open>watching\<close> says that
  \<open>watchIdRef\<close> holds a subscription. \<open>alertLog\<close> and \<open>weatherAlertLog\<close> record the calls
  of \<open>triggerNavigationAlert\<close> and \<open>triggerWeatherAlert\<close>, each of which plays the sound
  and shows the notification.
\<close>

record Nav =
  isNavigating :: bool
  liveLocation :: "Location option"
  liveLocationRef :: "Location option"
  navigationStats :: "NavigationStats option"
  navigationAlert :: "NavigationAlert option"
  navigationAlertRef :: "NavigationAlert option"
  weatherAlert :: "string option"
  weatherAlertRef :: "string option"
  animalsNearRoute :: "AnimalPrediction list"
  animalsNearRouteRef :: "AnimalPrediction list"
  closestPathIndex :: nat
  isApproachingStart :: bool
  emergencyRoute :: "Route option"
  emergencyRouteRef :: "Route option"
  alternativeEmergencyRoute :: "Route option"
  safeRoute :: "Route option"
  safeRouteRef :: "Route option"
  alternativeRoute :: "Route option"
  safePlaces :: "SafePlace list"
  routeStatus :: AppState
  routeMessage :: routeMessage
  watching :: bool
  lastWeatherCheckTimestamp :: int
  initialRouteSnapshot :: "RouteSnapshot option"
  shownAnimalAlerts :: "string set"
  alertLog :: "NavigationAlert list"
  weatherAlertLog :: "string list"

definition render :: "Nav \<Rightarrow> Nav" where
  \<comment> \<open>A render followed by its effects: each mirror takes the value of its state.\<close>
  "render s =
     s\<lparr>liveLocationRef := liveLocation s,
       navigationAlertRef := navigationAlert s,
       weatherAlertRef := weatherAlert s,
       animalsNearRouteRef := animalsNearRoute s,
       emergencyRouteRef := emergencyRoute s,
       safeRouteRef := safeRoute s\<rparr>"

definition triggerNavigationAlert :: "NavigationAlert \<Rightarrow> Nav \<Rightarrow> Nav" where
  "triggerNavigationAlert alert s =
     s\<lparr>navigationAlert := Some alert, alertLog := alertLog s @ [alert]\<rparr>"

definition triggerWeatherAlert :: "string \<Rightarrow> Nav \<Rightarrow> Nav" where
  "triggerWeatherAlert msg s =
     s\<lparr>weatherAlert := Some msg, weatherAlertLog := weatherAlertLog s @ [msg]\<rparr>"

definition clearNavigationAlert :: "Nav \<Rightarrow> Nav" where
  "clearNavigationAlert s = s\<lparr>navigationAlert := None\<rparr>"

definition clearWeatherAlert :: "Nav \<Rightarrow> Nav" where
  "clearWeatherAlert s = s\<lparr>weatherAlert := None\<rparr>"

subsection \<open>Weather\<close>

definition WEATHER_CHECK_INTERVAL_MS :: int where
  "WEATHER_CHECK_INTERVAL_MS = 5 * 60 * 1000"

definition isWeatherSevere :: "int \<Rightarrow> bool" where
  "isWeatherSevere code =
     (code \<in> set [63, 65, 66, 67, 73, 75, 77, 81, 82, 85, 86, 95, 96, 99])"

definition getWeatherAlertText :: "int \<Rightarrow> string" where
  "getWeatherAlertText code =
     (if code \<in> set [63, 65, 81, 82]
      then ''Warning: Heavy rain detected on your route. Drive carefully.''
      else if code \<in> set [73, 75, 85, 86, 77]
      then ''Warning: Heavy snow detected. Conditions may be hazardous.''
      else if code \<in> set [66, 67]
      then ''Warning: Freezing rain detected. Roads may be icy.''
      else if code \<in> set [95, 96, 99]
      then ''Warning: Thunderstorms nearby. Consider seeking shelter if possible.''
      else ''Warning: Severe weather conditions detected ahead.'')"

subsection \<open>The position handler\<close>

text \<open>
  A position fix as the handler sees it: the coordinates, the value of \<open>Date.now()\<close>,
  the answer of \<open>getWeatherData\<close> should the handler ask for it (\<open>None\<close> where the call
  fails), and whether React rendered while the handler was suspended in that call. The
  handler is taken to run without another handler in between.
\<close>

record PositionFix =
  latitude :: real
  longitude :: real
  now :: int
  weatherAnswer :: "WeatherData option"
  renderedWhileWaiting :: bool

definition ANIMAL_ALERT_THRESHOLD_KM :: real where
  "ANIMAL_ALERT_THRESHOLD_KM = 2"

definition APPROACHING_START_THRESHOLD_KM :: real where
  "APPROACHING_START_THRESHOLD_KM = 0.5"

definition clearStaleSignalLost :: "Nav \<Rightarrow> Nav" where
  "clearStaleSignalLost s =
     (case navigationAlertRef s of
        Some alert \<Rightarrow> if includesSignalLost (message alert) then clearNavigationAlert s else s
      | None \<Rightarrow> s)"

definition checkWeather :: "PositionFix \<Rightarrow> Nav \<Rightarrow> Nav" where
  "checkWeather fix s =
     (if now fix - lastWeatherCheckTimestamp s > WEATHER_CHECK_INTERVAL_MS then
        (let s1 = s\<lparr>lastWeatherCheckTimestamp := now fix\<rparr>;
             s2 = (if renderedWhileWaiting fix then render s1 else s1)
         in case weatherAnswer fix of
              Some weatherData \<Rightarrow>
                if isWeatherSevere (weatherCode weatherData)
                then triggerWeatherAlert (getWeatherAlertText (weatherCode weatherData)) s2
                else if weatherAlertRef s2 \<noteq> None then clearWeatherAlert s2 else s2
            | None \<Rightarrow> s2)
      else s)"

definition hazardAlert :: "AnimalPrediction \<Rightarrow> real \<Rightarrow> NavigationAlert" where
  "hazardAlert animal' distanceToAnimal =
     \<lparr>animal = Some animal',
      message = HazardDetected (common animal')
                  (map_option toFixed1 (animalDistanceToPathKm animal'))
                  (toFixed1 distanceToAnimal)\<rparr>"

fun alertNearbyAnimals :: "Location \<Rightarrow> AnimalPrediction list \<Rightarrow> Nav \<Rightarrow> Nav" where
  \<comment> \<open>\<open>for (const animal of nearbyAnimals)\<close>; the loop ends at the first alert it
      raises.\<close>
  "alertNearbyAnimals currentLiveLocation [] s = s"
| "alertNearbyAnimals currentLiveLocation (animal' # rest) s =
     (let distanceToAnimal = calculateDistance currentLiveLocation (current animal')
      in if distanceToAnimal \<le> ANIMAL_ALERT_THRESHOLD_KM \<and>
            animalId animal' \<notin> shownAnimalAlerts s
         then
           (if navigationAlertRef s = None
            then (triggerNavigationAlert (hazardAlert animal' distanceToAnimal) s)
                   \<lparr>shownAnimalAlerts := insert (animalId animal') (shownAnimalAlerts s)\<rparr>
            else alertNearbyAnimals currentLiveLocation rest s)
         else alertNearbyAnimals currentLiveLocation rest s)"

definition progressStats :: "real \<Rightarrow> real \<Rightarrow> nat \<Rightarrow> nat \<Rightarrow> NavigationStats" where
  \<comment> \<open>The statistics of a fix that is not approaching the start. The index and the
      number of points are integers, so \<open>totalPathPoints - 1\<close> is exact; \<open>parseFloat\<close>
      returns the double nearest to the decimal it reads.\<close>
  "progressStats totalDistanceKm totalDurationMinutes newClosestPointIndex totalPathPoints =
     (let progressRatio =
            (if totalPathPoints > 1
             then js_quot (real newClosestPointIndex) (real totalPathPoints - 1) else 0);
          remainingKm' = js_times totalDistanceKm (js_minus 1 progressRatio);
          etaMinutes' = js_times totalDurationMinutes (js_minus 1 progressRatio);
          progressPercent' = Math_round (js_times progressRatio 100)
      in \<lparr>remainingKm = fl64 (toFixed1 remainingKm'),
          etaMinutes = Math_round etaMinutes',
          progressPercent = max 0 (min 100 progressPercent')\<rparr>)"

definition activeRouteOf :: "Nav \<Rightarrow> Route option" where
  \<comment> \<open>\<open>emergencyRouteRef.current || safeRouteRef.current\<close>\<close>
  "activeRouteOf s = (case emergencyRouteRef s of Some r \<Rightarrow> Some r | None \<Rightarrow> safeRouteRef s)"

definition trackProgress :: "Location \<Rightarrow> Nav \<Rightarrow> Nav" where
  "trackProgress currentLiveLocation s =
     (case activeRouteOf s of
        None \<Rightarrow> s
      | Some activeRoute \<Rightarrow>
          (let totalDistanceKm = distanceKm activeRoute;
               totalDurationMinutes = durationMinutes activeRoute;
               routePath = path activeRoute;
               newClosestPointIndex =
                 closestPointIndex
                   (getPathDataFromLocation currentLiveLocation routePath (closestPathIndex s));
               distanceToStart = calculateDistance currentLiveLocation (start activeRoute);
               wasApproaching = isApproachingStart s;
               isNowApproaching =
                 (emergencyRouteRef s = None \<and> newClosestPointIndex = 0 \<and>
                  distanceToStart > APPROACHING_START_THRESHOLD_KM)
           in if isNowApproaching then
                s\<lparr>isApproachingStart := True,
                  routeMessage := ProceedToStart (toFixed1 distanceToStart),
                  navigationStats := Some
                    \<lparr>remainingKm =
                       (case initialRouteSnapshot s of
                          Some snap \<Rightarrow> snapshotDistanceKm snap | None \<Rightarrow> totalDistanceKm),
                     etaMinutes =
                       (case initialRouteSnapshot s of
                          Some snap \<Rightarrow> snapshotDurationMinutes snap
                        | None \<Rightarrow> totalDurationMinutes),
                     progressPercent = 0\<rparr>\<rparr>
              else
                (let s1 = (if wasApproaching
                           then triggerNavigationAlert \<lparr>animal = None, message = ReachedStart\<rparr>
                                  (s\<lparr>isApproachingStart := False\<rparr>)
                           else s)
                 in s1\<lparr>closestPathIndex := newClosestPointIndex,
                       navigationStats := Some
                         (progressStats totalDistanceKm totalDurationMinutes
                            newClosestPointIndex (length routePath))\<rparr>)))"

definition liveLocationOf :: "PositionFix \<Rightarrow> Location" where
  "liveLocationOf fix = \<lparr>lat = latitude fix, lon = longitude fix, name = ''Live Location''\<rparr>"

definition beforeAnimalCheck :: "PositionFix \<Rightarrow> Nav \<Rightarrow> Nav" where
  \<comment> \<open>The handler up to the animal alerts: stale signal-loss alert, live position,
      weather.\<close>
  "beforeAnimalCheck fix s =
     checkWeather fix ((clearStaleSignalLost s)\<lparr>liveLocation := Some (liveLocationOf fix)\<rparr>)"

definition handlePosition :: "PositionFix \<Rightarrow> Nav \<Rightarrow> Nav" where
  "handlePosition fix s =
     (let s3 = beforeAnimalCheck fix s;
          s4 = alertNearbyAnimals (liveLocationOf fix) (animalsNearRouteRef s3) s3
      in trackProgress (liveLocationOf fix) s4)"

subsection \<open>Start, stop, emergency reroute\<close>

definition stopNavigation :: "Nav \<Rightarrow> Nav" where
  "stopNavigation s =
     s\<lparr>watching := False,
       isNavigating := False,
       closestPathIndex := 0,
       liveLocation := None,
       navigationStats := None,
       navigationAlert := None,
       weatherAlert := None,
       safeRoute := None,
       alternativeRoute := None,
       safePlaces := [],
       animalsNearRoute := [],
       emergencyRoute := None,
       alternativeEmergencyRoute := None,
       isApproachingStart := False,
       initialRouteSnapshot := None,
       shownAnimalAlerts := {}\<rparr>"

definition startNavigation :: "Route option \<Rightarrow> Nav \<Rightarrow> Nav" where
  \<comment> \<open>\<open>None\<close> is a call without a usable route (no route, or one without start or
      end).\<close>
  "startNavigation routeToNavigate s =
     (case routeToNavigate of
        None \<Rightarrow> s\<lparr>routeMessage := CannotStartNavigation, routeStatus := ERROR\<rparr>
      | Some route \<Rightarrow>
          s\<lparr>shownAnimalAlerts := {},
            closestPathIndex := 0,
            emergencyRoute := None,
            alternativeEmergencyRoute := None,
            safeRoute := Some route,
            initialRouteSnapshot := Some
              \<lparr>snapshotStart = start route,
               snapshotEnd = endLoc route,
               snapshotMode = mode route,
               snapshotDistanceKm = distanceKm route,
               snapshotDurationMinutes = durationMinutes route\<rparr>,
            isNavigating := True,
            navigationAlert := None,
            weatherAlert := None,
            watching := True\<rparr>)"

fun closestPlaceLoop ::
  "Location \<Rightarrow> SafePlace list \<Rightarrow> SafePlace option \<Rightarrow> real option \<Rightarrow> SafePlace option" where
  "closestPlaceLoop userLocation [] closestPlace minDistance = closestPlace"
| "closestPlaceLoop userLocation (place # rest) closestPlace minDistance =
     (let distance = calculateDistance userLocation place
      in if belowMin distance minDistance
         then closestPlaceLoop userLocation rest (Some place) (Some distance)
         else closestPlaceLoop userLocation rest closestPlace minDistance)"

definition findClosestSafePlace :: "Location \<Rightarrow> SafePlace list \<Rightarrow> SafePlace option" where
  "findClosestSafePlace userLocation places =
     (if length places = 0 then None else closestPlaceLoop userLocation places None None)"

definition calculateRouteToNearestSafePlace ::
  "(string + Route option) \<Rightarrow> (string + Route option) \<Rightarrow> Nav \<Rightarrow> Nav" where
  \<comment> \<open>\<open>routeAnswer\<close> and \<open>altAnswer\<close> are the answers of the two calls of
      \<open>getSafeNavigationRoute\<close> (\<open>Inl\<close> where the call throws), read only where the
      call is made.\<close>
  "calculateRouteToNearestSafePlace routeAnswer altAnswer s =
     (case liveLocationRef s of
        None \<Rightarrow> s\<lparr>routeMessage := NoSafePlaces, routeStatus := ERROR\<rparr>
      | Some currentLiveLocation \<Rightarrow>
          if length (safePlaces s) = 0
          then s\<lparr>routeMessage := NoSafePlaces, routeStatus := ERROR\<rparr>
          else
            (case findClosestSafePlace currentLiveLocation (safePlaces s) of
               None \<Rightarrow> s\<lparr>routeMessage := NoClosestSafePlace, routeStatus := ERROR\<rparr>
             | Some closestPlace \<Rightarrow>
                 (case routeAnswer of
                    Inl err \<Rightarrow> s\<lparr>routeStatus := ERROR, routeMessage := RequestFailed err\<rparr>
                  | Inr None \<Rightarrow> s\<lparr>routeStatus := ERROR, routeMessage := NoRouteToSafePlace\<rparr>
                  | Inr (Some route) \<Rightarrow>
                      (let s1 = (triggerNavigationAlert
                                   \<lparr>animal = None, message = Rerouting (placeName closestPlace)\<rparr>
                                   (s\<lparr>emergencyRoute := Some route,
                                      closestPathIndex := 0,
                                      isApproachingStart := False\<rparr>))
                                 \<lparr>routeStatus := SUCCESS,
                                  routeMessage := EmergencyRouteCalculated\<rparr>
                       in case initialRouteSnapshot s1 of
                            None \<Rightarrow> s1
                          | Some snap \<Rightarrow>
                              (case altAnswer of
                                 Inl err \<Rightarrow>
                                   s1\<lparr>routeStatus := ERROR, routeMessage := RequestFailed err\<rparr>
                               | Inr altRoute \<Rightarrow>
                                   s1\<lparr>alternativeEmergencyRoute := altRoute\<rparr>)))))"

subsection \<open>The session as a run of events\<close>

datatype event =
    StartNavigation "Route option"
  | StopNavigation
  | Position PositionFix
  | WatchError
  | DismissAlert
  | DismissWeatherAlert
  | EmergencyReroute "string + Route option" "string + Route option"

fun handle :: "event \<Rightarrow> Nav \<Rightarrow> Nav" where
  \<comment> \<open>The position source calls back only while it is subscribed.\<close>
  "handle (StartNavigation r) s = startNavigation r s"
| "handle StopNavigation s = stopNavigation s"
| "handle (Position fix) s = (if watching s then handlePosition fix s else s)"
| "handle WatchError s =
     (if watching s then triggerNavigationAlert \<lparr>animal = None, message = SignalLost\<rparr> s else s)"
| "handle DismissAlert s = clearNavigationAlert s"
| "handle DismissWeatherAlert s = clearWeatherAlert s"
| "handle (EmergencyReroute routeAnswer altAnswer) s =
     calculateRouteToNearestSafePlace routeAnswer altAnswer s"

definition process :: "event \<Rightarrow> Nav \<Rightarrow> Nav" where
  \<comment> \<open>An event and the render that follows it.\<close>
  "process e s = render (handle e s)"

fun run :: "event list \<Rightarrow> Nav \<Rightarrow> Nav" where
  "run [] s = s"
| "run (e # es) s = run es (process e s)"

definition idle :: Nav where
  \<comment> \<open>The state of the hook before any navigation.\<close>
  "idle =
     \<lparr>isNavigating = False, liveLocation = None, liveLocationRef = None,
      navigationStats = None, navigationAlert = None, navigationAlertRef = None,
      weatherAlert = None, weatherAlertRef = None,
      animalsNearRoute = [], animalsNearRouteRef = [],
      closestPathIndex = 0, isApproachingStart = False,
      emergencyRoute = None, emergencyRouteRef = None, alternativeEmergencyRoute = None,
      safeRoute = None, safeRouteRef = None, alternativeRoute = None,
      safePlaces = [], routeStatus = IDLE, routeMessage = NoMessage,
      watching = False, lastWeatherCheckTimestamp = 0, initialRouteSnapshot = None,
      shownAnimalAlerts = {}, alertLog = [], weatherAlertLog = []\<rparr>"

definition hazardAlertsFor :: "string \<Rightarrow> Nav \<Rightarrow> NavigationAlert list" where
  \<comment> \<open>The hazard alerts raised so far for the hazard with the given id.\<close>
  "hazardAlertsFor h s =
     filter (\<lambda>alert. map_option animalId (animal alert) = Some h) (alertLog s)"

subsection \<open>Notions used to state the session properties\<close>

text \<open>
  A session runs from a start of the navigation to the next start or stop; the events in
  between are those of \<open>withinSession\<close>.
\<close>

fun withinSession :: "event \<Rightarrow> bool" where
  "withinSession (StartNavigation r) = False"
| "withinSession StopNavigation = False"
| "withinSession e = True"

definition hazardAlerts :: "Nav \<Rightarrow> NavigationAlert list" where
  \<comment> \<open>The alerts raised so far that carry a hazard.\<close>
  "hazardAlerts s = filter (\<lambda>alert. animal alert \<noteq> None) (alertLog s)"

text \<open>
  The first qualifying hazard as the specification words it: the first hazard of the list
  within 2 km that has not triggered an alert yet, looked for only while no alert is
  active.
\<close>

definition firstQualifyingHazard ::
  "Location \<Rightarrow> AnimalPrediction list \<Rightarrow> Nav \<Rightarrow> AnimalPrediction option" where
  "firstQualifyingHazard loc animals s =
     (if navigationAlertRef s = None
      then find (\<lambda>a. calculateDistance loc (current a) \<le> 2 \<and>
                        animalId a \<notin> shownAnimalAlerts s) animals
      else None)"

definition sessionRoute :: "Route \<Rightarrow> Nav \<Rightarrow> Route" where
  \<comment> \<open>The active route of a session started on \<open>r0\<close>.\<close>
  "sessionRoute r0 s = (case emergencyRoute s of Some r \<Rightarrow> r | None \<Rightarrow> r0)"

text \<open>
  What holds of every state inside a session started on \<open>r0\<close>: the subscription is
  active, the mirrors are up to date, the planned route and its snapshot are those of the
  start, and the matched index is 0 or an index of the active path.
\<close>

definition inSession :: "Route \<Rightarrow> Nav \<Rightarrow> bool" where
  "inSession r0 s =
     (watching s \<and> render s = s \<and> safeRoute s = Some r0 \<and>
      initialRouteSnapshot s = Some
        \<lparr>snapshotStart = start r0, snapshotEnd = endLoc r0, snapshotMode = mode r0,
         snapshotDistanceKm = distanceKm r0, snapshotDurationMinutes = durationMinutes r0\<rparr> \<and>
      (closestPathIndex s = 0 \<or> closestPathIndex s < length (path (sessionRoute r0 s))))"

definition trackingStart :: "PositionFix \<Rightarrow> Nav \<Rightarrow> Nav" where
  \<comment> \<open>The state of the handler after the animal alerts, where tracking starts.\<close>
  "trackingStart fx s =
     alertNearbyAnimals (liveLocationOf fx) (animalsNearRouteRef (beforeAnimalCheck fx s))
       (beforeAnimalCheck fx s)"

section \<open>Example inputs\<close>

text \<open>
  The examples lie on the equator, where the distance has a closed form: \<open>0\<close> from a
  point to itself, \<open>6371 * pi / 2\<close> km between points a quarter turn apart and
  \<open>6371 * pi\<close> km (half the circumference) between antipodal points.
\<close>

definition pointA :: Location where
  "pointA = \<lparr>lat = 0, lon = 0, name = ''A''\<rparr>"

definition pointB :: Location where
  "pointB = \<lparr>lat = 0, lon = 180, name = ''B''\<rparr>"

definition exampleRoute :: "point list \<Rightarrow> real \<Rightarrow> real \<Rightarrow> TravelMode \<Rightarrow> Route" where
  "exampleRoute p km minutes m =
     \<lparr>path = p, distanceKm = km, durationMinutes = minutes,
      start = pointA, endLoc = pointB, mode = m, isHighRisk = None\<rparr>"

definition notFoundThenOk :: "nat \<Rightarrow> fetchOutcome" where
  "notFoundThenOk i =
     (if i = 0 then Response 404 (Some ''Not Found'') else Response 200 (Some ''{}''))"

definition alwaysNotFound :: "nat \<Rightarrow> fetchOutcome" where
  "alwaysNotFound i = Response 404 (Some ''Not Found'')"

definition badJsonThenOk :: "nat \<Rightarrow> fetchOutcome" where
  "badJsonThenOk i =
     (if i = 0 then Response 200 (Some ''<html>'') else Response 200 (Some ''{}''))"

definition twoServerErrorsThenOk :: "nat \<Rightarrow> fetchOutcome" where
  "twoServerErrorsThenOk i =
     (if i < 2 then Response 500 (Some ''Internal Server Error'') else Response 200 (Some ''{}''))"

definition parseBraces :: "string \<Rightarrow> string option" where
  \<comment> \<open>a parser that accepts the empty object only\<close>
  "parseBraces text = (if text = ''{}'' then Some text else None)"

definition exampleBroker :: "real \<Rightarrow> polygon list \<Rightarrow> string + Route option" where
  \<comment> \<open>a routing service: 30 minutes direct, \<open>safeMinutes\<close> around the polygons\<close>
  "exampleBroker safeMinutes polys =
     (if polys = [] then Inr (Some (exampleRoute [(0, 0), (0, 180)] 20 30 Car))
      else Inr (Some (exampleRoute [(0, 0), (0, 90), (0, 180)] 26 safeMinutes Car)))"

definition tigerSet :: SightingSet where
  \<comment> \<open>three sightings, most recent first\<close>
  "tigerSet =
     \<lparr>scientificName = ''Panthera tigris'',
      sightings = [\<lparr>lat = 3, lon = 5, image = None\<rparr>,
                   \<lparr>lat = 2, lon = 4, image = None\<rparr>,
                   \<lparr>lat = 0, lon = 0, image = None\<rparr>]\<rparr>"

definition elephantSet :: SightingSet where
  \<comment> \<open>two sightings, at the doubles that the literals \<open>11.4152\<close>, \<open>76.7\<close> and
      \<open>11.4102\<close>, \<open>76.695\<close> denote\<close>
  "elephantSet =
     \<lparr>scientificName = ''Elephas maximus'',
      sightings = [\<lparr>lat = fl64 (114152 / 10000), lon = fl64 (767 / 10), image = None\<rparr>,
                   \<lparr>lat = fl64 (114102 / 10000), lon = fl64 (76695 / 1000), image = None\<rparr>]\<rparr>"

definition bearSet :: SightingSet where
  "bearSet =
     \<lparr>scientificName = ''Melursus ursinus'',
      sightings = [\<lparr>lat = 1, lon = 1, image = None\<rparr>]\<rparr>"

definition float32Library :: TensorFlow where
  \<comment> \<open>single-precision tensors with one rounding for each operation; the mean is the
      sum of the column, taken from the first entry on, divided by the number of entries\<close>
  "float32Library =
     \<lparr>toTensor = fl32,
      tensorSub = (\<lambda>a b. fl32 (a - b)),
      tensorAdd = (\<lambda>a b. fl32 (a + b)),
      tensorMean = (\<lambda>column.
        fl32 (foldl (\<lambda>acc x. fl32 (acc + x)) 0 column / real (length column)))\<rparr>"

definition exampleMath :: MathObject where
  \<comment> \<open>every call of \<open>Math.random()\<close> returns 0; cosine and sine are rounded correctly\<close>
  "exampleMath =
     \<lparr>Math_random = (\<lambda>k. 0), Math_cos = (\<lambda>x. fl64 (cos x)), Math_sin = (\<lambda>x. fl64 (sin x))\<rparr>"

definition fixAt :: "real \<Rightarrow> real \<Rightarrow> PositionFix" where
  \<comment> \<open>a fix at the given point, in clear weather\<close>
  "fixAt la lo =
     \<lparr>latitude = la, longitude = lo, now = 1700000000000,
      weatherAnswer = Some \<lparr>temperature = 20, weatherCode = 0, windSpeed = 5, isDay = 1\<rparr>,
      renderedWhileWaiting = True\<rparr>"

definition westRoute :: Route where
  "westRoute =
     \<lparr>path = [(0, 0), (0, 90)], distanceKm = 20, durationMinutes = 30,
      start = pointA, endLoc = \<lparr>lat = 0, lon = 90, name = ''Q''\<rparr>, mode = Car,
      isHighRisk = None\<rparr>"

definition twoPointRoute :: Route where
  "twoPointRoute =
     \<lparr>path = [(0, 0), (0, 180)], distanceKm = 20, durationMinutes = 30,
      start = pointA, endLoc = pointB, mode = Car, isHighRisk = None\<rparr>"

definition fourPointRoute :: Route where
  "fourPointRoute =
     \<lparr>path = [(0, 0), (0, 180), (0, 0), (0, 0)], distanceKm = 10, durationMinutes = 30,
      start = pointA, endLoc = pointA, mode = Car, isHighRisk = None\<rparr>"

definition sevenPointRoute :: Route where
  "sevenPointRoute =
     \<lparr>path = [(0, 0), (0, 0), (0, 0), (0, 0), (0, 0), (0, 180), (0, 0)],
      distanceKm = 9, durationMinutes = 9,
      start = pointA, endLoc = pointA, mode = Car, isHighRisk = None\<rparr>"

definition tiger :: AnimalPrediction where
  "tiger =
     \<lparr>animalId = ''Panthera tigris-1'', scientific = ''Panthera tigris'', common = ''Tiger'',
      emoji = ''T'', color = ''#f97316'', riskLevel = High, animalImage = None,
      current = \<lparr>lat = 0, lon = 90, addr = None, dist_km = 1\<rparr>,
      preds = [], fullPath = [], animalDistanceToPathKm = Some 0\<rparr>"

definition tigerCountry :: Nav where
  \<comment> \<open>before navigation, with one hazard known near the route\<close>
  "tigerCountry = idle\<lparr>animalsNearRoute := [tiger], animalsNearRouteRef := [tiger]\<rparr>"

section \<open>Facts about the rounding\<close>

text \<open>
  \<open>fl p\<close> returns a number with at most \<open>p\<close> significant bits unchanged (\<open>fl_exact\<close>), and
  any other number with a relative error of at most \<open>2 ^ - p\<close> (\<open>fl_error\<close>); \<open>fl_eq\<close>
  evaluates it on a number whose binade is known.
\<close>

lemma pow2_powr: "pow2 k = 2 powr (of_int k)"
proof (cases "0 \<le> k")
  case True
  then have "(2::real) powr (of_int k) = 2 powr (real (nat k))" by simp
  also have "\<dots> = 2 ^ nat k" by (simp add: powr_realpow)
  finally show ?thesis using True by (simp add: pow2_def)
next
  case False
  then have "(2::real) powr (of_int k) = 2 powr (- real (nat (- k)))" by simp
  also have "\<dots> = 1 / 2 ^ nat (- k)" by (simp add: powr_minus powr_realpow divide_inverse)
  finally show ?thesis using False by (simp add: pow2_def)
qed

lemma pow2_pos: "0 < pow2 k"
  by (simp add: pow2_powr)

lemma fl_eq:
  assumes "pow2 k \<le> \<bar>x\<bar>" and "\<bar>x\<bar> < pow2 (k + 1)"
    and "roundHalfEven (x / pow2 (k - p + 1)) = n"
  shows "fl p x = of_int n * pow2 (k - p + 1)"
proof -
  from assms(1) pow2_pos[of k] have nz: "x \<noteq> 0" by auto
  then have pos: "0 < \<bar>x\<bar>" by simp
  have "\<lfloor>log 2 \<bar>x\<bar>\<rfloor> = k"
    using assms(1,2) floor_log_eq_powr_iff[OF pos, of 2 k] by (simp add: pow2_powr)
  with nz assms(3) show ?thesis by (simp add: fl_def Let_def)
qed

lemma roundHalfEven_near: "\<bar>of_int (roundHalfEven r) - r\<bar> \<le> 1 / 2"
  unfolding roundHalfEven_def Let_def by (auto; linarith)

lemma fl_error: "\<bar>fl p x - x\<bar> \<le> \<bar>x\<bar> / 2 ^ nat p" if "0 \<le> p"
proof (cases "x = 0")
  case True then show ?thesis by (simp add: fl_def)
next
  case False
  define e where "e = \<lfloor>log 2 \<bar>x\<bar>\<rfloor>"
  define u where "u = pow2 (e - p + 1)"
  have up: "0 < u" by (simp add: u_def pow2_pos)
  have "fl p x = of_int (roundHalfEven (x / u)) * u"
    using False by (simp add: fl_def Let_def e_def u_def)
  then have "fl p x - x = (of_int (roundHalfEven (x / u)) - x / u) * u"
    using up by (simp add: algebra_simps)
  then have "\<bar>fl p x - x\<bar> = \<bar>of_int (roundHalfEven (x / u)) - x / u\<bar> * u"
    using up by (simp add: abs_mult)
  also have "\<dots> \<le> 1 / 2 * u"
    using roundHalfEven_near[of "x / u"] up by (intro mult_right_mono) auto
  also have "1 / 2 * u = pow2 e / 2 ^ nat p"
    using that by (simp add: u_def pow2_powr powr_diff powr_add powr_realpow[symmetric] field_simps)
  also have "pow2 e \<le> \<bar>x\<bar>"
  proof -
    have "0 < \<bar>x\<bar>" using False by simp
    from floor_log_eq_powr_iff[OF this, of 2 e] show ?thesis by (simp add: e_def pow2_powr)
  qed
  finally show ?thesis by (simp add: divide_right_mono)
qed


lemma roundHalfEven_int: "roundHalfEven (of_int n) = n"
  by (simp add: roundHalfEven_def Let_def)

lemma pow2_add: "pow2 (a + b) = pow2 a * pow2 b"
  by (simp add: pow2_powr powr_add)

lemma pow2_nat: "0 \<le> k \<Longrightarrow> pow2 k = of_int (2 ^ nat k)"
  by (simp add: pow2_def)

lemma pow2_mono: "a \<le> b \<Longrightarrow> pow2 a \<le> pow2 b"
  by (simp add: pow2_powr)

lemma pow2_less: "pow2 a < pow2 b \<Longrightarrow> a < b"
  by (simp add: pow2_powr)

lemma fl_exact:
  assumes x: "x = of_int n * pow2 j" and n: "\<bar>n\<bar> < 2 ^ nat p" and p: "0 \<le> p"
  shows "fl p x = x"
proof (cases "x = 0")
  case True then show ?thesis by (simp add: fl_def)
next
  case False
  define e where "e = \<lfloor>log 2 \<bar>x\<bar>\<rfloor>"
  have pos: "0 < \<bar>x\<bar>" using False by simp
  from floor_log_eq_powr_iff[OF pos, of 2 e]
  have lo: "pow2 e \<le> \<bar>x\<bar>" by (simp add: e_def pow2_powr)
  have "\<bar>x\<bar> = of_int \<bar>n\<bar> * pow2 j" using x pow2_pos[of j] by (simp add: abs_mult)
  also have "\<dots> < of_int (2 ^ nat p) * pow2 j"
    using n pow2_pos[of j] by (intro mult_strict_right_mono) (simp_all del: of_int_power add: of_int_less_iff)
  also have "\<dots> = pow2 (p + j)" using p by (simp add: pow2_add pow2_nat)
  finally have "pow2 e < pow2 (p + j)" using lo by simp
  then have le: "0 \<le> j - (e - p + 1)" using pow2_less by fastforce
  have "x / pow2 (e - p + 1) = of_int n * pow2 (j - (e - p + 1))"
    using x pow2_add[of "j - (e - p + 1)" "e - p + 1"] pow2_pos[of "e - p + 1"]
    by (simp add: field_simps)
  also have "\<dots> = of_int (n * 2 ^ nat (j - (e - p + 1)))"
    using le by (simp add: pow2_nat)
  finally have "roundHalfEven (x / pow2 (e - p + 1)) = n * 2 ^ nat (j - (e - p + 1))"
    by (simp only: roundHalfEven_int)
  then have "fl p x = of_int (n * 2 ^ nat (j - (e - p + 1))) * pow2 (e - p + 1)"
    using False by (simp add: fl_def Let_def e_def)
  also have "\<dots> = of_int n * (pow2 (j - (e - p + 1)) * pow2 (e - p + 1))"
    using le by (simp add: pow2_nat)
  also have "\<dots> = x" using x pow2_add[of "j - (e - p + 1)" "e - p + 1"] by simp
  finally show ?thesis .
qed

lemma fl_pos:
  assumes "0 < x" and "1 \<le> p"
  shows "0 < fl p x"
proof -
  define e where "e = \<lfloor>log 2 \<bar>x\<bar>\<rfloor>"
  define u where "u = pow2 (e - p + 1)"
  have pos: "0 < \<bar>x\<bar>" using assms by simp
  from floor_log_eq_powr_iff[OF pos, of 2 e]
  have lo: "pow2 e \<le> x" using assms by (simp add: e_def pow2_powr)
  have up: "0 < u" by (simp add: u_def pow2_pos)
  have "pow2 e = pow2 (p - 1) * u" using pow2_add[of "p - 1" "e - p + 1"] by (simp add: u_def)
  moreover have "1 \<le> pow2 (p - 1)" using pow2_mono[of 0 "p - 1"] assms by (simp add: pow2_def)
  ultimately have "u \<le> pow2 e" using up by (simp add: mult_le_cancel_right2)
  with lo have "1 \<le> x / u" using up by simp
  then have "1 \<le> \<lfloor>x / u\<rfloor>" by simp
  then have "1 \<le> roundHalfEven (x / u)" by (auto simp: roundHalfEven_def Let_def)
  then have "0 < of_int (roundHalfEven (x / u)) * u" using up by simp
  then show ?thesis using assms by (simp add: fl_def Let_def e_def u_def)
qed


lemma Math_round_nearest:
  "Math_round x \<in> \<int> \<and> x - 1 / 2 < Math_round x \<and> Math_round x \<le> x + 1 / 2"
  unfolding Math_round_def by (simp; linarith)

lemma toFixed1_nearest:
  "(\<exists>n::int. toFixed1 x = of_int n / 10) \<and> \<bar>toFixed1 x - x\<bar> \<le> 1 / 20"
proof
  show "\<exists>n::int. toFixed1 x = of_int n / 10"
  proof (cases "x < 0")
    case True
    then have "toFixed1 x = of_int (- \<lfloor>- x * 10 + 1 / 2\<rfloor>) / 10" by (simp add: toFixed1_def)
    then show ?thesis by blast
  next
    case False
    then have "toFixed1 x = of_int \<lfloor>x * 10 + 1 / 2\<rfloor> / 10" by (simp add: toFixed1_def)
    then show ?thesis by blast
  qed
  show "\<bar>toFixed1 x - x\<bar> \<le> 1 / 20"
  proof (cases "x < 0")
    case True
    define n where "n = \<lfloor>- x * 10 + 1 / 2\<rfloor>"
    have "of_int n \<le> - x * 10 + 1 / 2" "- x * 10 + 1 / 2 < of_int n + 1"
      unfolding n_def by linarith+
    then have "\<bar>- (of_int n / 10) - x\<bar> \<le> 1 / 20" by linarith
    with True show ?thesis by (simp add: toFixed1_def n_def)
  next
    case False
    define n where "n = \<lfloor>x * 10 + 1 / 2\<rfloor>"
    have "of_int n \<le> x * 10 + 1 / 2" "x * 10 + 1 / 2 < of_int n + 1"
      unfolding n_def by linarith+
    then have "\<bar>of_int n / 10 - x\<bar> \<le> 1 / 20" by linarith
    with False show ?thesis by (simp add: toFixed1_def n_def)
  qed
qed

section \<open>Facts about the distance\<close>

lemma calculateDistance_same:
  "lat a = lat b \<Longrightarrow> lon a = lon b \<Longrightarrow> calculateDistance a b = 0"
  by (simp add: calculateDistance_def)

lemma calculateDistance_antipodal:
  "lat a = 0 \<Longrightarrow> lat b = 0 \<Longrightarrow> lon b - lon a = 180 \<Longrightarrow> calculateDistance a b = 6371 * pi"
  by (simp add: calculateDistance_def)

lemma calculateDistance_antipodal':
  "lat a = 0 \<Longrightarrow> lat b = 0 \<Longrightarrow> lon b - lon a = - 180 \<Longrightarrow> calculateDistance a b = 6371 * pi"
  by (simp add: calculateDistance_def)

lemma calculateDistance_quarter:
  assumes "lat a = 0" "lat b = 0" "lon b - lon a = 90 \<or> lon b - lon a = - 90"
  shows "calculateDistance a b = 6371 * pi / 2"
proof -
  have c: "cos ((lon b - lon a) * pi / 180) = 0"
    using assms(3) by auto
  have "sqrt (1 / 2) = 1 / sqrt 2" by (simp add: real_sqrt_divide)
  then have "arcsin (sqrt (1 / 2)) = pi / 4" by (simp add: arcsin_one_over_sqrt_2)
  then show ?thesis
    using assms(1,2) c by (simp add: calculateDistance_def)
qed

lemma pointA_pointB_distance: "calculateDistance pointA pointB = 6371 * pi"
  by (simp add: calculateDistance_antipodal pointA_def pointB_def)

section \<open>Resilient fetch\<close>

text \<open>What the helper does as intended: no more calls than \<open>retries\<close>, and a server-class
  status is retried with a doubled delay.\<close>

lemma fetchLoop_calls: "calls (fetchLoop fetch parse n i delay lastErr slept) \<le> i + n"
proof (induction n arbitrary: i delay lastErr slept)
  case 0
  show ?case by simp
next
  case (Suc n)
  show ?case
  proof (cases "tryBody parse (fetch i)")
    case (Returned v)
    then show ?thesis by simp
  next
    case (Continued e)
    with Suc[of "i + 1" "delay * 2" "Some e" "slept @ [delay]"] show ?thesis by simp
  next
    case (Thrown e)
    with Suc[of "i + 1" "delay * 2" "Some e" "slept @ [delay]"] show ?thesis by simp
  qed
qed

lemma fetchJson_calls: "calls (fetchJson fetch parse retries initialDelay) \<le> retries"
  using fetchLoop_calls[of fetch parse retries 0 initialDelay None "[]"]
  by (simp add: fetchJson_def)

lemma fetchJson_server_errors_retried:
  "fetchJson twoServerErrorsThenOk parseBraces 3 1000 =
     \<lparr>outcome = Inr (Some ''{}''), calls = 3, sleeps = [1000, 2000],
      lastError = Some (ApiError 500)\<rparr>"
  by (simp add: fetchJson_def eval_nat_numeral tryBody_def twoServerErrorsThenOk_def
      parseBraces_def)

text \<open>
  Claim C1. The helper is to fail at once, without a retry, on a client-class (4xx) status
  and on a body that does not parse, and to retry only server-class statuses and transport
  failures. In the source both \<open>throw\<close> statements stand inside the \<open>try\<close> block whose
  \<open>catch\<close> sleeps and goes on to the next iteration, so they are retried like a transport
  failure: a 404 followed by a 200 returns the body of the second call, three 404 make
  three calls and sleep 1 s, 2 s and 4 s, and an unparsable body followed by a 200 returns
  the body of the second call.
\<close>

theorem fetchJson_retries_client_error:
  "fetchJson notFoundThenOk parseBraces 3 1000 =
     \<lparr>outcome = Inr (Some ''{}''), calls = 2, sleeps = [1000],
      lastError = Some (ApiError 404)\<rparr>
   \<and> fetchJson alwaysNotFound parseBraces 3 1000 =
     \<lparr>outcome = Inl DataNotFetched, calls = 3, sleeps = [1000, 2000, 4000],
      lastError = Some (ApiError 404)\<rparr>
   \<and> fetchJson badJsonThenOk parseBraces 3 1000 =
     \<lparr>outcome = Inr (Some ''{}''), calls = 2, sleeps = [1000], lastError = Some InvalidJson\<rparr>"
  by (simp add: fetchJson_def eval_nat_numeral tryBody_def notFoundThenOk_def alwaysNotFound_def
      badJsonThenOk_def parseBraces_def)

section \<open>Route arbitration\<close>

text \<open>
  Claim C2. With avoidance polygons and a direct route, the answer to the request for a safe
  alternative decides: a safe alternative whose duration is below both 2.5 times the direct
  duration and the direct duration plus 120 minutes becomes the primary route, and the
  direct route, flagged high-risk, the alternative; in every other case the direct route,
  flagged high-risk, is primary and whatever was returned (a route or none) is the
  alternative.
\<close>

theorem calculateSafeRoute_arbitration:
  assumes "getRoute [] = Inr (Some direct)"
    and "avoidancePolygons \<noteq> []"
    and "getRoute avoidancePolygons = Inr safeAlternative"
  shows "\<exists>A. calculateSafeRoute getRoute avoidancePolygons = Inr A \<and>
     (case safeAlternative of
        Some safe \<Rightarrow>
          if durationMinutes safe < durationMinutes direct * 2.5 \<and>
             durationMinutes safe < durationMinutes direct + 120
          then finalRoute A = safe \<and> alternative A = Some (direct\<lparr>isHighRisk := Some True\<rparr>)
          else finalRoute A = direct\<lparr>isHighRisk := Some True\<rparr> \<and> alternative A = Some safe
      | None \<Rightarrow> finalRoute A = direct\<lparr>isHighRisk := Some True\<rparr> \<and> alternative A = None)"
  using assms
  by (simp add: calculateSafeRoute_def chooseRoute_def DURATION_MULTIPLIER_THRESHOLD_def
      DURATION_ABSOLUTE_THRESHOLD_MINS_def Let_def split: option.splits)

text \<open>The scenario of the specification: 30 minutes direct, 40 minutes safe.\<close>

theorem calculateSafeRoute_arbitration_witness:
  "\<exists>A. calculateSafeRoute (exampleBroker 40) [[[0, 90]]] = Inr A \<and>
        finalRoute A = exampleRoute [(0, 0), (0, 90), (0, 180)] 26 40 Car \<and>
        alternative A =
          Some ((exampleRoute [(0, 0), (0, 180)] 20 30 Car)\<lparr>isHighRisk := Some True\<rparr>)"
  using calculateSafeRoute_arbitration[of "exampleBroker 40"
      "exampleRoute [(0, 0), (0, 180)] 20 30 Car" "[[[0, 90]]]"
      "Some (exampleRoute [(0, 0), (0, 90), (0, 180)] 26 40 Car)"]
  by (simp add: exampleBroker_def exampleRoute_def)

section \<open>Route plausibility\<close>

lemma impliedAverageSpeed_positive:
  assumes "0 < durationMinutes r"
  shows "impliedAverageSpeed r =
         Fin (js_quot (distanceKm r) (js_quot (durationMinutes r) 60))"
proof -
  from assms have "0 < durationMinutes r / 60" by simp
  then have "0 < js_quot (durationMinutes r) 60"
    unfolding js_quot_def fl64_def by (rule fl_pos) simp
  then show ?thesis by (simp add: impliedAverageSpeed_def js_div_def)
qed

lemma isRouteReasonable_speed:
  assumes "0 < durationMinutes r" and "distanceKm r \<le> 7 * calculateDistance s e"
    and "js_quot (distanceKm r) (js_quot (durationMinutes r) 60) = v"
  shows "isRouteReasonable r s e = (minSpeed (mode r) \<le> v \<and> v \<le> maxSpeed (mode r))"
  using assms by (auto simp: isRouteReasonable_def Let_def)

lemma exampleRoute_sel:
  "distanceKm (exampleRoute p km minutes m) = km"
  "durationMinutes (exampleRoute p km minutes m) = minutes"
  "mode (exampleRoute p km minutes m) = m"
  by (simp_all add: exampleRoute_def)

text \<open>The quotients of the examples, as doubles.\<close>

lemma quot_60_60: "js_quot 60 60 = 1"
  unfolding js_quot_def fl64_def
  by (subst fl_exact[where n = "1" and j = "0"]) (simp_all add: pow2_def)

lemma quot_11_60: "js_quot 11 60 = 6605279453476727 / 2 ^ 55"
  unfolding js_quot_def fl64_def
  by (subst fl_eq[where k = "-3" and n = "6605279453476727"])
     (simp_all add: pow2_def roundHalfEven_def Let_def)

lemma quot_22_11: "js_quot 22 (6605279453476727 / 2 ^ 55) = 8444249301319681 / 2 ^ 46"
  unfolding js_quot_def fl64_def
  by (subst fl_eq[where k = "6" and n = "8444249301319681"])
     (simp_all add: pow2_def roundHalfEven_def Let_def)

lemma quot_1_1: "js_quot 1 1 = 1"
  unfolding js_quot_def fl64_def
  by (subst fl_exact[where n = "1" and j = "0"]) (simp_all add: pow2_def)

lemma quot_5_1: "js_quot 5 1 = 5"
  unfolding js_quot_def fl64_def
  by (subst fl_exact[where n = "5" and j = "0"]) (simp_all add: pow2_def)

lemma quot_50_1: "js_quot 50 1 = 50"
  unfolding js_quot_def fl64_def
  by (subst fl_exact[where n = "25" and j = "1"]) (simp_all add: pow2_def)

lemma quot_200_1: "js_quot 200 1 = 200"
  unfolding js_quot_def fl64_def
  by (subst fl_exact[where n = "25" and j = "3"]) (simp_all add: pow2_def)

lemma double_12_10: "fl64 (12 / 10) = 5404319552844595 / 2 ^ 52"
  unfolding fl64_def
  by (subst fl_eq[where k = "0" and n = "5404319552844595"])
     (simp_all add: pow2_def roundHalfEven_def Let_def)

lemma quot_9_60: "js_quot 9 60 = 5404319552844595 / 2 ^ 55"
  unfolding js_quot_def fl64_def
  by (subst fl_eq[where k = "-3" and n = "5404319552844595"])
     (simp_all add: pow2_def roundHalfEven_def Let_def)

lemma quot_12_9: "js_quot (5404319552844595 / 2 ^ 52) (5404319552844595 / 2 ^ 55) = 8"
  unfolding js_quot_def fl64_def
  by (subst fl_exact[where n = "1" and j = "3"]) (simp_all add: pow2_def)

lemma speed_22_in_11: "impliedAverageSpeed (exampleRoute p 22 11 m) = Fin (8444249301319681 / 2 ^ 46)"
proof -
  have "0 < durationMinutes (exampleRoute p 22 11 m)" by (simp add: exampleRoute_sel)
  from impliedAverageSpeed_positive[OF this] show ?thesis
    unfolding exampleRoute_sel quot_11_60 quot_22_11 .
qed

lemma speed_1_in_60: "impliedAverageSpeed (exampleRoute p 1 60 m) = Fin 1"
proof -
  have "0 < durationMinutes (exampleRoute p 1 60 m)" by (simp add: exampleRoute_sel)
  from impliedAverageSpeed_positive[OF this] show ?thesis
    unfolding exampleRoute_sel quot_60_60 quot_1_1 .
qed

lemma speed_5_in_60: "impliedAverageSpeed (exampleRoute p 5 60 m) = Fin 5"
proof -
  have "0 < durationMinutes (exampleRoute p 5 60 m)" by (simp add: exampleRoute_sel)
  from impliedAverageSpeed_positive[OF this] show ?thesis
    unfolding exampleRoute_sel quot_60_60 quot_5_1 .
qed

lemma speed_50_in_60: "impliedAverageSpeed (exampleRoute p 50 60 m) = Fin 50"
proof -
  have "0 < durationMinutes (exampleRoute p 50 60 m)" by (simp add: exampleRoute_sel)
  from impliedAverageSpeed_positive[OF this] show ?thesis
    unfolding exampleRoute_sel quot_60_60 quot_50_1 .
qed

lemma speed_200_in_60: "impliedAverageSpeed (exampleRoute p 200 60 m) = Fin 200"
proof -
  have "0 < durationMinutes (exampleRoute p 200 60 m)" by (simp add: exampleRoute_sel)
  from impliedAverageSpeed_positive[OF this] show ?thesis
    unfolding exampleRoute_sel quot_60_60 quot_200_1 .
qed

text \<open>
  Claim C3, as the code has it. A route is rejected when its distance exceeds 7 times the
  straight-line distance, and, when its duration is positive, when its implied average
  speed, the quotient \<open>distance / (duration / 60)\<close> as the doubles give it, lies outside
  the band of its mode: 10 to 120 km/h for a car, 10 to 100 for a bus, 8 to 35 for a bike,
  2 to 8 on foot. The broker answers a rejected route with no route. So a route 8 times
  as long as a positive straight-line distance is rejected, a car route of positive
  duration averaging 200 km/h is rejected, and a walk route of positive duration
  averaging 5 km/h that is at most 7 times as long as the straight line is accepted.
\<close>

theorem isRouteReasonable_rejects:
  "(distanceKm r > 7 * calculateDistance s e \<longrightarrow> \<not> isRouteReasonable r s e) \<and>
   (durationMinutes r > 0 \<and> mode r = Car \<and>
    (js_lt (impliedAverageSpeed r) 10 \<or> js_gt (impliedAverageSpeed r) 120)
      \<longrightarrow> \<not> isRouteReasonable r s e) \<and>
   (durationMinutes r > 0 \<and> mode r = Bus \<and>
    (js_lt (impliedAverageSpeed r) 10 \<or> js_gt (impliedAverageSpeed r) 100)
      \<longrightarrow> \<not> isRouteReasonable r s e) \<and>
   (durationMinutes r > 0 \<and> mode r = Bike \<and>
    (js_lt (impliedAverageSpeed r) 8 \<or> js_gt (impliedAverageSpeed r) 35)
      \<longrightarrow> \<not> isRouteReasonable r s e) \<and>
   (durationMinutes r > 0 \<and> mode r = Walk \<and>
    (js_lt (impliedAverageSpeed r) 2 \<or> js_gt (impliedAverageSpeed r) 8)
      \<longrightarrow> \<not> isRouteReasonable r s e) \<and>
   (\<not> isRouteReasonable r s e \<longrightarrow> getSafeNavigationRoute' (Inr (Some r)) s e = Inr None) \<and>
   (0 < calculateDistance s e \<and> distanceKm r = 8 * calculateDistance s e
      \<longrightarrow> \<not> isRouteReasonable r s e) \<and>
   (mode r = Car \<and> durationMinutes r > 0 \<and> impliedAverageSpeed r = Fin 200
      \<longrightarrow> \<not> isRouteReasonable r s e) \<and>
   (mode r = Walk \<and> durationMinutes r > 0 \<and> impliedAverageSpeed r = Fin 5 \<and>
    distanceKm r \<le> 7 * calculateDistance s e \<longrightarrow> isRouteReasonable r s e)"
proof (cases "0 < durationMinutes r")
  case True
  note v = impliedAverageSpeed_positive[OF True]
  show ?thesis
    unfolding v by (auto simp: isRouteReasonable_def Let_def getSafeNavigationRoute'_def)
next
  case False
  then show ?thesis
    by (auto simp: isRouteReasonable_def Let_def getSafeNavigationRoute'_def)
qed

text \<open>
  Among the examples is a car route of 22 km in 11 minutes: the doubles give it a speed
  of 120.00000000000001 km/h and the route is rejected.
\<close>

theorem isRouteReasonable_rejects_witness:
  "\<not> isRouteReasonable (exampleRoute [] 200000 6000 Car) pointA pointB \<and>
   \<not> isRouteReasonable (exampleRoute [] 22 11 Car) pointA pointB \<and>
   \<not> isRouteReasonable (exampleRoute [] 5 60 Bus) pointA pointB \<and>
   \<not> isRouteReasonable (exampleRoute [] 50 60 Bike) pointA pointB \<and>
   \<not> isRouteReasonable (exampleRoute [] 1 60 Walk) pointA pointB \<and>
   getSafeNavigationRoute' (Inr (Some (exampleRoute [] 22 11 Car))) pointA pointB = Inr None \<and>
   \<not> isRouteReasonable (exampleRoute [] (8 * (6371 * pi)) 60000 Car) pointA pointB \<and>
   \<not> isRouteReasonable (exampleRoute [] 200 60 Car) pointA pointB \<and>
   isRouteReasonable (exampleRoute [] 5 60 Walk) pointA pointB"
proof -
  have far: "\<not> isRouteReasonable (exampleRoute [] 200000 6000 Car) pointA pointB"
    using isRouteReasonable_rejects[where r = "exampleRoute [] 200000 6000 Car"
        and s = pointA and e = pointB] pi_less_4
    by (simp add: pointA_pointB_distance exampleRoute_sel)
  have car: "\<not> isRouteReasonable (exampleRoute [] 22 11 Car) pointA pointB"
    using isRouteReasonable_rejects[where r = "exampleRoute [] 22 11 Car"
        and s = pointA and e = pointB]
    by (simp add: exampleRoute_sel speed_22_in_11)
  have broker:
    "getSafeNavigationRoute' (Inr (Some (exampleRoute [] 22 11 Car))) pointA pointB = Inr None"
    using isRouteReasonable_rejects[where r = "exampleRoute [] 22 11 Car"
        and s = pointA and e = pointB]
    by (simp add: exampleRoute_sel speed_22_in_11)
  have bus: "\<not> isRouteReasonable (exampleRoute [] 5 60 Bus) pointA pointB"
    using isRouteReasonable_rejects[where r = "exampleRoute [] 5 60 Bus"
        and s = pointA and e = pointB]
    by (simp add: exampleRoute_sel speed_5_in_60)
  have bike: "\<not> isRouteReasonable (exampleRoute [] 50 60 Bike) pointA pointB"
    using isRouteReasonable_rejects[where r = "exampleRoute [] 50 60 Bike"
        and s = pointA and e = pointB]
    by (simp add: exampleRoute_sel speed_50_in_60)
  have walk: "\<not> isRouteReasonable (exampleRoute [] 1 60 Walk) pointA pointB"
    using isRouteReasonable_rejects[where r = "exampleRoute [] 1 60 Walk"
        and s = pointA and e = pointB]
    by (simp add: exampleRoute_sel speed_1_in_60)
  have eight: "\<not> isRouteReasonable (exampleRoute [] (8 * (6371 * pi)) 60000 Car) pointA pointB"
    using isRouteReasonable_rejects[where r = "exampleRoute [] (8 * (6371 * pi)) 60000 Car"
        and s = pointA and e = pointB] pi_ge_two
    by (simp add: pointA_pointB_distance exampleRoute_sel)
  have fast: "\<not> isRouteReasonable (exampleRoute [] 200 60 Car) pointA pointB"
    using isRouteReasonable_rejects[where r = "exampleRoute [] 200 60 Car"
        and s = pointA and e = pointB]
    by (simp add: exampleRoute_sel speed_200_in_60)
  have stroll: "isRouteReasonable (exampleRoute [] 5 60 Walk) pointA pointB"
    using isRouteReasonable_rejects[where r = "exampleRoute [] 5 60 Walk"
        and s = pointA and e = pointB] pi_ge_two
    by (simp add: pointA_pointB_distance exampleRoute_sel speed_5_in_60)
  from far car bus bike walk broker eight fast stroll show ?thesis by simp
qed

text \<open>
  The claim as stated fails in four places. Where the duration is 0, one kilometre in zero
  minutes is an infinite implied speed, outside the band of a car, and the route is
  accepted. A route 8 times as long as a straight-line distance of 0 is accepted. A walk
  route averaging 5 km/h between two places at distance 0 is rejected, for its length.
  And the speed is the quotient that the doubles give: 1.2 km by bike in 9 minutes is
  accepted with a computed speed of 8 km/h, although the exact quotient of the distance
  (the double nearest to 1.2) by the duration is below 8.
\<close>

theorem isRouteReasonable_not_as_stated:
  "isRouteReasonable (exampleRoute [] 1 0 Car) pointA pointB \<and>
   js_gt (impliedAverageSpeed (exampleRoute [] 1 0 Car)) 120 \<and>
   isRouteReasonable (exampleRoute [] 0 0 Car) pointA pointA \<and>
   distanceKm (exampleRoute [] 0 0 Car) = 8 * calculateDistance pointA pointA \<and>
   \<not> isRouteReasonable (exampleRoute [] 5 60 Walk) pointA pointA \<and>
   impliedAverageSpeed (exampleRoute [] 5 60 Walk) = Fin 5 \<and>
   isRouteReasonable (exampleRoute [] (fl64 (12 / 10)) 9 Bike) pointA pointB \<and>
   distanceKm (exampleRoute [] (fl64 (12 / 10)) 9 Bike) /
     (durationMinutes (exampleRoute [] (fl64 (12 / 10)) 9 Bike) / 60) < 8"
proof -
  have zero: "isRouteReasonable (exampleRoute [] 1 0 Car) pointA pointB"
    using pi_ge_two
    by (simp add: isRouteReasonable_def pointA_pointB_distance exampleRoute_sel)
  have inf: "js_gt (impliedAverageSpeed (exampleRoute [] 1 0 Car)) 120"
    by (simp add: impliedAverageSpeed_def exampleRoute_sel js_div_def js_quot_def fl64_def
        fl_def)
  have nowhere: "isRouteReasonable (exampleRoute [] 0 0 Car) pointA pointA"
    by (simp add: isRouteReasonable_def calculateDistance_same exampleRoute_sel)
  have eight: "distanceKm (exampleRoute [] 0 0 Car) = 8 * calculateDistance pointA pointA"
    by (simp add: calculateDistance_same exampleRoute_sel)
  have stroll: "\<not> isRouteReasonable (exampleRoute [] 5 60 Walk) pointA pointA"
    by (simp add: isRouteReasonable_def calculateDistance_same exampleRoute_sel)
  have km: "distanceKm (exampleRoute [] (fl64 (12 / 10)) 9 Bike) = 5404319552844595 / 2 ^ 52"
    unfolding exampleRoute_sel double_12_10 ..
  have "isRouteReasonable (exampleRoute [] (fl64 (12 / 10)) 9 Bike) pointA pointB =
        (minSpeed (mode (exampleRoute [] (fl64 (12 / 10)) 9 Bike)) \<le> 8 \<and>
         8 \<le> maxSpeed (mode (exampleRoute [] (fl64 (12 / 10)) 9 Bike)))"
  proof (rule isRouteReasonable_speed)
    show "0 < durationMinutes (exampleRoute [] (fl64 (12 / 10)) 9 Bike)"
      by (simp add: exampleRoute_sel)
    show "distanceKm (exampleRoute [] (fl64 (12 / 10)) 9 Bike)
            \<le> 7 * calculateDistance pointA pointB"
      unfolding km using pi_ge_two by (simp add: pointA_pointB_distance)
    show "js_quot (distanceKm (exampleRoute [] (fl64 (12 / 10)) 9 Bike))
            (js_quot (durationMinutes (exampleRoute [] (fl64 (12 / 10)) 9 Bike)) 60) = 8"
      unfolding exampleRoute_sel double_12_10 quot_9_60 quot_12_9 ..
  qed
  then have bike: "isRouteReasonable (exampleRoute [] (fl64 (12 / 10)) 9 Bike) pointA pointB"
    by (simp add: exampleRoute_sel)
  have exact: "distanceKm (exampleRoute [] (fl64 (12 / 10)) 9 Bike) /
     (durationMinutes (exampleRoute [] (fl64 (12 / 10)) 9 Bike) / 60) < 8"
    unfolding km by (simp add: exampleRoute_sel)
  from zero inf nowhere eight stroll speed_5_in_60 bike exact show ?thesis by simp
qed

lemma double_3_10: "fl64 (3 / 10) = 5404319552844595 / 2 ^ 54"
  unfolding fl64_def
  by (subst fl_eq[where k = "-2" and n = "5404319552844595"])
     (simp_all add: pow2_def roundHalfEven_def Let_def)

lemma quot_3_9: "js_quot (5404319552844595 / 2 ^ 54) (5404319552844595 / 2 ^ 55) = 2"
  unfolding js_quot_def fl64_def
  by (subst fl_exact[where n = "1" and j = "1"]) (simp_all add: pow2_def)

text \<open>
  At the lower edge of the band on foot the doubles accept as well: 0.3 km in 9 minutes
  has a computed speed of 2 km/h.
\<close>

lemma isRouteReasonable_walk_edge:
  "isRouteReasonable (exampleRoute [] (fl64 (3 / 10)) 9 Walk) pointA pointB"
proof -
  have km: "distanceKm (exampleRoute [] (fl64 (3 / 10)) 9 Walk) = 5404319552844595 / 2 ^ 54"
    unfolding exampleRoute_sel double_3_10 ..
  have "isRouteReasonable (exampleRoute [] (fl64 (3 / 10)) 9 Walk) pointA pointB =
        (minSpeed (mode (exampleRoute [] (fl64 (3 / 10)) 9 Walk)) \<le> 2 \<and>
         2 \<le> maxSpeed (mode (exampleRoute [] (fl64 (3 / 10)) 9 Walk)))"
  proof (rule isRouteReasonable_speed)
    show "0 < durationMinutes (exampleRoute [] (fl64 (3 / 10)) 9 Walk)"
      by (simp add: exampleRoute_sel)
    show "distanceKm (exampleRoute [] (fl64 (3 / 10)) 9 Walk)
            \<le> 7 * calculateDistance pointA pointB"
      unfolding km using pi_ge_two by (simp add: pointA_pointB_distance)
    show "js_quot (distanceKm (exampleRoute [] (fl64 (3 / 10)) 9 Walk))
            (js_quot (durationMinutes (exampleRoute [] (fl64 (3 / 10)) 9 Walk)) 60) = 2"
      unfolding exampleRoute_sel double_3_10 quot_9_60 quot_3_9 ..
  qed
  then show ?thesis by (simp add: exampleRoute_sel)
qed

text \<open>
  Claim C10. A route whose duration is 0 minutes skips the speed check: it is accepted
  exactly when its distance does not exceed 7 times the straight-line distance, whatever
  its mode.
\<close>

theorem isRouteReasonable_zero_duration:
  "durationMinutes r = 0 \<Longrightarrow>
     isRouteReasonable r s e = (distanceKm r \<le> 7 * calculateDistance s e)"
  by (auto simp: isRouteReasonable_def Let_def)

theorem isRouteReasonable_zero_duration_witness:
  "isRouteReasonable (exampleRoute [] 3 0 Walk) pointA pointB \<and>
   \<not> isRouteReasonable (exampleRoute [] 3 0 Walk) pointA pointA"
  using isRouteReasonable_zero_duration[of "exampleRoute [] 3 0 Walk" pointA pointB]
    isRouteReasonable_zero_duration[of "exampleRoute [] 3 0 Walk" pointA pointA]
    pi_ge_two
  by (simp add: pointA_pointB_distance calculateDistance_same exampleRoute_def)

section \<open>Spline smoothing\<close>

lemma getSplinePoint_at_0: "getSplinePoint 0 p0 p1 p2 p3 T = p1"
  by (simp add: getSplinePoint_def)

lemma substepCounters_pos: "0 < n \<Longrightarrow> \<exists>rest. substepCounters n = 0 # rest"
proof -
  assume "0 < n"
  have "[0 ..< nat \<lfloor>n\<rfloor> + 1] = 0 # [Suc 0 ..< nat \<lfloor>n\<rfloor> + 1]"
    by (rule upt_conv_Cons) simp
  with \<open>0 < n\<close> show ?thesis
    unfolding substepCounters_def by auto
qed

lemma splineSegment_starts:
  "0 < n \<Longrightarrow> \<exists>rest. splineSegment pts n T i = pts ! i # rest"
proof -
  assume "0 < n"
  then obtain ts where "substepCounters n = 0 # ts"
    using substepCounters_pos by blast
  then show ?thesis
    by (simp add: splineSegment_def getSplinePoint_at_0)
qed

lemma subseq_concat_heads:
  "(\<And>x. x \<in> set xs \<Longrightarrow> \<exists>rest. g x = f x # rest) \<Longrightarrow> subseq (map f xs) (concat (map g xs))"
proof (induction xs)
  case Nil
  show ?case by simp
next
  case (Cons x xs)
  from Cons.prems[of x] obtain rest where gx: "g x = f x # rest" by auto
  have "subseq (map f xs) (concat (map g xs))"
    using Cons.IH Cons.prems by simp
  then have "subseq (map f xs) (rest @ concat (map g xs))"
    by (rule list_emb_append2)
  then show ?case using gx by simp
qed

lemma interior_points:
  assumes "2 \<le> length wps"
  shows "map (\<lambda>i. (hd wps # wps @ [last wps]) ! i) [1 ..< length wps] = butlast wps"
proof (rule nth_equalityI)
  show "length (map (\<lambda>i. (hd wps # wps @ [last wps]) ! i) [1 ..< length wps]) = length (butlast wps)"
    by simp
next
  fix i
  assume "i < length (map (\<lambda>i. (hd wps # wps @ [last wps]) ! i) [1 ..< length wps])"
  then have i: "i < length wps - 1" by simp
  then have "i < length wps" by simp
  with i show "map (\<lambda>i. (hd wps # wps @ [last wps]) ! i) [1 ..< length wps] ! i = butlast wps ! i"
    by (simp add: nth_append nth_butlast)
qed

lemma createSplinePath_through:
  assumes len: "2 \<le> length wps" and n: "0 < n"
  shows "\<exists>p. createSplinePath wps n T = Some p \<and> hd p = hd wps \<and> last p = last wps \<and> subseq wps p"
proof -
  define pts where "pts = hd wps # wps @ [last wps]"
  define segs where "segs = concat (map (splineSegment pts n T) [1 ..< length pts - 2])"
  have range: "length pts - 2 = length wps" by (simp add: pts_def)
  have emb: "subseq (map (\<lambda>i. pts ! i) [1 ..< length wps]) segs"
    unfolding segs_def range
    by (rule subseq_concat_heads) (rule splineSegment_starts[OF n])
  have bl: "map (\<lambda>i. pts ! i) [1 ..< length wps] = butlast wps"
    unfolding pts_def by (rule interior_points[OF len])
  have wne: "wps \<noteq> []" using len by auto
  have "butlast wps \<noteq> []" using len by (cases wps rule: rev_cases) auto
  with emb bl have sne: "segs \<noteq> []" by auto
  obtain rest where first: "splineSegment pts n T 1 = pts ! 1 # rest"
    using splineSegment_starts[OF n] by blast
  have up: "[1 ..< length wps] = 1 # [Suc 1 ..< length wps]"
    by (rule upt_conv_Cons) (use len in simp)
  have "hd segs = pts ! 1"
    unfolding segs_def range up using first by simp
  also have "pts ! 1 = hd wps"
    using wne by (simp add: pts_def nth_append hd_conv_nth)
  finally have hd: "hd (segs @ [last wps]) = hd wps" using sne by simp
  have "subseq (butlast wps @ [last wps]) (segs @ [last wps])"
    using emb bl by (simp add: list_emb_append_mono)
  then have sub: "subseq wps (segs @ [last wps])" using wne by simp
  have "createSplinePath wps n T = Some (if length segs > 0 then segs @ [last wps] else segs)"
    unfolding createSplinePath_def segs_def pts_def Let_def using len n by simp
  with sne have "createSplinePath wps n T = Some (segs @ [last wps])" by simp
  with hd sub show ?thesis by simp
qed

lemma createSplinePath_negative_substeps:
  "2 \<le> length wps \<Longrightarrow> n < 0 \<Longrightarrow> createSplinePath wps n T = Some []"
  by (simp add: createSplinePath_def splineSegment_def substepCounters_def Let_def)

text \<open>
  Claim C8. Fewer than 2 waypoints are returned unchanged. For 2 waypoints or more and a
  positive \<open>substeps\<close> the path starts at the first waypoint, ends at the last one, and
  holds every waypoint, in their order (each segment starts at its waypoint, where the
  spline parameter is 0, and the last waypoint is appended). \<open>substeps\<close> is the number of
  points per segment; a negative one gives the empty path and 0 gives NaN coordinates.
\<close>

theorem createSplinePath_waypoints:
  "(length wps < 2 \<longrightarrow> createSplinePath wps n T = Some wps) \<and>
   (2 \<le> length wps \<and> 0 < n \<longrightarrow>
      (\<exists>p. createSplinePath wps n T = Some p \<and> hd p = hd wps \<and> last p = last wps \<and>
           subseq wps p))"
  using createSplinePath_through[of wps n T] by (simp add: createSplinePath_def)

theorem createSplinePath_waypoints_witness:
  "createSplinePath [(3, 4)] 2 (1 / 2) = Some [(3, 4)] \<and>
   (\<exists>p. createSplinePath [(0, 0), (1, 1), (2, 0)] 2 (1 / 2) = Some p \<and> hd p = (0, 0) \<and>
        last p = (2, 0) \<and> subseq [(0, 0), (1, 1), (2, 0)] p)"
  using createSplinePath_waypoints[of "[(3, 4)]" 2 "1 / 2"]
    createSplinePath_waypoints[of "[(0, 0), (1, 1), (2, 0)]" 2 "1 / 2"]
  by simp


section \<open>Hazard predictor\<close>

lemma tensorDeltas_snoc:
  assumes "xs \<noteq> []"
  shows "tensorDeltas tf (xs @ [x]) =
         tensorDeltas tf xs @
           [(tensorSub tf (fst x) (fst (last xs)), tensorSub tf (snd x) (snd (last xs)))]"
proof -
  have d: "drop 1 (xs @ [x]) = drop 1 xs @ [x]" using assms by (cases xs) auto
  have "take (length (xs @ [x]) - 1) (xs @ [x]) = xs" by simp
  also have "xs = butlast xs @ [last xs]" using assms by simp
  also have "butlast xs = take (length xs - 1) xs" by (rule butlast_conv_take)
  finally have t: "take (length (xs @ [x]) - 1) (xs @ [x]) = take (length xs - 1) xs @ [last xs]" .
  have l: "length (drop 1 xs) = length (take (length xs - 1) xs)" by simp
  show ?thesis
    unfolding tensorDeltas_def d t using l by (simp del: drop_Suc_Cons)
qed

lemma tensorDeltas_rev:
  "tensorDeltas tf (tensor2d tf (rev (map (\<lambda>s. (lat s, lon s)) ss))) =
   rev (tensorDisplacements tf ss)"
proof (induction ss rule: induct_list012)
  case (3 newer older rest)
  have ne: "tensor2d tf (rev (map (\<lambda>s. (lat s, lon s)) (older # rest))) \<noteq> []"
    by (simp add: tensor2d_def)
  have la: "last (tensor2d tf (rev (map (\<lambda>s. (lat s, lon s)) (older # rest)))) =
            (toTensor tf (lat older), toTensor tf (lon older))"
    by (simp add: tensor2d_def)
  have "tensorDeltas tf (tensor2d tf (rev (map (\<lambda>s. (lat s, lon s)) (newer # older # rest)))) =
        tensorDeltas tf (tensor2d tf (rev (map (\<lambda>s. (lat s, lon s)) (older # rest))) @
          [(toTensor tf (lat newer), toTensor tf (lon newer))])"
    by (simp add: tensor2d_def)
  also have "\<dots> = tensorDeltas tf (tensor2d tf (rev (map (\<lambda>s. (lat s, lon s)) (older # rest)))) @
                    [(tensorSub tf (toTensor tf (lat newer)) (toTensor tf (lat older)),
                      tensorSub tf (toTensor tf (lon newer)) (toTensor tf (lon older)))]"
    unfolding tensorDeltas_snoc[OF ne] la by simp
  finally show ?case using "3.IH"(2) by (simp add: tensorDisplacements_def)
qed (simp_all add: tensorDeltas_def tensor2d_def tensorDisplacements_def)

lemma length_displacements: "length (displacements ss) = length ss - 1"
  unfolding displacements_def by (induction ss rule: induct_list012) auto

lemma linearExtrapolation_tensor:
  "linearExtrapolation tf ss =
     twoSteps (tensorAdd tf) (toTensor tf (lat (hd ss)), toTensor tf (lon (hd ss)))
       (tensorMeanDisplacement tf ss)"
  by (simp add: linearExtrapolation_def Let_def tensorDeltas_rev tensorMean0_def
      tensorMeanDisplacement_def twoSteps_def)

lemma displacementsBy_converted:
  assumes "list_all (\<lambda>s. f (lat s) = lat s \<and> f (lon s) = lon s) ss"
  shows "displacementsBy (\<lambda>a b. sub (f a) (f b)) ss = displacementsBy sub ss"
  using assms by (induction ss rule: induct_list012) auto

lemma linearExtrapolation_exact:
  assumes "withoutRounding tf ss" and "ss \<noteq> []"
  shows "linearExtrapolation tf ss =
     [\<lparr>lat = lat (hd ss) + fst (meanDisplacement ss),
       lon = lon (hd ss) + snd (meanDisplacement ss)\<rparr>,
      \<lparr>lat = lat (hd ss) + 2 * fst (meanDisplacement ss),
       lon = lon (hd ss) + 2 * snd (meanDisplacement ss)\<rparr>]"
proof -
  from assms(1) have conv: "list_all (\<lambda>s. toTensor tf (lat s) = lat s \<and> toTensor tf (lon s) = lon s) ss"
    and diff: "displacementsBy (tensorSub tf) ss = displacements ss"
    and mean: "tensorMean tf (map fst (rev (displacements ss))) = fst (meanDisplacement ss)"
      "tensorMean tf (map snd (rev (displacements ss))) = snd (meanDisplacement ss)"
    and sums: "tensorAdd tf (lat (hd ss)) (fst (meanDisplacement ss)) =
               lat (hd ss) + fst (meanDisplacement ss)"
      "tensorAdd tf (lon (hd ss)) (snd (meanDisplacement ss)) =
       lon (hd ss) + snd (meanDisplacement ss)"
      "tensorAdd tf (lat (hd ss) + fst (meanDisplacement ss)) (fst (meanDisplacement ss)) =
       lat (hd ss) + 2 * fst (meanDisplacement ss)"
      "tensorAdd tf (lon (hd ss) + snd (meanDisplacement ss)) (snd (meanDisplacement ss)) =
       lon (hd ss) + 2 * snd (meanDisplacement ss)"
    by (simp_all add: withoutRounding_def Let_def)
  have d: "tensorDisplacements tf ss = displacements ss"
    unfolding tensorDisplacements_def displacementsBy_converted[OF conv] by (rule diff)
  have m: "tensorMeanDisplacement tf ss = meanDisplacement ss"
    unfolding tensorMeanDisplacement_def d mean by simp
  from conv assms(2) have h: "toTensor tf (lat (hd ss)) = lat (hd ss)"
    "toTensor tf (lon (hd ss)) = lon (hd ss)"
    by (cases ss; simp)+
  show ?thesis
    unfolding linearExtrapolation_tensor m h twoSteps_def by (simp add: sums)
qed

lemma randomFallback_steps:
  "randomFallback m k cur =
     twoSteps js_plus (lat cur, lon cur)
       (js_times (fl64 (1 / 100))
          (Math_cos m (js_times (js_times (Math_random m k) 2) (fl64 pi))),
        js_times (fl64 (1 / 100))
          (Math_sin m (js_times (js_times (Math_random m k) 2) (fl64 pi))))"
  by (simp add: randomFallback_def Let_def twoSteps_def Math_PI_def)

lemma predictSets_linear:
  "s \<in> set sets \<Longrightarrow> 2 \<le> length (sightings s) \<Longrightarrow>
     \<lparr>scientificName = scientificName s, predictions = linearExtrapolation tf (sightings s)\<rparr>
       \<in> set (predictSets tf m k sets)"
  by (induction sets arbitrary: k) auto

lemma predictSets_random:
  "s \<in> set sets \<Longrightarrow> length (sightings s) = 1 \<Longrightarrow>
     \<exists>j. \<lparr>scientificName = scientificName s,
           predictions = randomFallback m j (hd (sightings s))\<rparr>
       \<in> set (predictSets tf m k sets)"
proof (induction sets arbitrary: k)
  case Nil
  then show ?case by simp
next
  case (Cons a sets)
  show ?case
  proof (cases "s = a")
    case True
    with Cons.prems show ?thesis by (intro exI[of _ k]) simp
  next
    case False
    with Cons.prems have "s \<in> set sets" by simp
    from Cons.IH[OF this Cons.prems(2)] show ?thesis by (simp; blast)
  qed
qed

lemma predictSets_origin:
  "p \<in> set (predictSets tf m k sets) \<Longrightarrow>
     \<exists>s \<in> set sets. scientificName p = scientificName s \<and>
        (2 \<le> length (sightings s) \<longrightarrow> predictions p = linearExtrapolation tf (sightings s))"
  by (induction sets arbitrary: k) (auto split: if_splits)

lemma kept_two: "twoSteps add p d \<noteq> []"
  by (simp add: twoSteps_def)

text \<open>
  Claim C9, as the code has it. With the library loaded, a species with 2 sightings or
  more gets exactly two waypoints: the library's sum of the tensor of the most recent
  sighting and of its mean of the displacements between consecutive sightings, taken from
  the oldest to the newest on the tensor of the coordinates, and the sum of that waypoint
  and of the same mean. Where the library works without rounding on the sightings these
  are \<open>last + d\<close> and \<open>last + 2 d\<close>, for the most recent sighting \<open>last\<close> and the mean
  displacement \<open>d\<close>. Where the species names are distinct this is the only entry of the
  species. A species with fewer than 2 sightings and a current point gets two waypoints as
  well: a step of the double nearest to 0.01 degrees, times the cosine and the sine of the
  drawn angle, taken twice from the current point in double arithmetic.
\<close>

theorem predictAnimalPaths_extrapolates:
  "(s \<in> set sets \<and> 2 \<le> length (sightings s) \<longrightarrow>
      \<lparr>scientificName = scientificName s,
       predictions =
         twoSteps (tensorAdd tf)
           (toTensor tf (lat (hd (sightings s))), toTensor tf (lon (hd (sightings s))))
           (tensorMeanDisplacement tf (sightings s))\<rparr>
        \<in> set (predictAnimalPaths (Some tf) m sets)) \<and>
   (s \<in> set sets \<and> 2 \<le> length (sightings s) \<and> withoutRounding tf (sightings s) \<longrightarrow>
      \<lparr>scientificName = scientificName s,
       predictions =
         [\<lparr>lat = lat (hd (sightings s)) + fst (meanDisplacement (sightings s)),
           lon = lon (hd (sightings s)) + snd (meanDisplacement (sightings s))\<rparr>,
          \<lparr>lat = lat (hd (sightings s)) + 2 * fst (meanDisplacement (sightings s)),
           lon = lon (hd (sightings s)) + 2 * snd (meanDisplacement (sightings s))\<rparr>]\<rparr>
        \<in> set (predictAnimalPaths (Some tf) m sets)) \<and>
   (s \<in> set sets \<and> 2 \<le> length (sightings s) \<and> distinct (map scientificName sets) \<longrightarrow>
      (\<forall>p \<in> set (predictAnimalPaths (Some tf) m sets).
         scientificName p = scientificName s \<longrightarrow>
         predictions p =
           twoSteps (tensorAdd tf)
             (toTensor tf (lat (hd (sightings s))), toTensor tf (lon (hd (sightings s))))
             (tensorMeanDisplacement tf (sightings s)))) \<and>
   (s \<in> set sets \<and> sightings s \<noteq> [] \<and> length (sightings s) < 2 \<longrightarrow>
      (\<exists>k. \<lparr>scientificName = scientificName s,
            predictions =
              twoSteps js_plus (lat (hd (sightings s)), lon (hd (sightings s)))
                (js_times (fl64 (1 / 100))
                   (Math_cos m (js_times (js_times (Math_random m k) 2) (fl64 pi))),
                 js_times (fl64 (1 / 100))
                   (Math_sin m (js_times (js_times (Math_random m k) 2) (fl64 pi))))\<rparr>
             \<in> set (predictAnimalPaths (Some tf) m sets)))"
proof (intro conjI impI)
  assume a: "s \<in> set sets \<and> 2 \<le> length (sightings s)"
  then show "\<lparr>scientificName = scientificName s,
       predictions =
         twoSteps (tensorAdd tf)
           (toTensor tf (lat (hd (sightings s))), toTensor tf (lon (hd (sightings s))))
           (tensorMeanDisplacement tf (sightings s))\<rparr>
        \<in> set (predictAnimalPaths (Some tf) m sets)"
    using predictSets_linear[of s sets tf m 0]
    by (simp add: predictAnimalPaths_def linearExtrapolation_tensor kept_two)
next
  assume a: "s \<in> set sets \<and> 2 \<le> length (sightings s) \<and> withoutRounding tf (sightings s)"
  then have ne: "sightings s \<noteq> []" by auto
  from a have w: "withoutRounding tf (sightings s)" by simp
  from a show "\<lparr>scientificName = scientificName s,
       predictions =
         [\<lparr>lat = lat (hd (sightings s)) + fst (meanDisplacement (sightings s)),
           lon = lon (hd (sightings s)) + snd (meanDisplacement (sightings s))\<rparr>,
          \<lparr>lat = lat (hd (sightings s)) + 2 * fst (meanDisplacement (sightings s)),
           lon = lon (hd (sightings s)) + 2 * snd (meanDisplacement (sightings s))\<rparr>]\<rparr>
        \<in> set (predictAnimalPaths (Some tf) m sets)"
    using predictSets_linear[of s sets tf m 0]
    by (simp add: predictAnimalPaths_def linearExtrapolation_exact[OF w ne])
next
  assume a: "s \<in> set sets \<and> 2 \<le> length (sightings s) \<and> distinct (map scientificName sets)"
  show "\<forall>p \<in> set (predictAnimalPaths (Some tf) m sets).
         scientificName p = scientificName s \<longrightarrow>
         predictions p =
           twoSteps (tensorAdd tf)
             (toTensor tf (lat (hd (sightings s))), toTensor tf (lon (hd (sightings s))))
             (tensorMeanDisplacement tf (sightings s))"
  proof (intro ballI impI)
    fix p
    assume p: "p \<in> set (predictAnimalPaths (Some tf) m sets)"
      and n: "scientificName p = scientificName s"
    from p have "p \<in> set (predictSets tf m 0 sets)" by (simp add: predictAnimalPaths_def)
    from predictSets_origin[OF this] obtain s' where s': "s' \<in> set sets"
      "scientificName p = scientificName s'"
      "2 \<le> length (sightings s') \<longrightarrow> predictions p = linearExtrapolation tf (sightings s')"
      by blast
    from a s'(1) n s'(2) have "s' = s"
      by (metis distinct_map inj_onD)
    with a s'(3) show "predictions p =
           twoSteps (tensorAdd tf)
             (toTensor tf (lat (hd (sightings s))), toTensor tf (lon (hd (sightings s))))
             (tensorMeanDisplacement tf (sightings s))"
      by (simp add: linearExtrapolation_tensor)
  qed
next
  assume a: "s \<in> set sets \<and> sightings s \<noteq> [] \<and> length (sightings s) < 2"
  then have "length (sightings s) = 1" by (cases "sightings s") auto
  with a obtain j where j: "\<lparr>scientificName = scientificName s,
           predictions = randomFallback m j (hd (sightings s))\<rparr>
       \<in> set (predictSets tf m 0 sets)"
    using predictSets_random[of s sets m tf 0] by blast
  then have "\<lparr>scientificName = scientificName s,
            predictions =
              twoSteps js_plus (lat (hd (sightings s)), lon (hd (sightings s)))
                (js_times (fl64 (1 / 100))
                   (Math_cos m (js_times (js_times (Math_random m j) 2) (fl64 pi))),
                 js_times (fl64 (1 / 100))
                   (Math_sin m (js_times (js_times (Math_random m j) 2) (fl64 pi))))\<rparr>
             \<in> set (predictAnimalPaths (Some tf) m sets)"
    unfolding randomFallback_steps by (simp add: predictAnimalPaths_def kept_two)
  then show "\<exists>k. \<lparr>scientificName = scientificName s,
            predictions =
              twoSteps js_plus (lat (hd (sightings s)), lon (hd (sightings s)))
                (js_times (fl64 (1 / 100))
                   (Math_cos m (js_times (js_times (Math_random m k) 2) (fl64 pi))),
                 js_times (fl64 (1 / 100))
                   (Math_sin m (js_times (js_times (Math_random m k) 2) (fl64 pi))))\<rparr>
             \<in> set (predictAnimalPaths (Some tf) m sets)"
    by blast
qed

text \<open>The numbers of the examples, in single and in double precision.\<close>

lemma fl_zero: "fl p 0 = 0"
  by (simp add: fl_def)

lemma fl32_values:
  "fl32 0 = 0" "fl32 1 = 1" "fl32 2 = 2" "fl32 3 = 3" "fl32 4 = 4" "fl32 5 = 5" "fl32 6 = 6"
  "fl32 10 = 10" "fl32 (3 / 2) = 3 / 2" "fl32 (5 / 2) = 5 / 2" "fl32 (9 / 2) = 9 / 2"
  "fl32 (15 / 2) = 15 / 2"
proof -
  show "fl32 0 = 0" by (simp add: fl32_def fl_zero)
  show "fl32 1 = 1"
    unfolding fl32_def by (subst fl_exact[where n = 1 and j = 0]) (simp_all add: pow2_def)
  show "fl32 2 = 2"
    unfolding fl32_def by (subst fl_exact[where n = 1 and j = 1]) (simp_all add: pow2_def)
  show "fl32 3 = 3"
    unfolding fl32_def by (subst fl_exact[where n = 3 and j = 0]) (simp_all add: pow2_def)
  show "fl32 4 = 4"
    unfolding fl32_def by (subst fl_exact[where n = 1 and j = 2]) (simp_all add: pow2_def)
  show "fl32 5 = 5"
    unfolding fl32_def by (subst fl_exact[where n = 5 and j = 0]) (simp_all add: pow2_def)
  show "fl32 6 = 6"
    unfolding fl32_def by (subst fl_exact[where n = 3 and j = 1]) (simp_all add: pow2_def)
  show "fl32 10 = 10"
    unfolding fl32_def by (subst fl_exact[where n = 5 and j = 1]) (simp_all add: pow2_def)
  show "fl32 (3 / 2) = 3 / 2"
    unfolding fl32_def by (subst fl_exact[where n = 3 and j = "-1"]) (simp_all add: pow2_def)
  show "fl32 (5 / 2) = 5 / 2"
    unfolding fl32_def by (subst fl_exact[where n = 5 and j = "-1"]) (simp_all add: pow2_def)
  show "fl32 (9 / 2) = 9 / 2"
    unfolding fl32_def by (subst fl_exact[where n = 9 and j = "-1"]) (simp_all add: pow2_def)
  show "fl32 (15 / 2) = 15 / 2"
    unfolding fl32_def by (subst fl_exact[where n = 15 and j = "-1"]) (simp_all add: pow2_def)
qed

lemma fl64_one: "fl64 1 = 1"
  unfolding fl64_def by (subst fl_exact[where n = 1 and j = 0]) (simp_all add: pow2_def)

lemma double_hundredth: "fl64 (1 / 100) = 5764607523034235 / 2 ^ 59"
  unfolding fl64_def
  by (subst fl_eq[where k = "-7" and n = "5764607523034235"])
     (simp_all add: pow2_def roundHalfEven_def Let_def)

lemma hundredth_times_1: "js_times (5764607523034235 / 2 ^ 59) 1 = 5764607523034235 / 2 ^ 59"
  unfolding js_times_def fl64_def
  by (subst fl_exact[where n = "5764607523034235" and j = "-59"]) (simp_all add: pow2_def)

lemma one_plus_hundredth: "js_plus 1 (5764607523034235 / 2 ^ 59) = 4548635623644201 / 2 ^ 52"
  unfolding js_plus_def fl64_def
  by (subst fl_eq[where k = "0" and n = "4548635623644201"])
     (simp_all add: pow2_def roundHalfEven_def Let_def)

lemma one_plus_two_hundredths: "js_plus (4548635623644201 / 2 ^ 52) (5764607523034235 / 2 ^ 59) = 2296835809958953 / 2 ^ 51"
  unfolding js_plus_def fl64_def
  by (subst fl_eq[where k = "0" and n = "4593671619917906"])
     (simp_all add: pow2_def roundHalfEven_def Let_def)

lemma double_101_100: "fl64 (101 / 100) = 4548635623644201 / 2 ^ 52"
  unfolding fl64_def
  by (subst fl_eq[where k = "0" and n = "4548635623644201"])
     (simp_all add: pow2_def roundHalfEven_def Let_def)

lemma double_51_50: "fl64 (51 / 50) = 2296835809958953 / 2 ^ 51"
  unfolding fl64_def
  by (subst fl_eq[where k = "0" and n = "4593671619917906"])
     (simp_all add: pow2_def roundHalfEven_def Let_def)

lemma elephant_lat_newer: "fl64 (114152 / 10000) = 6426186308294961 / 2 ^ 49"
  unfolding fl64_def
  by (subst fl_eq[where k = "3" and n = "6426186308294961"])
     (simp_all add: pow2_def roundHalfEven_def Let_def)

lemma elephant_lat_older: "fl64 (114102 / 10000) = 3211685779263927 / 2 ^ 48"
  unfolding fl64_def
  by (subst fl_eq[where k = "3" and n = "6423371558527854"])
     (simp_all add: pow2_def roundHalfEven_def Let_def)

lemma elephant_lat_newer32: "fl32 (6426186308294961 / 2 ^ 49) = 11969705 / 2 ^ 20"
  unfolding fl32_def
  by (subst fl_eq[where k = "3" and n = "11969705"])
     (simp_all add: pow2_def roundHalfEven_def Let_def)

lemma elephant_lat_older32: "fl32 (3211685779263927 / 2 ^ 48) = 5982231 / 2 ^ 19"
  unfolding fl32_def
  by (subst fl_eq[where k = "3" and n = "11964462"])
     (simp_all add: pow2_def roundHalfEven_def Let_def)

lemma elephant_lat_delta: "fl32 (11969705 / 2 ^ 20 - 5982231 / 2 ^ 19) = 5243 / 2 ^ 20"
  unfolding fl32_def
  by (subst fl_exact[where n = "5243" and j = "-20"]) (simp_all add: pow2_def)

lemma elephant_lat_mean: "fl32 (5243 / 2 ^ 20) = 5243 / 2 ^ 20"
  unfolding fl32_def
  by (subst fl_exact[where n = "5243" and j = "-20"]) (simp_all add: pow2_def)

lemma elephant_lat_first: "fl32 (11969705 / 2 ^ 20 + 5243 / 2 ^ 20) = 2993737 / 2 ^ 18"
  unfolding fl32_def
  by (subst fl_exact[where n = "2993737" and j = "-18"]) (simp_all add: pow2_def)

lemma elephant_lat_second: "fl32 (2993737 / 2 ^ 18 + 5243 / 2 ^ 20) = 11980191 / 2 ^ 20"
  unfolding fl32_def
  by (subst fl_exact[where n = "11980191" and j = "-20"]) (simp_all add: pow2_def)

lemma elephant_lon_newer: "fl64 (767 / 10) = 5397282678426829 / 2 ^ 46"
  unfolding fl64_def
  by (subst fl_eq[where k = "6" and n = "5397282678426829"])
     (simp_all add: pow2_def roundHalfEven_def Let_def)

lemma elephant_lon_older: "fl64 (76695 / 1000) = 1349232708676485 / 2 ^ 44"
  unfolding fl64_def
  by (subst fl_eq[where k = "6" and n = "5396930834705940"])
     (simp_all add: pow2_def roundHalfEven_def Let_def)

lemma elephant_lon_newer32: "fl32 (5397282678426829 / 2 ^ 46) = 5026611 / 2 ^ 16"
  unfolding fl32_def
  by (subst fl_eq[where k = "6" and n = "10053222"])
     (simp_all add: pow2_def roundHalfEven_def Let_def)

lemma elephant_lon_older32: "fl32 (1349232708676485 / 2 ^ 44) = 10052567 / 2 ^ 17"
  unfolding fl32_def
  by (subst fl_eq[where k = "6" and n = "10052567"])
     (simp_all add: pow2_def roundHalfEven_def Let_def)

lemma elephant_lon_delta: "fl32 (5026611 / 2 ^ 16 - 10052567 / 2 ^ 17) = 655 / 2 ^ 17"
  unfolding fl32_def
  by (subst fl_exact[where n = "655" and j = "-17"]) (simp_all add: pow2_def)

lemma elephant_lon_mean: "fl32 (655 / 2 ^ 17) = 655 / 2 ^ 17"
  unfolding fl32_def
  by (subst fl_exact[where n = "655" and j = "-17"]) (simp_all add: pow2_def)

lemma elephant_lon_first: "fl32 (5026611 / 2 ^ 16 + 655 / 2 ^ 17) = 10053877 / 2 ^ 17"
  unfolding fl32_def
  by (subst fl_exact[where n = "10053877" and j = "-17"]) (simp_all add: pow2_def)

lemma elephant_lon_second: "fl32 (10053877 / 2 ^ 17 + 655 / 2 ^ 17) = 2513633 / 2 ^ 15"
  unfolding fl32_def
  by (subst fl_exact[where n = "2513633" and j = "-15"]) (simp_all add: pow2_def)

lemma withoutRounding_tigerSet: "withoutRounding float32Library (sightings tigerSet)"
  by (simp add: withoutRounding_def Let_def tigerSet_def meanDisplacement_def displacements_def
      float32Library_def fl32_values)

lemma bear_steps:
  "twoSteps js_plus (1, 1) (js_times (fl64 (1 / 100)) 1, 0) =
     [\<lparr>lat = fl64 (101 / 100), lon = 1\<rparr>, \<lparr>lat = fl64 (51 / 50), lon = 1\<rparr>]"
proof -
  have z: "js_plus 1 0 = 1" by (simp add: js_plus_def fl64_one)
  show ?thesis
    unfolding twoSteps_def fst_conv snd_conv double_hundredth hundredth_times_1
      one_plus_hundredth one_plus_two_hundredths z double_101_100 double_51_50 ..
qed

lemma float32Library_two_sightings:
  "linearExtrapolation float32Library
     [\<lparr>lat = a, lon = b, image = i\<rparr>, \<lparr>lat = c, lon = d, image = j\<rparr>] =
   twoSteps (\<lambda>x y. fl32 (x + y)) (fl32 a, fl32 b)
     (fl32 (fl32 (fl32 (fl32 a - fl32 c))), fl32 (fl32 (fl32 (fl32 b - fl32 d))))"
  by (simp add: linearExtrapolation_tensor tensorMeanDisplacement_def tensorDisplacements_def
      float32Library_def)

lemma predictAnimalPaths_single:
  assumes "2 \<le> length (sightings s)"
  shows "predictAnimalPaths (Some tf) m [s] =
     [\<lparr>scientificName = scientificName s, predictions = linearExtrapolation tf (sightings s)\<rparr>]"
proof -
  from assms have "sightings s \<noteq> []" by auto
  with assms show ?thesis
    by (simp add: predictAnimalPaths_def linearExtrapolation_tensor kept_two)
qed

text \<open>
  Three sightings on a grid of halves, where single precision is exact, give the two
  waypoints \<open>(4.5, 7.5)\<close> and \<open>(6, 10)\<close>; a single sighting at \<open>(1, 1)\<close> with the angle 0
  drawn gives \<open>(1.01, 1)\<close> and \<open>(1.02, 1)\<close>, as doubles.
\<close>

theorem predictAnimalPaths_extrapolates_witness:
  "\<lparr>scientificName = ''Panthera tigris'',
    predictions = [\<lparr>lat = 9 / 2, lon = 15 / 2\<rparr>, \<lparr>lat = 6, lon = 10\<rparr>]\<rparr>
     \<in> set (predictAnimalPaths (Some float32Library) exampleMath [tigerSet, bearSet]) \<and>
   \<lparr>scientificName = ''Melursus ursinus'',
    predictions = [\<lparr>lat = fl64 (101 / 100), lon = 1\<rparr>, \<lparr>lat = fl64 (51 / 50), lon = 1\<rparr>]\<rparr>
     \<in> set (predictAnimalPaths (Some float32Library) exampleMath [tigerSet, bearSet])"
proof -
  have mb: "bearSet \<in> set [tigerSet, bearSet] \<and> sightings bearSet \<noteq> [] \<and>
            length (sightings bearSet) < 2"
    by (simp add: bearSet_def)
  have hb: "lat (hd (sightings bearSet)) = 1" "lon (hd (sightings bearSet)) = 1"
    by (simp_all add: bearSet_def)
  have nb: "scientificName bearSet = ''Melursus ursinus''"
    by (simp add: bearSet_def)
  have angle: "js_times (js_times (Math_random exampleMath k) 2) (fl64 pi) = 0" for k
    by (simp add: exampleMath_def js_times_def fl64_def fl_zero)
  have cs: "Math_cos exampleMath 0 = 1" "Math_sin exampleMath 0 = 0"
    by (simp_all add: exampleMath_def fl64_one) (simp add: fl64_def fl_zero)
  have z: "js_times x 0 = 0" for x
    by (simp add: js_times_def fl64_def fl_zero)
  from predictAnimalPaths_extrapolates[where s = bearSet and sets = "[tigerSet, bearSet]"
      and tf = float32Library and m = exampleMath] mb
  have "\<exists>k. \<lparr>scientificName = scientificName bearSet,
            predictions =
              twoSteps js_plus (lat (hd (sightings bearSet)), lon (hd (sightings bearSet)))
                (js_times (fl64 (1 / 100))
                   (Math_cos exampleMath
                      (js_times (js_times (Math_random exampleMath k) 2) (fl64 pi))),
                 js_times (fl64 (1 / 100))
                   (Math_sin exampleMath
                      (js_times (js_times (Math_random exampleMath k) 2) (fl64 pi))))\<rparr>
             \<in> set (predictAnimalPaths (Some float32Library) exampleMath [tigerSet, bearSet])"
    by blast
  then have bear: "\<lparr>scientificName = ''Melursus ursinus'',
    predictions = [\<lparr>lat = fl64 (101 / 100), lon = 1\<rparr>, \<lparr>lat = fl64 (51 / 50), lon = 1\<rparr>]\<rparr>
     \<in> set (predictAnimalPaths (Some float32Library) exampleMath [tigerSet, bearSet])"
    unfolding angle cs z hb nb bear_steps by blast
  have m: "tigerSet \<in> set [tigerSet, bearSet] \<and> 2 \<le> length (sightings tigerSet) \<and>
           withoutRounding float32Library (sightings tigerSet)"
    by (simp add: withoutRounding_tigerSet) (simp add: tigerSet_def)
  have v: "meanDisplacement (sightings tigerSet) = (3 / 2, 5 / 2)"
    by (simp add: tigerSet_def meanDisplacement_def displacements_def)
  have h: "hd (sightings tigerSet) = \<lparr>lat = 3, lon = 5, image = None\<rparr>"
    by (simp add: tigerSet_def)
  have n: "scientificName tigerSet = ''Panthera tigris''"
    by (simp add: tigerSet_def)
  from predictAnimalPaths_extrapolates[where s = tigerSet and sets = "[tigerSet, bearSet]"
      and tf = float32Library and m = exampleMath] m
  have "\<lparr>scientificName = scientificName tigerSet,
       predictions =
         [\<lparr>lat = lat (hd (sightings tigerSet)) + fst (meanDisplacement (sightings tigerSet)),
           lon = lon (hd (sightings tigerSet)) + snd (meanDisplacement (sightings tigerSet))\<rparr>,
          \<lparr>lat = lat (hd (sightings tigerSet)) + 2 * fst (meanDisplacement (sightings tigerSet)),
           lon = lon (hd (sightings tigerSet)) + 2 * snd (meanDisplacement (sightings tigerSet))\<rparr>]\<rparr>
        \<in> set (predictAnimalPaths (Some float32Library) exampleMath [tigerSet, bearSet])"
    by blast
  then have "\<lparr>scientificName = ''Panthera tigris'',
    predictions = [\<lparr>lat = 9 / 2, lon = 15 / 2\<rparr>, \<lparr>lat = 6, lon = 10\<rparr>]\<rparr>
     \<in> set (predictAnimalPaths (Some float32Library) exampleMath [tigerSet, bearSet])"
    unfolding v h n by simp
  with bear show ?thesis by blast
qed

text \<open>
  The claim as stated fails in two places. Without the library no species gets a
  prediction, whatever its sightings. And the two waypoints are single-precision numbers:
  for sightings at \<open>(11.4152, 76.7)\<close> and, before it, \<open>(11.4102, 76.695)\<close> the predictor
  returns the latitudes 11.42020034790039 and 11.425200462341309, where \<open>last + d\<close> is
  11.420200000000001.
\<close>

theorem predictAnimalPaths_not_as_stated:
  "predictAnimalPaths None exampleMath [tigerSet] = [] \<and>
   2 \<le> length (sightings tigerSet) \<and>
   predictAnimalPaths (Some float32Library) exampleMath [elephantSet] =
     [\<lparr>scientificName = ''Elephas maximus'',
       predictions = [\<lparr>lat = 2993737 / 2 ^ 18, lon = 10053877 / 2 ^ 17\<rparr>,
                      \<lparr>lat = 11980191 / 2 ^ 20, lon = 2513633 / 2 ^ 15\<rparr>]\<rparr>] \<and>
   lat (hd (sightings elephantSet)) + fst (meanDisplacement (sightings elephantSet)) =
     1607250264515517 / 2 ^ 47 \<and>
   (1607250264515517 / 2 ^ 47 :: real) \<noteq> 2993737 / 2 ^ 18"
proof -
  have off: "predictAnimalPaths None exampleMath [tigerSet] = []"
    by (simp add: predictAnimalPaths_def)
  have len: "2 \<le> length (sightings tigerSet)" by (simp add: tigerSet_def)
  have ss: "sightings elephantSet =
      [\<lparr>lat = fl64 (114152 / 10000), lon = fl64 (767 / 10), image = None\<rparr>,
       \<lparr>lat = fl64 (114102 / 10000), lon = fl64 (76695 / 1000), image = None\<rparr>]"
    unfolding elephantSet_def SightingSet.select_convs ..
  have nm: "scientificName elephantSet = ''Elephas maximus''"
    unfolding elephantSet_def SpeciesKey.select_convs ..
  have "2 \<le> length (sightings elephantSet)" unfolding ss by simp
  from predictAnimalPaths_single[where s = elephantSet and tf = float32Library
      and m = exampleMath, OF this]
  have on: "predictAnimalPaths (Some float32Library) exampleMath [elephantSet] =
     [\<lparr>scientificName = ''Elephas maximus'',
       predictions = [\<lparr>lat = 2993737 / 2 ^ 18, lon = 10053877 / 2 ^ 17\<rparr>,
                      \<lparr>lat = 11980191 / 2 ^ 20, lon = 2513633 / 2 ^ 15\<rparr>]\<rparr>]"
    unfolding nm ss float32Library_two_sightings twoSteps_def fst_conv snd_conv
      elephant_lat_newer elephant_lat_older elephant_lat_newer32 elephant_lat_older32 elephant_lat_delta elephant_lat_mean elephant_lat_first elephant_lat_second elephant_lon_newer elephant_lon_older elephant_lon_newer32 elephant_lon_older32 elephant_lon_delta elephant_lon_mean elephant_lon_first elephant_lon_second .
  have "lat (hd (sightings elephantSet)) + fst (meanDisplacement (sightings elephantSet)) =
        fl64 (114152 / 10000) + (fl64 (114152 / 10000) - fl64 (114102 / 10000))"
    unfolding ss meanDisplacement_def displacements_def by simp
  also have "\<dots> = 1607250264515517 / 2 ^ 47"
    unfolding elephant_lat_newer elephant_lat_older by simp
  finally have exact:
    "lat (hd (sightings elephantSet)) + fst (meanDisplacement (sightings elephantSet)) =
     1607250264515517 / 2 ^ 47" .
  have ne: "(1607250264515517 / 2 ^ 47 :: real) \<noteq> 2993737 / 2 ^ 18" by simp
  from off len on exact ne show ?thesis by blast
qed

section \<open>Navigation session\<close>

subsection \<open>The nearest-point search\<close>

lemma searchPath_lower:
  "fst (searchPath u ps i c m k) = c \<or> i \<le> fst (searchPath u ps i c m k)"
proof (induction ps arbitrary: i c m k)
  case Nil
  show ?case by simp
next
  case (Cons p ps)
  show ?case
    using Cons.IH[of "i + 1" i "Some (calculateDistance u \<lparr>lat = fst p, lon = snd p\<rparr>)" 0]
      Cons.IH[of "i + 1" c m "k + 1"]
    by (auto simp: Let_def)
qed

lemma getPathData_lower:
  "2 \<le> length p \<Longrightarrow> c - 20 \<le> closestPointIndex (getPathDataFromLocation u p c)"
  using searchPath_lower[of u "drop (c - 20) p" "c - 20" c None 0]
  by (auto simp: getPathDataFromLocation_def Let_def split: prod.splits)

subsection \<open>What each part of the handler leaves alone\<close>

lemma clearStale_fields:
  "closestPathIndex (clearStaleSignalLost s) = closestPathIndex s"
  "isApproachingStart (clearStaleSignalLost s) = isApproachingStart s"
  "initialRouteSnapshot (clearStaleSignalLost s) = initialRouteSnapshot s"
  "safeRoute (clearStaleSignalLost s) = safeRoute s"
  "safeRouteRef (clearStaleSignalLost s) = safeRouteRef s"
  "emergencyRoute (clearStaleSignalLost s) = emergencyRoute s"
  "emergencyRouteRef (clearStaleSignalLost s) = emergencyRouteRef s"
  "watching (clearStaleSignalLost s) = watching s"
  "shownAnimalAlerts (clearStaleSignalLost s) = shownAnimalAlerts s"
  "alertLog (clearStaleSignalLost s) = alertLog s"
  "animalsNearRoute (clearStaleSignalLost s) = animalsNearRoute s"
  "animalsNearRouteRef (clearStaleSignalLost s) = animalsNearRouteRef s"
  "navigationAlertRef (clearStaleSignalLost s) = navigationAlertRef s"
  by (simp_all add: clearStaleSignalLost_def clearNavigationAlert_def split: option.splits)

lemma checkWeather_fields:
  "closestPathIndex (checkWeather fx s) = closestPathIndex s"
  "isApproachingStart (checkWeather fx s) = isApproachingStart s"
  "initialRouteSnapshot (checkWeather fx s) = initialRouteSnapshot s"
  "safeRoute (checkWeather fx s) = safeRoute s"
  "emergencyRoute (checkWeather fx s) = emergencyRoute s"
  "watching (checkWeather fx s) = watching s"
  "shownAnimalAlerts (checkWeather fx s) = shownAnimalAlerts s"
  "alertLog (checkWeather fx s) = alertLog s"
  "animalsNearRoute (checkWeather fx s) = animalsNearRoute s"
  "navigationAlert (checkWeather fx s) = navigationAlert s"
  by (simp_all add: checkWeather_def clearWeatherAlert_def triggerWeatherAlert_def render_def
      Let_def split: option.splits)

lemma checkWeather_refs:
  "safeRouteRef s = safeRoute s \<Longrightarrow> safeRouteRef (checkWeather fx s) = safeRoute s"
  "emergencyRouteRef s = emergencyRoute s \<Longrightarrow> emergencyRouteRef (checkWeather fx s) = emergencyRoute s"
  "animalsNearRouteRef s = animalsNearRoute s \<Longrightarrow> animalsNearRouteRef (checkWeather fx s) = animalsNearRoute s"
  by (simp_all add: checkWeather_def clearWeatherAlert_def triggerWeatherAlert_def render_def
      Let_def split: option.splits)

lemma alertNearbyAnimals_fields:
  "closestPathIndex (alertNearbyAnimals loc as s) = closestPathIndex s \<and>
   isApproachingStart (alertNearbyAnimals loc as s) = isApproachingStart s \<and>
   initialRouteSnapshot (alertNearbyAnimals loc as s) = initialRouteSnapshot s \<and>
   safeRoute (alertNearbyAnimals loc as s) = safeRoute s \<and>
   safeRouteRef (alertNearbyAnimals loc as s) = safeRouteRef s \<and>
   emergencyRoute (alertNearbyAnimals loc as s) = emergencyRoute s \<and>
   emergencyRouteRef (alertNearbyAnimals loc as s) = emergencyRouteRef s \<and>
   watching (alertNearbyAnimals loc as s) = watching s \<and>
   navigationAlertRef (alertNearbyAnimals loc as s) = navigationAlertRef s"
  by (induction as) (simp_all add: Let_def triggerNavigationAlert_def)

lemma searchPath_upper:
  "fst (searchPath u ps i c m k) = c \<or> fst (searchPath u ps i c m k) < i + length ps"
proof (induction ps arbitrary: i c m k)
  case Nil
  show ?case by simp
next
  case (Cons p ps)
  show ?case
    using Cons.IH[of "i + 1" i "Some (calculateDistance u \<lparr>lat = fst p, lon = snd p\<rparr>)" 0]
      Cons.IH[of "i + 1" c m "k + 1"]
    by (auto simp: Let_def)
qed

lemma getPathData_upper:
  assumes "c = 0 \<or> c < length p"
  shows "closestPointIndex (getPathDataFromLocation u p c) = 0 \<or>
         closestPointIndex (getPathDataFromLocation u p c) < length p"
proof (cases "length p < 2")
  case True
  then show ?thesis by (simp add: getPathDataFromLocation_def)
next
  case False
  then have c: "c < length p" using assms by auto
  then have "c - 20 + length (drop (c - 20) p) = length p" by simp
  with searchPath_upper[of u "drop (c - 20) p" "c - 20" c None 0] c False
  show ?thesis
    by (auto simp: getPathDataFromLocation_def Let_def split: prod.splits)
qed

lemma getPathData_lower':
  assumes "c = 0 \<or> c < length p"
  shows "c - 20 \<le> closestPointIndex (getPathDataFromLocation u p c)"
proof (cases "length p < 2")
  case True
  with assms have "c - 20 = 0" by auto
  then show ?thesis by simp
next
  case False
  then show ?thesis using getPathData_lower[of p c u] by simp
qed

lemma render_idem: "render (render s) = render s"
  by (simp add: render_def)

lemma render_fields:
  "closestPathIndex (render s) = closestPathIndex s"
  "isApproachingStart (render s) = isApproachingStart s"
  "initialRouteSnapshot (render s) = initialRouteSnapshot s"
  "safeRoute (render s) = safeRoute s"
  "emergencyRoute (render s) = emergencyRoute s"
  "watching (render s) = watching s"
  "shownAnimalAlerts (render s) = shownAnimalAlerts s"
  "alertLog (render s) = alertLog s"
  "navigationStats (render s) = navigationStats s"
  "routeMessage (render s) = routeMessage s"
  "navigationAlert (render s) = navigationAlert s"
  "animalsNearRoute (render s) = animalsNearRoute s"
  by (simp_all add: render_def)

lemma synced_refs:
  assumes "render s = s"
  shows "emergencyRouteRef s = emergencyRoute s" "safeRouteRef s = safeRoute s"
    "navigationAlertRef s = navigationAlert s" "animalsNearRouteRef s = animalsNearRoute s"
proof -
  have "emergencyRouteRef (render s) = emergencyRoute s" "safeRouteRef (render s) = safeRoute s"
    "navigationAlertRef (render s) = navigationAlert s"
    "animalsNearRouteRef (render s) = animalsNearRoute s"
    by (simp_all add: render_def)
  with assms show "emergencyRouteRef s = emergencyRoute s" "safeRouteRef s = safeRoute s"
    "navigationAlertRef s = navigationAlert s" "animalsNearRouteRef s = animalsNearRoute s"
    by simp_all
qed

lemma beforeAnimalCheck_fields:
  "closestPathIndex (beforeAnimalCheck fx s) = closestPathIndex s"
  "isApproachingStart (beforeAnimalCheck fx s) = isApproachingStart s"
  "initialRouteSnapshot (beforeAnimalCheck fx s) = initialRouteSnapshot s"
  "safeRoute (beforeAnimalCheck fx s) = safeRoute s"
  "emergencyRoute (beforeAnimalCheck fx s) = emergencyRoute s"
  "watching (beforeAnimalCheck fx s) = watching s"
  "shownAnimalAlerts (beforeAnimalCheck fx s) = shownAnimalAlerts s"
  "alertLog (beforeAnimalCheck fx s) = alertLog s"
  "animalsNearRoute (beforeAnimalCheck fx s) = animalsNearRoute s"
  by (simp_all add: beforeAnimalCheck_def checkWeather_fields clearStale_fields)

lemma beforeAnimalCheck_refs:
  assumes "render s = s"
  shows "emergencyRouteRef (beforeAnimalCheck fx s) = emergencyRoute s"
    "safeRouteRef (beforeAnimalCheck fx s) = safeRoute s"
    "animalsNearRouteRef (beforeAnimalCheck fx s) = animalsNearRoute s"
  using synced_refs[OF assms]
  by (simp_all add: beforeAnimalCheck_def checkWeather_refs clearStale_fields)

lemma trackingStart_fields:
  assumes "render s = s"
  shows "closestPathIndex (trackingStart fx s) = closestPathIndex s"
    "isApproachingStart (trackingStart fx s) = isApproachingStart s"
    "initialRouteSnapshot (trackingStart fx s) = initialRouteSnapshot s"
    "safeRoute (trackingStart fx s) = safeRoute s"
    "emergencyRoute (trackingStart fx s) = emergencyRoute s"
    "watching (trackingStart fx s) = watching s"
    "emergencyRouteRef (trackingStart fx s) = emergencyRoute s"
    "safeRouteRef (trackingStart fx s) = safeRoute s"
  using beforeAnimalCheck_refs[OF assms, of fx]
  by (simp_all add: trackingStart_def alertNearbyAnimals_fields beforeAnimalCheck_fields)

lemma handlePosition_track:
  "handlePosition fx s = trackProgress (liveLocationOf fx) (trackingStart fx s)"
  by (simp add: handlePosition_def trackingStart_def Let_def)

lemma trackProgress_fields:
  "watching (trackProgress loc t) = watching t"
  "safeRoute (trackProgress loc t) = safeRoute t"
  "emergencyRoute (trackProgress loc t) = emergencyRoute t"
  "initialRouteSnapshot (trackProgress loc t) = initialRouteSnapshot t"
  "shownAnimalAlerts (trackProgress loc t) = shownAnimalAlerts t"
  by (simp_all add: trackProgress_def Let_def triggerNavigationAlert_def split: option.splits)

lemma trackProgress_hazards:
  "hazardAlerts (trackProgress loc t) = hazardAlerts t"
  "hazardAlertsFor h (trackProgress loc t) = hazardAlertsFor h t"
  by (simp_all add: trackProgress_def Let_def triggerNavigationAlert_def hazardAlerts_def
      hazardAlertsFor_def split: option.splits)

lemma trackProgress_active:
  assumes "activeRouteOf t = Some r"
  shows "isApproachingStart (trackProgress loc t) =
           (emergencyRouteRef t = None \<and>
            closestPointIndex (getPathDataFromLocation loc (path r) (closestPathIndex t)) = 0 \<and>
            calculateDistance loc (start r) > 0.5)"
    and "closestPathIndex (trackProgress loc t) =
           (if isApproachingStart (trackProgress loc t) then closestPathIndex t
            else closestPointIndex (getPathDataFromLocation loc (path r) (closestPathIndex t)))"
    and "navigationStats (trackProgress loc t) = Some
           (if isApproachingStart (trackProgress loc t)
            then \<lparr>remainingKm =
                    (case initialRouteSnapshot t of
                       Some snap \<Rightarrow> snapshotDistanceKm snap | None \<Rightarrow> distanceKm r),
                  etaMinutes =
                    (case initialRouteSnapshot t of
                       Some snap \<Rightarrow> snapshotDurationMinutes snap | None \<Rightarrow> durationMinutes r),
                  progressPercent = 0\<rparr>
            else progressStats (distanceKm r) (durationMinutes r)
                   (closestPointIndex (getPathDataFromLocation loc (path r) (closestPathIndex t)))
                   (length (path r)))"
    and "routeMessage (trackProgress loc t) =
           (if isApproachingStart (trackProgress loc t)
            then ProceedToStart (toFixed1 (calculateDistance loc (start r)))
            else routeMessage t)"
  using assms
  by (simp_all add: trackProgress_def Let_def triggerNavigationAlert_def
      APPROACHING_START_THRESHOLD_KM_def)

subsection \<open>The animal alerts\<close>

lemma find_holds: "find P xs = Some x \<Longrightarrow> P x"
  by (induction xs) (auto split: if_splits)

lemma alertNearbyAnimals_none:
  "firstQualifyingHazard loc as s = None \<Longrightarrow> alertNearbyAnimals loc as s = s"
  by (induction as)
     (auto simp: firstQualifyingHazard_def Let_def ANIMAL_ALERT_THRESHOLD_KM_def
       split: if_splits)

lemma alertNearbyAnimals_some:
  "firstQualifyingHazard loc as s = Some a \<Longrightarrow>
     alertNearbyAnimals loc as s =
       (triggerNavigationAlert (hazardAlert a (calculateDistance loc (current a))) s)
         \<lparr>shownAnimalAlerts := insert (animalId a) (shownAnimalAlerts s)\<rparr>"
  by (induction as)
     (auto simp: firstQualifyingHazard_def Let_def ANIMAL_ALERT_THRESHOLD_KM_def
       split: if_splits)

lemma firstQualifyingHazard_some:
  assumes "firstQualifyingHazard loc as s = Some a"
  shows "calculateDistance loc (current a) \<le> 2" "animalId a \<notin> shownAnimalAlerts s"
    "navigationAlertRef s = None" "a \<in> set as"
proof -
  from assms have f: "find (\<lambda>a. calculateDistance loc (current a) \<le> 2 \<and>
                        animalId a \<notin> shownAnimalAlerts s) as = Some a"
    and n: "navigationAlertRef s = None"
    by (auto simp: firstQualifyingHazard_def split: if_splits)
  from find_holds[OF f] show "calculateDistance loc (current a) \<le> 2"
    "animalId a \<notin> shownAnimalAlerts s" by auto
  from n show "navigationAlertRef s = None" .
  from f show "a \<in> set as" by (auto simp: find_Some_iff)
qed

lemma trackingStart_cases:
  "(firstQualifyingHazard (liveLocationOf fx) (animalsNearRouteRef (beforeAnimalCheck fx s))
      (beforeAnimalCheck fx s) = None \<and>
    alertLog (trackingStart fx s) = alertLog s \<and>
    shownAnimalAlerts (trackingStart fx s) = shownAnimalAlerts s) \<or>
   (\<exists>a. firstQualifyingHazard (liveLocationOf fx)
          (animalsNearRouteRef (beforeAnimalCheck fx s)) (beforeAnimalCheck fx s) = Some a \<and>
        alertLog (trackingStart fx s) =
          alertLog s @ [hazardAlert a (calculateDistance (liveLocationOf fx) (current a))] \<and>
        shownAnimalAlerts (trackingStart fx s) = insert (animalId a) (shownAnimalAlerts s) \<and>
        animalId a \<notin> shownAnimalAlerts s)"
proof (cases "firstQualifyingHazard (liveLocationOf fx)
      (animalsNearRouteRef (beforeAnimalCheck fx s)) (beforeAnimalCheck fx s)")
  case None
  then show ?thesis
    by (simp add: trackingStart_def alertNearbyAnimals_none beforeAnimalCheck_fields)
next
  case (Some a)
  from firstQualifyingHazard_some(2)[OF Some]
  have "animalId a \<notin> shownAnimalAlerts s" by (simp add: beforeAnimalCheck_fields)
  with Some show ?thesis
    by (simp add: trackingStart_def alertNearbyAnimals_some triggerNavigationAlert_def
        beforeAnimalCheck_fields)
qed

lemma hazardAlertsFor_snoc:
  "alertLog t = alertLog s @ [hazardAlert a d] \<Longrightarrow>
     hazardAlertsFor h t = hazardAlertsFor h s @ (if animalId a = h then [hazardAlert a d] else [])"
  by (simp add: hazardAlertsFor_def hazardAlert_def)

lemma hazardAlertsFor_same: "alertLog t = alertLog s \<Longrightarrow> hazardAlertsFor h t = hazardAlertsFor h s"
  by (simp add: hazardAlertsFor_def)

lemma handlePosition_to_trackingStart:
  "hazardAlertsFor h (handlePosition fx s) = hazardAlertsFor h (trackingStart fx s)"
  "shownAnimalAlerts (handlePosition fx s) = shownAnimalAlerts (trackingStart fx s)"
  by (simp_all add: handlePosition_track trackProgress_hazards trackProgress_fields)

lemma trackingStart_once:
  "shownAnimalAlerts s \<subseteq> shownAnimalAlerts (trackingStart fx s) \<and>
   (hazardAlertsFor h (trackingStart fx s) = hazardAlertsFor h s \<or>
    (length (hazardAlertsFor h (trackingStart fx s)) = length (hazardAlertsFor h s) + 1 \<and>
     h \<notin> shownAnimalAlerts s \<and> h \<in> shownAnimalAlerts (trackingStart fx s)))"
proof -
  from trackingStart_cases[of fx s] consider
    (quiet) "alertLog (trackingStart fx s) = alertLog s"
      "shownAnimalAlerts (trackingStart fx s) = shownAnimalAlerts s"
  | (alert) a where
      "alertLog (trackingStart fx s) =
         alertLog s @ [hazardAlert a (calculateDistance (liveLocationOf fx) (current a))]"
      "shownAnimalAlerts (trackingStart fx s) = insert (animalId a) (shownAnimalAlerts s)"
      "animalId a \<notin> shownAnimalAlerts s"
    by blast
  then show ?thesis
  proof cases
    case quiet
    from hazardAlertsFor_same[OF quiet(1)] quiet(2) show ?thesis by simp
  next
    case alert
    from hazardAlertsFor_snoc[OF alert(1), of h] alert(2) alert(3) show ?thesis
      by (cases "animalId a = h") auto
  qed
qed

lemma trackingStart_plain:
  "closestPathIndex (trackingStart fx s) = closestPathIndex s"
  "isApproachingStart (trackingStart fx s) = isApproachingStart s"
  "initialRouteSnapshot (trackingStart fx s) = initialRouteSnapshot s"
  "safeRoute (trackingStart fx s) = safeRoute s"
  "emergencyRoute (trackingStart fx s) = emergencyRoute s"
  "watching (trackingStart fx s) = watching s"
  by (simp_all add: trackingStart_def alertNearbyAnimals_fields beforeAnimalCheck_fields)

lemma handlePosition_plain:
  "initialRouteSnapshot (handlePosition fx s) = initialRouteSnapshot s"
  "safeRoute (handlePosition fx s) = safeRoute s"
  "emergencyRoute (handlePosition fx s) = emergencyRoute s"
  "watching (handlePosition fx s) = watching s"
  by (simp_all add: handlePosition_track trackProgress_fields trackingStart_plain)

lemma process_plain:
  assumes "withinSession e"
  shows "watching (process e s) = watching s"
    and "safeRoute (process e s) = safeRoute s"
    and "initialRouteSnapshot (process e s) = initialRouteSnapshot s"
proof -
  show "watching (process e s) = watching s"
    using assms
    by (cases e)
       (simp_all add: process_def render_fields handlePosition_plain triggerNavigationAlert_def
         clearNavigationAlert_def clearWeatherAlert_def calculateRouteToNearestSafePlace_def
         Let_def split: option.splits sum.splits)
  show "safeRoute (process e s) = safeRoute s"
    using assms
    by (cases e)
       (simp_all add: process_def render_fields handlePosition_plain triggerNavigationAlert_def
         clearNavigationAlert_def clearWeatherAlert_def calculateRouteToNearestSafePlace_def
         Let_def split: option.splits sum.splits)
  show "initialRouteSnapshot (process e s) = initialRouteSnapshot s"
    using assms
    by (cases e)
       (simp_all add: process_def render_fields handlePosition_plain triggerNavigationAlert_def
         clearNavigationAlert_def clearWeatherAlert_def calculateRouteToNearestSafePlace_def
         Let_def split: option.splits sum.splits)
qed

lemma reroute_hazards:
  "hazardAlertsFor h (calculateRouteToNearestSafePlace a b s) = hazardAlertsFor h s"
  "shownAnimalAlerts (calculateRouteToNearestSafePlace a b s) = shownAnimalAlerts s"
  by (simp_all add: calculateRouteToNearestSafePlace_def triggerNavigationAlert_def
      hazardAlertsFor_def Let_def split: option.splits sum.splits)

lemma reroute_index:
  "(emergencyRoute (calculateRouteToNearestSafePlace a b s) = emergencyRoute s \<and>
    closestPathIndex (calculateRouteToNearestSafePlace a b s) = closestPathIndex s) \<or>
   closestPathIndex (calculateRouteToNearestSafePlace a b s) = 0"
  by (simp add: calculateRouteToNearestSafePlace_def triggerNavigationAlert_def
      Let_def split: option.splits sum.splits)

lemma render_hazards: "hazardAlertsFor h (render s) = hazardAlertsFor h s"
  by (simp add: hazardAlertsFor_def render_fields)

lemma process_once:
  assumes "withinSession e"
  shows "shownAnimalAlerts s \<subseteq> shownAnimalAlerts (process e s) \<and>
     (hazardAlertsFor h (process e s) = hazardAlertsFor h s \<or>
      (length (hazardAlertsFor h (process e s)) = length (hazardAlertsFor h s) + 1 \<and>
       h \<notin> shownAnimalAlerts s \<and> h \<in> shownAnimalAlerts (process e s)))"
proof (cases e)
  case (Position fx)
  have to: "hazardAlertsFor h (handlePosition fx s) = hazardAlertsFor h (trackingStart fx s)"
    "shownAnimalAlerts (handlePosition fx s) = shownAnimalAlerts (trackingStart fx s)"
    by (rule handlePosition_to_trackingStart)+
  show ?thesis
    using trackingStart_once[where h = h and fx = fx and s = s]
    by (simp add: Position process_def render_fields render_hazards to)
next
  case (EmergencyReroute a b)
  then show ?thesis
    by (simp add: process_def render_fields render_hazards reroute_hazards)
qed (use assms in \<open>simp_all add: process_def render_fields render_hazards
      triggerNavigationAlert_def clearNavigationAlert_def clearWeatherAlert_def
      hazardAlertsFor_def\<close>)

lemma run_once:
  "\<forall>e \<in> set es. withinSession e \<Longrightarrow>
     length (hazardAlertsFor h (run es s)) \<le>
       length (hazardAlertsFor h s) + (if h \<in> shownAnimalAlerts s then 0 else 1)"
proof (induction es arbitrary: s)
  case Nil
  show ?case by simp
next
  case (Cons e es)
  from Cons.prems have e: "withinSession e" and es: "\<forall>e \<in> set es. withinSession e" by auto
  note step = process_once[OF e, of s h]
  note ih = Cons.IH[OF es, of "process e s"]
  show ?case
  proof (cases "hazardAlertsFor h (process e s) = hazardAlertsFor h s")
    case True
    with step ih show ?thesis by (auto split: if_splits)
  next
    case False
    with step ih show ?thesis by (auto split: if_splits)
  qed
qed

subsection \<open>Inside a session\<close>

lemma process_rendered: "render (process e s) = process e s"
  by (simp add: process_def render_idem)

lemma inSession_start: "inSession r0 (process (StartNavigation (Some r0)) s)"
  unfolding inSession_def
  by (simp add: process_rendered) (simp add: process_def startNavigation_def render_def)

lemma activeRoute_in_session:
  assumes "inSession r0 s"
  shows "activeRouteOf (trackingStart fx s) = Some (sessionRoute r0 s)"
proof -
  from assms have sy: "render s = s" and sr: "safeRoute s = Some r0"
    by (simp_all add: inSession_def)
  show ?thesis
    by (simp add: activeRouteOf_def sessionRoute_def trackingStart_fields[OF sy] sr
        split: option.splits)
qed

lemma position_in_session:
  assumes "inSession r0 s"
  shows "isApproachingStart (process (Position fx) s) =
           (emergencyRoute s = None \<and>
            closestPointIndex (getPathDataFromLocation (liveLocationOf fx)
              (path (sessionRoute r0 s)) (closestPathIndex s)) = 0 \<and>
            calculateDistance (liveLocationOf fx) (start (sessionRoute r0 s)) > 0.5)"
    and "closestPathIndex (process (Position fx) s) =
           (if isApproachingStart (process (Position fx) s) then closestPathIndex s
            else closestPointIndex (getPathDataFromLocation (liveLocationOf fx)
                   (path (sessionRoute r0 s)) (closestPathIndex s)))"
    and "navigationStats (process (Position fx) s) = Some
           (if isApproachingStart (process (Position fx) s)
            then \<lparr>remainingKm = distanceKm r0, etaMinutes = durationMinutes r0,
                  progressPercent = 0\<rparr>
            else progressStats (distanceKm (sessionRoute r0 s))
                   (durationMinutes (sessionRoute r0 s))
                   (closestPointIndex (getPathDataFromLocation (liveLocationOf fx)
                      (path (sessionRoute r0 s)) (closestPathIndex s)))
                   (length (path (sessionRoute r0 s))))"
    and "routeMessage (process (Position fx) s) =
           (if isApproachingStart (process (Position fx) s)
            then ProceedToStart (toFixed1
                   (calculateDistance (liveLocationOf fx) (start (sessionRoute r0 s))))
            else routeMessage (trackingStart fx s))"
    and "emergencyRoute (process (Position fx) s) = emergencyRoute s"
proof -
  from assms have w: "watching s" and sy: "render s = s"
    and snap: "initialRouteSnapshot s = Some
        \<lparr>snapshotStart = start r0, snapshotEnd = endLoc r0, snapshotMode = mode r0,
         snapshotDistanceKm = distanceKm r0, snapshotDurationMinutes = durationMinutes r0\<rparr>"
    by (simp_all add: inSession_def)
  have eq: "process (Position fx) s =
            render (trackProgress (liveLocationOf fx) (trackingStart fx s))"
    using w by (simp add: process_def handlePosition_track)
  note tp = trackProgress_active[OF activeRoute_in_session[OF assms, of fx], of "liveLocationOf fx"]
  note ts = trackingStart_fields[OF sy, of fx]
  show "isApproachingStart (process (Position fx) s) =
           (emergencyRoute s = None \<and>
            closestPointIndex (getPathDataFromLocation (liveLocationOf fx)
              (path (sessionRoute r0 s)) (closestPathIndex s)) = 0 \<and>
            calculateDistance (liveLocationOf fx) (start (sessionRoute r0 s)) > 0.5)"
    unfolding eq render_fields tp(1) ts by simp
  show "closestPathIndex (process (Position fx) s) =
           (if isApproachingStart (process (Position fx) s) then closestPathIndex s
            else closestPointIndex (getPathDataFromLocation (liveLocationOf fx)
                   (path (sessionRoute r0 s)) (closestPathIndex s)))"
    unfolding eq render_fields tp(2) ts by simp
  show "navigationStats (process (Position fx) s) = Some
           (if isApproachingStart (process (Position fx) s)
            then \<lparr>remainingKm = distanceKm r0, etaMinutes = durationMinutes r0,
                  progressPercent = 0\<rparr>
            else progressStats (distanceKm (sessionRoute r0 s))
                   (durationMinutes (sessionRoute r0 s))
                   (closestPointIndex (getPathDataFromLocation (liveLocationOf fx)
                      (path (sessionRoute r0 s)) (closestPathIndex s)))
                   (length (path (sessionRoute r0 s))))"
    unfolding eq render_fields tp(3) ts snap by simp
  show "routeMessage (process (Position fx) s) =
           (if isApproachingStart (process (Position fx) s)
            then ProceedToStart (toFixed1
                   (calculateDistance (liveLocationOf fx) (start (sessionRoute r0 s))))
            else routeMessage (trackingStart fx s))"
    unfolding eq render_fields tp(4) by simp
  show "emergencyRoute (process (Position fx) s) = emergencyRoute s"
    unfolding eq render_fields by (simp add: trackProgress_fields ts)
qed

lemma inSession_process:
  assumes e: "withinSession e" and inv: "inSession r0 s"
  shows "inSession r0 (process e s)"
proof -
  from inv have idx: "closestPathIndex s = 0 \<or>
      closestPathIndex s < length (path (sessionRoute r0 s))"
    by (simp add: inSession_def)
  have base: "watching (process e s)" "render (process e s) = process e s"
    "safeRoute (process e s) = Some r0"
    "initialRouteSnapshot (process e s) = Some
        \<lparr>snapshotStart = start r0, snapshotEnd = endLoc r0, snapshotMode = mode r0,
         snapshotDistanceKm = distanceKm r0, snapshotDurationMinutes = durationMinutes r0\<rparr>"
    using inv by (simp_all add: process_plain[OF e] process_rendered inSession_def)
  have "closestPathIndex (process e s) = 0 \<or>
        closestPathIndex (process e s) < length (path (sessionRoute r0 (process e s)))"
  proof (cases e)
    case (Position fx)
    have sr: "sessionRoute r0 (process (Position fx) s) = sessionRoute r0 s"
      by (simp add: sessionRoute_def position_in_session(5)[OF inv])
    show ?thesis
      unfolding Position sr position_in_session(2)[OF inv]
      using idx getPathData_upper[OF idx, of "liveLocationOf fx"] by auto
  next
    case (EmergencyReroute a b)
    show ?thesis
      using reroute_index[of a b s] idx
      by (auto simp: EmergencyReroute process_def render_fields sessionRoute_def)
  qed (use e idx in \<open>simp_all add: process_def render_fields sessionRoute_def
        triggerNavigationAlert_def clearNavigationAlert_def clearWeatherAlert_def\<close>)
  with base show ?thesis by (simp add: inSession_def)
qed

lemma inSession_run:
  "\<forall>e \<in> set es. withinSession e \<Longrightarrow> inSession r0 s \<Longrightarrow> inSession r0 (run es s)"
  by (induction es arbitrary: s) (simp_all add: inSession_process)

subsection \<open>The claims about tracking\<close>

text \<open>
  Claim C5, as the code has it. Inside a session a processed fix never moves the matched
  index more than 20 below its previous value; inside that window it may move backward.
  A start and a stop set it to 0, an emergency reroute sets it to 0 or leaves it, and the
  other events leave it.
\<close>

theorem matched_index_back_buffer:
  "(\<forall>e \<in> set es. withinSession e) \<longrightarrow>
     (let s = run es (process (StartNavigation (Some r0)) s0)
      in closestPathIndex s - 20 \<le> closestPathIndex (process (Position fx) s) \<and>
         closestPathIndex (process (StartNavigation (Some r)) s) = 0 \<and>
         closestPathIndex (process StopNavigation s) = 0 \<and>
         (closestPathIndex (process (EmergencyReroute a b) s) = closestPathIndex s \<or>
          closestPathIndex (process (EmergencyReroute a b) s) = 0) \<and>
         closestPathIndex (process WatchError s) = closestPathIndex s \<and>
         closestPathIndex (process DismissAlert s) = closestPathIndex s \<and>
         closestPathIndex (process DismissWeatherAlert s) = closestPathIndex s)"
proof (intro impI)
  assume es: "\<forall>e \<in> set es. withinSession e"
  define s where "s = run es (process (StartNavigation (Some r0)) s0)"
  have inv: "inSession r0 s"
    unfolding s_def by (rule inSession_run[OF es inSession_start])
  then have idx: "closestPathIndex s = 0 \<or>
      closestPathIndex s < length (path (sessionRoute r0 s))"
    by (simp add: inSession_def)
  have pos: "closestPathIndex s - 20 \<le> closestPathIndex (process (Position fx) s)"
    unfolding position_in_session(2)[OF inv]
    using getPathData_lower'[OF idx, of "liveLocationOf fx"] by simp
  have rest: "closestPathIndex (process (StartNavigation (Some r)) s) = 0"
    "closestPathIndex (process StopNavigation s) = 0"
    "closestPathIndex (process WatchError s) = closestPathIndex s"
    "closestPathIndex (process DismissAlert s) = closestPathIndex s"
    "closestPathIndex (process DismissWeatherAlert s) = closestPathIndex s"
    by (simp_all add: process_def render_fields startNavigation_def stopNavigation_def
        triggerNavigationAlert_def clearNavigationAlert_def clearWeatherAlert_def)
  have re: "closestPathIndex (process (EmergencyReroute a b) s) = closestPathIndex s \<or>
          closestPathIndex (process (EmergencyReroute a b) s) = 0"
    using reroute_index[of a b s] by (auto simp: process_def render_fields)
  from pos rest re show "let s = run es (process (StartNavigation (Some r0)) s0)
      in closestPathIndex s - 20 \<le> closestPathIndex (process (Position fx) s) \<and>
         closestPathIndex (process (StartNavigation (Some r)) s) = 0 \<and>
         closestPathIndex (process StopNavigation s) = 0 \<and>
         (closestPathIndex (process (EmergencyReroute a b) s) = closestPathIndex s \<or>
          closestPathIndex (process (EmergencyReroute a b) s) = 0) \<and>
         closestPathIndex (process WatchError s) = closestPathIndex s \<and>
         closestPathIndex (process DismissAlert s) = closestPathIndex s \<and>
         closestPathIndex (process DismissWeatherAlert s) = closestPathIndex s"
    unfolding Let_def s_def[symmetric] by simp
qed

text \<open>
  Claim C6. Inside a session, after a fix the session is approaching the start exactly when
  the nearest point found has index 0, the distance to the start of the active route
  exceeds 0.5 km and no emergency route is set; then the statistics are the distance and
  duration of the route the session started on with 0 percent, the message tells the
  distance to the start, and the matched index is the one before the fix.
\<close>

theorem approaching_start_state:
  "(\<forall>e \<in> set es. withinSession e) \<longrightarrow>
     (let s = run es (process (StartNavigation (Some r0)) s0);
          s' = process (Position fx) s;
          active = (case emergencyRoute s of Some r \<Rightarrow> r | None \<Rightarrow> r0);
          nearest = closestPointIndex
                      (getPathDataFromLocation (liveLocationOf fx) (path active)
                         (closestPathIndex s));
          distanceToStart = calculateDistance (liveLocationOf fx) (start active)
      in (isApproachingStart s' \<longleftrightarrow>
            nearest = 0 \<and> distanceToStart > 0.5 \<and> emergencyRoute s = None) \<and>
         (isApproachingStart s' \<longrightarrow>
            navigationStats s' = Some
              \<lparr>remainingKm = distanceKm r0, etaMinutes = durationMinutes r0,
               progressPercent = 0\<rparr> \<and>
            routeMessage s' = ProceedToStart (toFixed1 distanceToStart) \<and>
            closestPathIndex s' = closestPathIndex s))"
proof (intro impI)
  assume es: "\<forall>e \<in> set es. withinSession e"
  define s where "s = run es (process (StartNavigation (Some r0)) s0)"
  have inv: "inSession r0 s"
    unfolding s_def by (rule inSession_run[OF es inSession_start])
  note p = position_in_session[OF inv, of fx]
  have "(isApproachingStart (process (Position fx) s) \<longleftrightarrow>
           closestPointIndex (getPathDataFromLocation (liveLocationOf fx)
              (path (sessionRoute r0 s)) (closestPathIndex s)) = 0 \<and>
           calculateDistance (liveLocationOf fx) (start (sessionRoute r0 s)) > 0.5 \<and>
           emergencyRoute s = None) \<and>
        (isApproachingStart (process (Position fx) s) \<longrightarrow>
           navigationStats (process (Position fx) s) = Some
              \<lparr>remainingKm = distanceKm r0, etaMinutes = durationMinutes r0,
               progressPercent = 0\<rparr> \<and>
           routeMessage (process (Position fx) s) =
             ProceedToStart (toFixed1
               (calculateDistance (liveLocationOf fx) (start (sessionRoute r0 s)))) \<and>
           closestPathIndex (process (Position fx) s) = closestPathIndex s)"
    using p(1) p(2) p(3) p(4) by auto
  then show "let s = run es (process (StartNavigation (Some r0)) s0);
          s' = process (Position fx) s;
          active = (case emergencyRoute s of Some r \<Rightarrow> r | None \<Rightarrow> r0);
          nearest = closestPointIndex
                      (getPathDataFromLocation (liveLocationOf fx) (path active)
                         (closestPathIndex s));
          distanceToStart = calculateDistance (liveLocationOf fx) (start active)
      in (isApproachingStart s' \<longleftrightarrow>
            nearest = 0 \<and> distanceToStart > 0.5 \<and> emergencyRoute s = None) \<and>
         (isApproachingStart s' \<longrightarrow>
            navigationStats s' = Some
              \<lparr>remainingKm = distanceKm r0, etaMinutes = durationMinutes r0,
               progressPercent = 0\<rparr> \<and>
            routeMessage s' = ProceedToStart (toFixed1 distanceToStart) \<and>
            closestPathIndex s' = closestPathIndex s)"
    unfolding Let_def s_def[symmetric] sessionRoute_def
    by (cases "emergencyRoute s") auto
qed

text \<open>
  Claim C7, as the code has it. Inside a session, a fix that is not approaching the start
  sets the matched index to the nearest point found and emits, for the ratio
  \<open>index / (length - 1)\<close> (0 for a path of fewer than 2 points): the remaining distance
  \<open>total * (1 - ratio)\<close> rounded to one decimal and read back as a double, the ETA
  \<open>total * (1 - ratio)\<close> rounded to the minute, and the percentage \<open>round (ratio * 100)\<close>
  clamped to 0..100. The quotient, the difference and the products are those of the
  doubles, each rounded to the nearest double before the next operation; the roundings
  to a decimal and to an integer act on the exact value of the double they are given:
  the decimal lies within 0.05 of the product, the integers within 0.5 of theirs, a tie
  going up.
\<close>

theorem progress_stats_rounded:
  "(\<forall>e \<in> set es. withinSession e) \<longrightarrow>
     (let s = run es (process (StartNavigation (Some r0)) s0);
          s' = process (Position fx) s;
          active = (case emergencyRoute s of Some r \<Rightarrow> r | None \<Rightarrow> r0);
          ratio = (if length (path active) > 1
                   then js_quot (real (closestPathIndex s')) (real (length (path active)) - 1)
                   else 0);
          km = js_times (distanceKm active) (js_minus 1 ratio);
          minutes = js_times (durationMinutes active) (js_minus 1 ratio);
          percent = js_times ratio 100
      in \<not> isApproachingStart s' \<longrightarrow>
           closestPathIndex s' =
             closestPointIndex
               (getPathDataFromLocation (liveLocationOf fx) (path active) (closestPathIndex s)) \<and>
           navigationStats s' = Some
             \<lparr>remainingKm = fl64 (toFixed1 km),
              etaMinutes = Math_round minutes,
              progressPercent = max 0 (min 100 (Math_round percent))\<rparr> \<and>
           (\<exists>n::int. toFixed1 km = of_int n / 10 \<and> \<bar>of_int n / 10 - km\<bar> \<le> 1 / 20) \<and>
           (\<exists>n::int. Math_round minutes = of_int n \<and>
              minutes - 1 / 2 < of_int n \<and> of_int n \<le> minutes + 1 / 2) \<and>
           (\<exists>n::int. Math_round percent = of_int n \<and>
              percent - 1 / 2 < of_int n \<and> of_int n \<le> percent + 1 / 2))"
proof (intro impI)
  assume es: "\<forall>e \<in> set es. withinSession e"
  define s where "s = run es (process (StartNavigation (Some r0)) s0)"
  have inv: "inSession r0 s"
    unfolding s_def by (rule inSession_run[OF es inSession_start])
  note p = position_in_session[OF inv, of fx]
  have tenth: "\<exists>n::int. toFixed1 x = of_int n / 10 \<and> \<bar>of_int n / 10 - x\<bar> \<le> 1 / 20" for x
  proof -
    from toFixed1_nearest[of x] obtain n :: int
      where n: "toFixed1 x = of_int n / 10" and b: "\<bar>toFixed1 x - x\<bar> \<le> 1 / 20"
      by blast
    from b have "\<bar>of_int n / 10 - x\<bar> \<le> 1 / 20" unfolding n .
    with n show ?thesis by blast
  qed
  have unit: "\<exists>n::int. Math_round x = of_int n \<and> x - 1 / 2 < of_int n \<and> of_int n \<le> x + 1 / 2"
    for x
    using Math_round_nearest[of x] by (auto simp: Math_round_def)
  have "\<not> isApproachingStart (process (Position fx) s) \<longrightarrow>
           closestPathIndex (process (Position fx) s) =
             closestPointIndex
               (getPathDataFromLocation (liveLocationOf fx) (path (sessionRoute r0 s))
                  (closestPathIndex s)) \<and>
           navigationStats (process (Position fx) s) = Some
             (progressStats (distanceKm (sessionRoute r0 s)) (durationMinutes (sessionRoute r0 s))
                (closestPathIndex (process (Position fx) s)) (length (path (sessionRoute r0 s))))"
    using p(2) p(3) by simp
  then show "let s = run es (process (StartNavigation (Some r0)) s0);
          s' = process (Position fx) s;
          active = (case emergencyRoute s of Some r \<Rightarrow> r | None \<Rightarrow> r0);
          ratio = (if length (path active) > 1
                   then js_quot (real (closestPathIndex s')) (real (length (path active)) - 1)
                   else 0);
          km = js_times (distanceKm active) (js_minus 1 ratio);
          minutes = js_times (durationMinutes active) (js_minus 1 ratio);
          percent = js_times ratio 100
      in \<not> isApproachingStart s' \<longrightarrow>
           closestPathIndex s' =
             closestPointIndex
               (getPathDataFromLocation (liveLocationOf fx) (path active) (closestPathIndex s)) \<and>
           navigationStats s' = Some
             \<lparr>remainingKm = fl64 (toFixed1 km),
              etaMinutes = Math_round minutes,
              progressPercent = max 0 (min 100 (Math_round percent))\<rparr> \<and>
           (\<exists>n::int. toFixed1 km = of_int n / 10 \<and> \<bar>of_int n / 10 - km\<bar> \<le> 1 / 20) \<and>
           (\<exists>n::int. Math_round minutes = of_int n \<and>
              minutes - 1 / 2 < of_int n \<and> of_int n \<le> minutes + 1 / 2) \<and>
           (\<exists>n::int. Math_round percent = of_int n \<and>
              percent - 1 / 2 < of_int n \<and> of_int n \<le> percent + 1 / 2)"
    unfolding Let_def s_def[symmetric] sessionRoute_def progressStats_def
    using tenth unit by simp
qed

subsection \<open>The claim about hazard alerts\<close>

lemma hazardAlerts_same: "alertLog t = alertLog s \<Longrightarrow> hazardAlerts t = hazardAlerts s"
  by (simp add: hazardAlerts_def)

lemma hazardAlerts_snoc:
  "alertLog t = alertLog s @ [hazardAlert a d] \<Longrightarrow> hazardAlerts t = hazardAlerts s @ [hazardAlert a d]"
  by (simp add: hazardAlerts_def hazardAlert_def)

lemma handlePosition_first_qualifying:
  "hazardAlerts (handlePosition fx s) =
     hazardAlerts s @
       (case firstQualifyingHazard (liveLocationOf fx)
               (animalsNearRouteRef (beforeAnimalCheck fx s)) (beforeAnimalCheck fx s) of
          None \<Rightarrow> []
        | Some a \<Rightarrow> [hazardAlert a (calculateDistance (liveLocationOf fx) (current a))])"
proof -
  have e: "hazardAlerts (handlePosition fx s) = hazardAlerts (trackingStart fx s)"
    by (simp add: handlePosition_track trackProgress_hazards)
  from trackingStart_cases[of fx s] consider
    (quiet) "firstQualifyingHazard (liveLocationOf fx)
               (animalsNearRouteRef (beforeAnimalCheck fx s)) (beforeAnimalCheck fx s) = None"
      "alertLog (trackingStart fx s) = alertLog s"
  | (alert) a where "firstQualifyingHazard (liveLocationOf fx)
               (animalsNearRouteRef (beforeAnimalCheck fx s)) (beforeAnimalCheck fx s) = Some a"
      "alertLog (trackingStart fx s) =
         alertLog s @ [hazardAlert a (calculateDistance (liveLocationOf fx) (current a))]"
    by auto
  then show ?thesis
  proof cases
    case quiet
    from hazardAlerts_same[OF quiet(2)] quiet(1) e show ?thesis by simp
  next
    case alert
    from hazardAlerts_snoc[OF alert(2)] alert(1) e show ?thesis by simp
  qed
qed

lemma start_hazards:
  "hazardAlertsFor h (process (StartNavigation (Some r0)) s0) = hazardAlertsFor h s0"
  "shownAnimalAlerts (process (StartNavigation (Some r0)) s0) = {}"
  by (simp_all add: process_def render_hazards render_fields startNavigation_def
      hazardAlertsFor_def)

lemma two_fixes_one_alert:
  assumes w: "watching s" and sy: "render s = s" and na: "navigationAlert s = None"
    and f: "find (\<lambda>a. calculateDistance (liveLocationOf f1) (current a) \<le> 2 \<and>
                       animalId a \<notin> shownAnimalAlerts s) (animalsNearRoute s) = Some a"
  shows "length (hazardAlertsFor (animalId a) (run [Position f1, Position f2] s)) =
         length (hazardAlertsFor (animalId a) s) + 1"
proof -
  have ref: "navigationAlertRef (beforeAnimalCheck f1 s) = None"
    using synced_refs(3)[OF sy] na
    by (simp add: beforeAnimalCheck_def checkWeather_def clearStaleSignalLost_def render_def
        triggerWeatherAlert_def clearWeatherAlert_def Let_def split: option.splits)
  have fq: "firstQualifyingHazard (liveLocationOf f1)
              (animalsNearRouteRef (beforeAnimalCheck f1 s)) (beforeAnimalCheck f1 s) = Some a"
    using f ref
    by (simp add: firstQualifyingHazard_def beforeAnimalCheck_refs[OF sy]
        beforeAnimalCheck_fields)
  from trackingStart_cases[of f1 s] fq
  have log: "alertLog (trackingStart f1 s) =
          alertLog s @ [hazardAlert a (calculateDistance (liveLocationOf f1) (current a))]"
    and sh: "shownAnimalAlerts (trackingStart f1 s) = insert (animalId a) (shownAnimalAlerts s)"
    by auto
  have p1: "hazardAlertsFor (animalId a) (process (Position f1) s) =
        hazardAlertsFor (animalId a) s @
          [hazardAlert a (calculateDistance (liveLocationOf f1) (current a))]"
    using w hazardAlertsFor_snoc[OF log, of "animalId a"]
    by (simp add: process_def render_hazards handlePosition_to_trackingStart)
  have s1: "animalId a \<in> shownAnimalAlerts (process (Position f1) s)"
    using w sh by (simp add: process_def render_fields handlePosition_to_trackingStart)
  from process_once[of "Position f2" "process (Position f1) s" "animalId a"] s1
  have "hazardAlertsFor (animalId a) (process (Position f2) (process (Position f1) s)) =
        hazardAlertsFor (animalId a) (process (Position f1) s)"
    by auto
  with p1 show ?thesis by simp
qed

text \<open>
  Claim C4. Within a session (any events between a start and the next start or stop) at most
  one alert is raised for a hazard id. On a fix the handler raises the alert of the first
  qualifying hazard and nothing else: a hazard qualifies only within 2 km, not alerted
  before in the session, and with no alert active (as the handler sees it when it reaches
  the animal check). Two successive fixes, the first of which finds a hazard qualifying
  first, raise exactly one alert for it, wherever the second fix lies.
\<close>

theorem hazard_alert_once:
  "((\<forall>e \<in> set es. withinSession e) \<longrightarrow>
      length (hazardAlertsFor h (run es (process (StartNavigation (Some r0)) s0)))
        \<le> length (hazardAlertsFor h s0) + 1) \<and>
   hazardAlerts (handlePosition fx s) =
     hazardAlerts s @
       (case firstQualifyingHazard (liveLocationOf fx)
               (animalsNearRouteRef (beforeAnimalCheck fx s)) (beforeAnimalCheck fx s) of
          None \<Rightarrow> []
        | Some a \<Rightarrow> [hazardAlert a (calculateDistance (liveLocationOf fx) (current a))]) \<and>
   (firstQualifyingHazard loc animals t = Some a \<longrightarrow>
      calculateDistance loc (current a) \<le> 2 \<and> animalId a \<notin> shownAnimalAlerts t \<and>
      navigationAlertRef t = None \<and> a \<in> set animals) \<and>
   (watching s' \<and> render s' = s' \<and> navigationAlert s' = None \<and>
    find (\<lambda>a. calculateDistance (liveLocationOf fixA) (current a) \<le> 2 \<and>
               animalId a \<notin> shownAnimalAlerts s') (animalsNearRoute s') = Some a'
      \<longrightarrow> length (hazardAlertsFor (animalId a') (run [Position fixA, Position fixB] s')) =
          length (hazardAlertsFor (animalId a') s') + 1)"
proof (intro conjI impI)
  assume es: "\<forall>e \<in> set es. withinSession e"
  from run_once[OF es, of h "process (StartNavigation (Some r0)) s0"]
  show "length (hazardAlertsFor h (run es (process (StartNavigation (Some r0)) s0)))
        \<le> length (hazardAlertsFor h s0) + 1"
    by (simp add: start_hazards)
next
  show "hazardAlerts (handlePosition fx s) =
     hazardAlerts s @
       (case firstQualifyingHazard (liveLocationOf fx)
               (animalsNearRouteRef (beforeAnimalCheck fx s)) (beforeAnimalCheck fx s) of
          None \<Rightarrow> []
        | Some a \<Rightarrow> [hazardAlert a (calculateDistance (liveLocationOf fx) (current a))])"
    by (rule handlePosition_first_qualifying)
next
  assume q: "firstQualifyingHazard loc animals t = Some a"
  from firstQualifyingHazard_some[OF q]
  show "calculateDistance loc (current a) \<le> 2" "animalId a \<notin> shownAnimalAlerts t"
    "navigationAlertRef t = None" "a \<in> set animals"
    by auto
next
  assume "watching s' \<and> render s' = s' \<and> navigationAlert s' = None \<and>
    find (\<lambda>a. calculateDistance (liveLocationOf fixA) (current a) \<le> 2 \<and>
               animalId a \<notin> shownAnimalAlerts s') (animalsNearRoute s') = Some a'"
  then show "length (hazardAlertsFor (animalId a') (run [Position fixA, Position fixB] s')) =
          length (hazardAlertsFor (animalId a') s') + 1"
    using two_fixes_one_alert[of s' fixA a' fixB] by blast
qed

subsection \<open>Concrete sessions\<close>

lemma liveLocationOf_fixAt:
  "lat (liveLocationOf (fixAt la lo)) = la" "lon (liveLocationOf (fixAt la lo)) = lo"
  by (simp_all add: liveLocationOf_def fixAt_def)

lemma started:
  "closestPathIndex (process (StartNavigation (Some r)) s0) = 0"
  "emergencyRoute (process (StartNavigation (Some r)) s0) = None"
  "watching (process (StartNavigation (Some r)) s0)"
  "navigationAlert (process (StartNavigation (Some r)) s0) = None"
  "animalsNearRoute (process (StartNavigation (Some r)) s0) = animalsNearRoute s0"
  "alertLog (process (StartNavigation (Some r)) s0) = alertLog s0"
  by (simp_all add: process_def render_def startNavigation_def)

lemma nearest_B:
  "closestPointIndex
     (getPathDataFromLocation (liveLocationOf (fixAt 0 180)) [(0, 0), (0, 180)] 0) = 1"
proof -
  have a: "calculateDistance (liveLocationOf (fixAt 0 180)) \<lparr>lat = 0, lon = 0\<rparr> = 6371 * pi"
    by (rule calculateDistance_antipodal') (simp_all add: liveLocationOf_fixAt)
  have b: "calculateDistance (liveLocationOf (fixAt 0 180)) \<lparr>lat = 0, lon = 180\<rparr> = 0"
    by (rule calculateDistance_same) (simp_all add: liveLocationOf_fixAt)
  show ?thesis
    by (simp add: getPathDataFromLocation_def a b INCREASING_THRESHOLD_def)
qed

lemma nearest_A:
  "closestPointIndex
     (getPathDataFromLocation (liveLocationOf (fixAt 0 0)) [(0, 0), (0, 180)] 1) = 0"
proof -
  have a: "calculateDistance (liveLocationOf (fixAt 0 0)) \<lparr>lat = 0, lon = 0\<rparr> = 0"
    by (rule calculateDistance_same) (simp_all add: liveLocationOf_fixAt)
  have b: "calculateDistance (liveLocationOf (fixAt 0 0)) \<lparr>lat = 0, lon = 180\<rparr> = 6371 * pi"
    by (rule calculateDistance_antipodal) (simp_all add: liveLocationOf_fixAt)
  show ?thesis
    by (simp add: getPathDataFromLocation_def a b INCREASING_THRESHOLD_def)
qed

text \<open>
  The claim as stated fails: on a route of two vertices, a fix at the second vertex
  matches index 1 and the next fix, at the first vertex, matches index 0, with no reset in
  between.
\<close>

theorem matched_index_moves_back:
  "closestPathIndex
     (run [Position (fixAt 0 180)] (process (StartNavigation (Some twoPointRoute)) idle)) = 1 \<and>
   closestPathIndex
     (run [Position (fixAt 0 180), Position (fixAt 0 0)]
        (process (StartNavigation (Some twoPointRoute)) idle)) = 0"
proof -
  define s1 where "s1 = process (StartNavigation (Some twoPointRoute)) idle"
  define s2 where "s2 = process (Position (fixAt 0 180)) s1"
  have inv1: "inSession twoPointRoute s1"
    unfolding s1_def by (rule inSession_start)
  have r1: "sessionRoute twoPointRoute s1 = twoPointRoute"
    by (simp add: sessionRoute_def s1_def started)
  have i1: "closestPathIndex s1 = 0" by (simp add: s1_def started)
  have p: "path twoPointRoute = [(0, 0), (0, 180)]" by (simp add: twoPointRoute_def)
  have a2: "\<not> isApproachingStart s2"
    unfolding s2_def position_in_session(1)[OF inv1] r1 i1 p nearest_B by simp
  have i2: "closestPathIndex s2 = 1"
    using a2 unfolding s2_def position_in_session(2)[OF inv1] r1 i1 p nearest_B by simp
  have inv2: "inSession twoPointRoute s2"
    unfolding s2_def by (rule inSession_process[OF _ inv1]) simp
  have "emergencyRoute s2 = None"
    unfolding s2_def position_in_session(5)[OF inv1] by (simp add: s1_def started)
  then have r2: "sessionRoute twoPointRoute s2 = twoPointRoute"
    by (simp add: sessionRoute_def)
  have d: "calculateDistance (liveLocationOf (fixAt 0 0)) (start twoPointRoute) = 0"
    by (rule calculateDistance_same)
       (simp_all add: liveLocationOf_fixAt twoPointRoute_def pointA_def)
  have a3: "\<not> isApproachingStart (process (Position (fixAt 0 0)) s2)"
    unfolding position_in_session(1)[OF inv2] r2 i2 p nearest_A d by simp
  have i3: "closestPathIndex (process (Position (fixAt 0 0)) s2) = 0"
    using a3 unfolding position_in_session(2)[OF inv2] r2 i2 p nearest_A by simp
  from i2 i3 show ?thesis by (simp add: s1_def s2_def)
qed

theorem matched_index_back_buffer_witness:
  "withinSession (Position (fixAt 0 180)) \<and>
   closestPathIndex
     (run [Position (fixAt 0 180)] (process (StartNavigation (Some twoPointRoute)) idle)) - 20
     \<le> closestPathIndex
          (process (Position (fixAt 0 0))
             (run [Position (fixAt 0 180)]
                (process (StartNavigation (Some twoPointRoute)) idle)))"
  using matched_index_back_buffer[of "[Position (fixAt 0 180)]" twoPointRoute idle "fixAt 0 0"
      twoPointRoute "Inr None" "Inr None"]
  by (simp add: Let_def)

lemma nearest_west:
  "closestPointIndex
     (getPathDataFromLocation (liveLocationOf (fixAt 0 (- 90))) [(0, 0), (0, 90)] 0) = 0"
proof -
  have a: "calculateDistance (liveLocationOf (fixAt 0 (- 90))) \<lparr>lat = 0, lon = 0\<rparr>
           = 6371 * pi / 2"
    by (rule calculateDistance_quarter) (simp_all add: liveLocationOf_fixAt)
  have b: "calculateDistance (liveLocationOf (fixAt 0 (- 90))) \<lparr>lat = 0, lon = 90\<rparr>
           = 6371 * pi"
    by (rule calculateDistance_antipodal) (simp_all add: liveLocationOf_fixAt)
  show ?thesis
    by (simp add: getPathDataFromLocation_def a b INCREASING_THRESHOLD_def)
qed

lemma west_of_start:
  "calculateDistance (liveLocationOf (fixAt 0 (- 90))) (start westRoute) = 6371 * pi / 2"
  by (rule calculateDistance_quarter)
     (simp_all add: liveLocationOf_fixAt westRoute_def pointA_def)

theorem approaching_start_state_witness:
  "isApproachingStart
     (process (Position (fixAt 0 (- 90))) (process (StartNavigation (Some westRoute)) idle)) \<and>
   navigationStats
     (process (Position (fixAt 0 (- 90))) (process (StartNavigation (Some westRoute)) idle)) =
     Some \<lparr>remainingKm = 20, etaMinutes = 30, progressPercent = 0\<rparr> \<and>
   routeMessage
     (process (Position (fixAt 0 (- 90))) (process (StartNavigation (Some westRoute)) idle)) =
     ProceedToStart (toFixed1 (6371 * pi / 2)) \<and>
   closestPathIndex
     (process (Position (fixAt 0 (- 90))) (process (StartNavigation (Some westRoute)) idle)) = 0"
proof -
  have p: "path westRoute = [(0, 0), (0, 90)]" "distanceKm westRoute = 20"
    "durationMinutes westRoute = 30"
    by (simp_all add: westRoute_def)
  have far: "(1 / 2 :: real) < 6371 * pi / 2" using pi_ge_two by simp
  from approaching_start_state[of "[]" westRoute idle "fixAt 0 (- 90)"] far
  show ?thesis
    by (simp add: Let_def started p nearest_west west_of_start)
qed

lemma nearest_loop:
  "closestPointIndex
     (getPathDataFromLocation (liveLocationOf (fixAt 0 180))
        [(0, 0), (0, 180), (0, 0), (0, 0)] 0) = 1"
proof -
  have a: "calculateDistance (liveLocationOf (fixAt 0 180)) \<lparr>lat = 0, lon = 0\<rparr> = 6371 * pi"
    by (rule calculateDistance_antipodal') (simp_all add: liveLocationOf_fixAt)
  have b: "calculateDistance (liveLocationOf (fixAt 0 180)) \<lparr>lat = 0, lon = 180\<rparr> = 0"
    by (rule calculateDistance_same) (simp_all add: liveLocationOf_fixAt)
  show ?thesis
    by (simp add: getPathDataFromLocation_def a b INCREASING_THRESHOLD_def)
qed

lemma four_ratio: "js_quot 1 3 = 6004799503160661 / 2 ^ 54"
  unfolding js_quot_def fl64_def
  by (subst fl_eq[where k = "-2" and n = "6004799503160661"])
     (simp_all add: pow2_def roundHalfEven_def Let_def)

lemma four_rest: "js_minus 1 (6004799503160661 / 2 ^ 54) = 3002399751580331 / 2 ^ 52"
  unfolding js_minus_def fl64_def
  by (subst fl_eq[where k = "-1" and n = "6004799503160662"])
     (simp_all add: pow2_def roundHalfEven_def Let_def)

lemma four_km: "js_times 10 (3002399751580331 / 2 ^ 52) = 1876499844737707 / 2 ^ 48"
  unfolding js_times_def fl64_def
  by (subst fl_eq[where k = "2" and n = "7505999378950828"])
     (simp_all add: pow2_def roundHalfEven_def Let_def)

lemma four_minutes: "js_times 30 (3002399751580331 / 2 ^ 52) = 5629499534213121 / 2 ^ 48"
  unfolding js_times_def fl64_def
  by (subst fl_eq[where k = "4" and n = "5629499534213121"])
     (simp_all add: pow2_def roundHalfEven_def Let_def)

lemma four_hundred: "js_times (6004799503160661 / 2 ^ 54) 100 = 2345624805922133 / 2 ^ 46"
  unfolding js_times_def fl64_def
  by (subst fl_eq[where k = "5" and n = "4691249611844266"])
     (simp_all add: pow2_def roundHalfEven_def Let_def)

lemma four_remaining: "toFixed1 (js_times 10 (js_minus 1 (js_quot 1 3))) = 67 / 10"
  unfolding four_ratio four_rest four_km by (simp add: toFixed1_def)

lemma four_eta: "Math_round (js_times 30 (js_minus 1 (js_quot 1 3))) = 20"
  unfolding four_ratio four_rest four_minutes by (simp add: Math_round_def)

lemma four_percent: "Math_round (js_times (js_quot 1 3) 100) = 33"
  unfolding four_ratio four_hundred by (simp add: Math_round_def)

lemma seven_ratio: "js_quot 5 6 = 7505999378950827 / 2 ^ 53"
  unfolding js_quot_def fl64_def
  by (subst fl_eq[where k = "-1" and n = "7505999378950827"])
     (simp_all add: pow2_def roundHalfEven_def Let_def)

lemma seven_rest: "js_minus 1 (7505999378950827 / 2 ^ 53) = 1501199875790165 / 2 ^ 53"
  unfolding js_minus_def fl64_def
  by (subst fl_exact[where n = "1501199875790165" and j = "-53"]) (simp_all add: pow2_def)

lemma seven_km: "js_times 9 (1501199875790165 / 2 ^ 53) = 3377699720527871 / 2 ^ 51"
  unfolding js_times_def fl64_def
  by (subst fl_eq[where k = "0" and n = "6755399441055742"])
     (simp_all add: pow2_def roundHalfEven_def Let_def)

lemma seven_hundred: "js_times (7505999378950827 / 2 ^ 53) 100 = 2932031007402667 / 2 ^ 45"
  unfolding js_times_def fl64_def
  by (subst fl_eq[where k = "6" and n = "5864062014805334"])
     (simp_all add: pow2_def roundHalfEven_def Let_def)

lemma seven_remaining: "toFixed1 (js_times 9 (js_minus 1 (js_quot 5 6))) = 3 / 2"
  unfolding seven_ratio seven_rest seven_km by (simp add: toFixed1_def)

lemma seven_eta: "Math_round (js_times 9 (js_minus 1 (js_quot 5 6))) = 1"
  unfolding seven_ratio seven_rest seven_km by (simp add: Math_round_def)

lemma seven_percent: "Math_round (js_times (js_quot 5 6) 100) = 83"
  unfolding seven_ratio seven_hundred by (simp add: Math_round_def)

lemma long_ratio: "js_quot 23 40 = 2589569785738035 / 2 ^ 52"
  unfolding js_quot_def fl64_def
  by (subst fl_eq[where k = "-1" and n = "5179139571476070"])
     (simp_all add: pow2_def roundHalfEven_def Let_def)

lemma long_rest: "js_minus 1 (2589569785738035 / 2 ^ 52) = 1914029841632461 / 2 ^ 52"
  unfolding js_minus_def fl64_def
  by (subst fl_exact[where n = "1914029841632461" and j = "-52"]) (simp_all add: pow2_def)

lemma long_km: "js_times 20 (1914029841632461 / 2 ^ 52) = 17 / 2"
  unfolding js_times_def fl64_def
  by (subst fl_eq[where k = "3" and n = "4785074604081152"])
     (simp_all add: pow2_def roundHalfEven_def Let_def)

lemma long_minutes: "js_times 30 (1914029841632461 / 2 ^ 52) = 7177611906121729 / 2 ^ 49"
  unfolding js_times_def fl64_def
  by (subst fl_eq[where k = "3" and n = "7177611906121729"])
     (simp_all add: pow2_def roundHalfEven_def Let_def)

lemma long_hundred: "js_times (2589569785738035 / 2 ^ 52) 100 = 8092405580431359 / 2 ^ 47"
  unfolding js_times_def fl64_def
  by (subst fl_eq[where k = "5" and n = "8092405580431359"])
     (simp_all add: pow2_def roundHalfEven_def Let_def)

lemma long_remaining: "toFixed1 (js_times 20 (js_minus 1 (js_quot 23 40))) = 17 / 2"
  unfolding long_ratio long_rest long_km by (simp add: toFixed1_def)

lemma long_eta: "Math_round (js_times 30 (js_minus 1 (js_quot 23 40))) = 13"
  unfolding long_ratio long_rest long_minutes by (simp add: Math_round_def)

lemma long_percent: "Math_round (js_times (js_quot 23 40) 100) = 57"
  unfolding long_ratio long_hundred by (simp add: Math_round_def)

lemma double_67_10: "fl64 (67 / 10) = 7543529375845581 / 2 ^ 50"
  unfolding fl64_def
  by (subst fl_eq[where k = "2" and n = "7543529375845581"])
     (simp_all add: pow2_def roundHalfEven_def Let_def)

lemma double_3_2: "fl64 (3 / 2) = 3 / 2"
  unfolding fl64_def
  by (subst fl_exact[where n = "3" and j = "-1"]) (simp_all add: pow2_def)

lemma double_17_2: "fl64 (17 / 2) = 17 / 2"
  unfolding fl64_def
  by (subst fl_exact[where n = "17" and j = "-1"]) (simp_all add: pow2_def)

lemma loop_stats:
  "progressStats 10 30 1 4 =
     \<lparr>remainingKm = fl64 (67 / 10), etaMinutes = 20, progressPercent = 33\<rparr>"
  by (simp add: progressStats_def four_remaining four_eta four_percent)

lemma seven_stats:
  "progressStats 9 9 5 7 = \<lparr>remainingKm = 3 / 2, etaMinutes = 1, progressPercent = 83\<rparr>"
  by (simp add: progressStats_def seven_remaining seven_eta seven_percent double_3_2)

text \<open>
  At index 23 of 41 points the ratio is the double below 0.575, its product with 100 is
  57.49999999999999, and the percentage is 57, where the exact \<open>23 / 40 * 100 = 57.5\<close>
  rounds to 58.
\<close>

lemma long_stats:
  "progressStats 20 30 23 41 =
     \<lparr>remainingKm = 17 / 2, etaMinutes = 13, progressPercent = 57\<rparr>"
  by (simp add: progressStats_def long_remaining long_eta long_percent double_17_2)

lemma quick_km: "js_times 20 (1501199875790165 / 2 ^ 53) = 7505999378950825 / 2 ^ 51"
  unfolding js_times_def fl64_def
  by (subst fl_exact[where n = "7505999378950825" and j = "-51"]) (simp_all add: pow2_def)

lemma quick_minutes: "js_times 3 (1501199875790165 / 2 ^ 53) = 4503599627370495 / 2 ^ 53"
  unfolding js_times_def fl64_def
  by (subst fl_exact[where n = "4503599627370495" and j = "-53"]) (simp_all add: pow2_def)

lemma half_ratio: "js_quot 1 2 = 1 / 2"
  unfolding js_quot_def fl64_def
  by (subst fl_exact[where n = "1" and j = "-1"]) (simp_all add: pow2_def)

lemma half_rest: "js_minus 1 (1 / 2) = 1 / 2"
  unfolding js_minus_def fl64_def
  by (subst fl_exact[where n = "1" and j = "-1"]) (simp_all add: pow2_def)

lemma double_7_10: "fl64 (7 / 10) = 3152519739159347 / 2 ^ 52"
  unfolding fl64_def
  by (subst fl_eq[where k = "-1" and n = "6305039478318694"])
     (simp_all add: pow2_def roundHalfEven_def Let_def)

lemma half_km: "js_times (3152519739159347 / 2 ^ 52) (1 / 2) = 3152519739159347 / 2 ^ 53"
  unfolding js_times_def fl64_def
  by (subst fl_exact[where n = "3152519739159347" and j = "-53"]) (simp_all add: pow2_def)

lemma half_km_literal: "js_times (7 / 10) (1 / 2) = 3152519739159347 / 2 ^ 53"
  unfolding js_times_def fl64_def
  by (subst fl_eq[where k = "-2" and n = "6305039478318694"])
     (simp_all add: pow2_def roundHalfEven_def Let_def)

lemma half_minute: "js_times 1 (1 / 2) = 1 / 2"
  unfolding js_times_def fl64_def
  by (subst fl_exact[where n = "1" and j = "-1"]) (simp_all add: pow2_def)

lemma half_hundred: "js_times (1 / 2) 100 = 50"
  unfolding js_times_def fl64_def
  by (subst fl_exact[where n = "25" and j = "1"]) (simp_all add: pow2_def)

text \<open>
  Two more values on which the doubles decide: 20 km in 3 minutes at index 5 of 7 points
  has an ETA of 0 minutes, for a product of 0.4999999999999999; 0.7 km at the middle of
  3 points has 0.3 km left, the product being below 0.35.
\<close>

lemma quick_stats:
  "progressStats 20 3 5 7 =
     \<lparr>remainingKm = fl64 (33 / 10), etaMinutes = 0, progressPercent = 83\<rparr>"
proof -
  have km: "toFixed1 (js_times 20 (js_minus 1 (js_quot 5 6))) = 33 / 10"
    unfolding seven_ratio seven_rest quick_km by (simp add: toFixed1_def)
  have eta: "Math_round (js_times 3 (js_minus 1 (js_quot 5 6))) = 0"
    unfolding seven_ratio seven_rest quick_minutes by (simp add: Math_round_def)
  show ?thesis
    by (simp add: progressStats_def km eta seven_percent)
qed

lemma short_stats:
  "progressStats (fl64 (7 / 10)) 1 1 3 =
     \<lparr>remainingKm = fl64 (3 / 10), etaMinutes = 1, progressPercent = 50\<rparr>"
  "progressStats (7 / 10) 1 1 3 =
     \<lparr>remainingKm = fl64 (3 / 10), etaMinutes = 1, progressPercent = 50\<rparr>"
proof -
  have km: "toFixed1 (js_times (fl64 (7 / 10)) (js_minus 1 (js_quot 1 2))) = 3 / 10"
    unfolding half_ratio half_rest double_7_10 half_km by (simp add: toFixed1_def)
  have km': "toFixed1 (js_times (7 / 10) (js_minus 1 (js_quot 1 2))) = 3 / 10"
    unfolding half_ratio half_rest half_km_literal by (simp add: toFixed1_def)
  have eta: "Math_round (js_times 1 (js_minus 1 (js_quot 1 2))) = 1"
    unfolding half_ratio half_rest half_minute by (simp add: Math_round_def)
  have pct: "Math_round (js_times (js_quot 1 2) 100) = 50"
    unfolding half_ratio half_hundred by (simp add: Math_round_def)
  show "progressStats (fl64 (7 / 10)) 1 1 3 =
     \<lparr>remainingKm = fl64 (3 / 10), etaMinutes = 1, progressPercent = 50\<rparr>"
    by (simp add: progressStats_def km eta pct)
  show "progressStats (7 / 10) 1 1 3 =
     \<lparr>remainingKm = fl64 (3 / 10), etaMinutes = 1, progressPercent = 50\<rparr>"
    by (simp add: progressStats_def km' eta pct)
qed

lemma nearest_seven:
  "closestPointIndex
     (getPathDataFromLocation (liveLocationOf (fixAt 0 180))
        [(0, 0), (0, 0), (0, 0), (0, 0), (0, 0), (0, 180), (0, 0)] 0) = 5"
proof -
  have a: "calculateDistance (liveLocationOf (fixAt 0 180)) \<lparr>lat = 0, lon = 0\<rparr> = 6371 * pi"
    by (rule calculateDistance_antipodal') (simp_all add: liveLocationOf_fixAt)
  have b: "calculateDistance (liveLocationOf (fixAt 0 180)) \<lparr>lat = 0, lon = 180\<rparr> = 0"
    by (rule calculateDistance_same) (simp_all add: liveLocationOf_fixAt)
  show ?thesis
    by (simp add: getPathDataFromLocation_def a b INCREASING_THRESHOLD_def)
qed

lemma four_points: "length [(0::real, 0::real), (0, 180), (0, 0), (0, 0)] = 4"
  by simp

lemma seven_points: "length [(0::real, 0::real), (0, 0), (0, 0), (0, 0), (0, 0), (0, 180), (0, 0)] = 7"
  by simp

lemma nearest_loop_again:
  "closestPointIndex
     (getPathDataFromLocation (liveLocationOf (fixAt 0 180))
        [(0, 0), (0, 180), (0, 0), (0, 0)] 1) = 1"
proof -
  have a: "calculateDistance (liveLocationOf (fixAt 0 180)) \<lparr>lat = 0, lon = 0\<rparr> = 6371 * pi"
    by (rule calculateDistance_antipodal') (simp_all add: liveLocationOf_fixAt)
  have b: "calculateDistance (liveLocationOf (fixAt 0 180)) \<lparr>lat = 0, lon = 180\<rparr> = 0"
    by (rule calculateDistance_same) (simp_all add: liveLocationOf_fixAt)
  show ?thesis
    by (simp add: getPathDataFromLocation_def a b INCREASING_THRESHOLD_def)
qed

text \<open>
  Two fixes at the second of four points, on a route of 10 km and 30 minutes: after the
  second fix the index is 1 and the statistics are 6.7 km, 20 minutes and 33 percent.
\<close>

theorem progress_stats_rounded_witness:
  "withinSession (Position (fixAt 0 180)) \<and>
   \<not> isApproachingStart
       (process (Position (fixAt 0 180))
          (run [Position (fixAt 0 180)] (process (StartNavigation (Some fourPointRoute)) idle))) \<and>
   closestPathIndex
       (process (Position (fixAt 0 180))
          (run [Position (fixAt 0 180)] (process (StartNavigation (Some fourPointRoute)) idle))) = 1 \<and>
   navigationStats
       (process (Position (fixAt 0 180))
          (run [Position (fixAt 0 180)] (process (StartNavigation (Some fourPointRoute)) idle))) =
     Some \<lparr>remainingKm = fl64 (67 / 10), etaMinutes = 20, progressPercent = 33\<rparr>"
proof -
  define s1 where "s1 = process (StartNavigation (Some fourPointRoute)) idle"
  define s2 where "s2 = process (Position (fixAt 0 180)) s1"
  have inv1: "inSession fourPointRoute s1"
    unfolding s1_def by (rule inSession_start)
  have inv2: "inSession fourPointRoute s2"
    unfolding s2_def by (rule inSession_process[OF _ inv1]) simp
  have r1: "sessionRoute fourPointRoute s1 = fourPointRoute"
    by (simp add: sessionRoute_def s1_def started)
  have i1: "closestPathIndex s1 = 0" "emergencyRoute s1 = None" by (simp_all add: s1_def started)
  have p: "path fourPointRoute = [(0, 0), (0, 180), (0, 0), (0, 0)]"
    "distanceKm fourPointRoute = 10" "durationMinutes fourPointRoute = 30"
    by (simp_all add: fourPointRoute_def)
  have a1: "\<not> isApproachingStart s2"
    unfolding s2_def position_in_session(1)[OF inv1] r1 i1 p nearest_loop by simp
  have i2: "closestPathIndex s2 = 1"
    using a1 unfolding s2_def position_in_session(2)[OF inv1] r1 i1 p nearest_loop by simp
  have e2: "emergencyRoute s2 = None"
    unfolding s2_def position_in_session(5)[OF inv1] by (rule i1)
  have r2: "sessionRoute fourPointRoute s2 = fourPointRoute"
    by (simp add: sessionRoute_def e2)
  have a2: "\<not> isApproachingStart (process (Position (fixAt 0 180)) s2)"
    unfolding position_in_session(1)[OF inv2] r2 i2 e2 p nearest_loop_again by simp
  have w: "\<forall>e \<in> set [Position (fixAt 0 180)]. withinSession e" by simp
  have run2: "run [Position (fixAt 0 180)] (process (StartNavigation (Some fourPointRoute)) idle)
              = s2"
    by (simp add: s2_def s1_def)
  from progress_stats_rounded[of "[Position (fixAt 0 180)]" fourPointRoute idle "fixAt 0 180"] w
  have "\<not> isApproachingStart (process (Position (fixAt 0 180)) s2) \<longrightarrow>
        closestPathIndex (process (Position (fixAt 0 180)) s2) = 1 \<and>
        navigationStats (process (Position (fixAt 0 180)) s2) =
          Some \<lparr>remainingKm = fl64 (67 / 10), etaMinutes = 20, progressPercent = 33\<rparr>"
    unfolding run2
    by (simp add: Let_def e2 i2 p nearest_loop_again[unfolded One_nat_def] four_remaining
        four_eta four_percent)
  with a2 show ?thesis unfolding run2 by simp
qed

text \<open>
  The claim as stated fails in two ways. The emitted values are rounded: at index 1 of 4
  points on a route of 10 km the remaining distance emitted is 6.7 km, neither
  \<open>10 * (1 - 1/3) = 20/3\<close> km nor the product 6.666666666666668 that the doubles give.
  And the values that are rounded are those of the doubles: at index 5 of 7 points on
  a route of 9 minutes the ETA emitted is 1 minute, for a product of 1.4999999999999996,
  where the exact \<open>9 * (1 - 5/6) = 1.5\<close> rounds to 2.
\<close>

theorem progress_stats_not_exact:
  "navigationStats
     (process (Position (fixAt 0 180)) (process (StartNavigation (Some fourPointRoute)) idle)) =
     Some \<lparr>remainingKm = fl64 (67 / 10), etaMinutes = 20, progressPercent = 33\<rparr> \<and>
   closestPathIndex
     (process (Position (fixAt 0 180)) (process (StartNavigation (Some fourPointRoute)) idle)) = 1 \<and>
   distanceKm fourPointRoute * (1 - 1 / (real (length (path fourPointRoute)) - 1)) = 20 / 3 \<and>
   fl64 (67 / 10) \<noteq> 20 / 3 \<and>
   fl64 (67 / 10) \<noteq> js_times 10 (js_minus 1 (js_quot 1 3)) \<and>
   navigationStats
     (process (Position (fixAt 0 180)) (process (StartNavigation (Some sevenPointRoute)) idle)) =
     Some \<lparr>remainingKm = 3 / 2, etaMinutes = 1, progressPercent = 83\<rparr> \<and>
   closestPathIndex
     (process (Position (fixAt 0 180)) (process (StartNavigation (Some sevenPointRoute)) idle)) = 5 \<and>
   Math_round
     (durationMinutes sevenPointRoute * (1 - 5 / (real (length (path sevenPointRoute)) - 1))) = 2"
proof -
  have four: "navigationStats
     (process (Position (fixAt 0 180)) (process (StartNavigation (Some fourPointRoute)) idle)) =
     Some \<lparr>remainingKm = fl64 (67 / 10), etaMinutes = 20, progressPercent = 33\<rparr> \<and>
   closestPathIndex
     (process (Position (fixAt 0 180)) (process (StartNavigation (Some fourPointRoute)) idle)) = 1"
  proof -
    define s1 where "s1 = process (StartNavigation (Some fourPointRoute)) idle"
    have inv1: "inSession fourPointRoute s1"
      unfolding s1_def by (rule inSession_start)
    have r1: "sessionRoute fourPointRoute s1 = fourPointRoute"
      by (simp add: sessionRoute_def s1_def started)
    have i1: "closestPathIndex s1 = 0" "emergencyRoute s1 = None" by (simp_all add: s1_def started)
    have p: "path fourPointRoute = [(0, 0), (0, 180), (0, 0), (0, 0)]"
      "distanceKm fourPointRoute = 10" "durationMinutes fourPointRoute = 30"
      by (simp_all add: fourPointRoute_def)
    have a: "\<not> isApproachingStart (process (Position (fixAt 0 180)) s1)"
      unfolding position_in_session(1)[OF inv1] r1 i1 p nearest_loop by simp
    have i: "closestPathIndex (process (Position (fixAt 0 180)) s1) = 1"
      using a unfolding position_in_session(2)[OF inv1] r1 i1 p nearest_loop by simp
    have n: "navigationStats (process (Position (fixAt 0 180)) s1) =
             Some \<lparr>remainingKm = fl64 (67 / 10), etaMinutes = 20, progressPercent = 33\<rparr>"
      using a unfolding position_in_session(3)[OF inv1] r1 i1 p nearest_loop four_points
        loop_stats
      by simp
    from n i show ?thesis unfolding s1_def by simp
  qed
  have seven: "navigationStats
     (process (Position (fixAt 0 180)) (process (StartNavigation (Some sevenPointRoute)) idle)) =
     Some \<lparr>remainingKm = 3 / 2, etaMinutes = 1, progressPercent = 83\<rparr> \<and>
   closestPathIndex
     (process (Position (fixAt 0 180)) (process (StartNavigation (Some sevenPointRoute)) idle)) = 5"
  proof -
    define s1 where "s1 = process (StartNavigation (Some sevenPointRoute)) idle"
    have inv1: "inSession sevenPointRoute s1"
      unfolding s1_def by (rule inSession_start)
    have r1: "sessionRoute sevenPointRoute s1 = sevenPointRoute"
      by (simp add: sessionRoute_def s1_def started)
    have i1: "closestPathIndex s1 = 0" "emergencyRoute s1 = None" by (simp_all add: s1_def started)
    have p: "path sevenPointRoute = [(0, 0), (0, 0), (0, 0), (0, 0), (0, 0), (0, 180), (0, 0)]"
      "distanceKm sevenPointRoute = 9" "durationMinutes sevenPointRoute = 9"
      by (simp_all add: sevenPointRoute_def)
    have a: "\<not> isApproachingStart (process (Position (fixAt 0 180)) s1)"
      unfolding position_in_session(1)[OF inv1] r1 i1 p nearest_seven by simp
    have i: "closestPathIndex (process (Position (fixAt 0 180)) s1) = 5"
      using a unfolding position_in_session(2)[OF inv1] r1 i1 p nearest_seven by simp
    have n: "navigationStats (process (Position (fixAt 0 180)) s1) =
             Some \<lparr>remainingKm = 3 / 2, etaMinutes = 1, progressPercent = 83\<rparr>"
      using a unfolding position_in_session(3)[OF inv1] r1 i1 p nearest_seven seven_points
        seven_stats
      by simp
    from n i show ?thesis unfolding s1_def by simp
  qed
  have exact: "distanceKm fourPointRoute * (1 - 1 / (real (length (path fourPointRoute)) - 1))
               = 20 / 3"
    by (simp add: fourPointRoute_def)
  have ne: "fl64 (67 / 10) \<noteq> 20 / 3" unfolding double_67_10 by simp
  have ne': "fl64 (67 / 10) \<noteq> js_times 10 (js_minus 1 (js_quot 1 3))"
    unfolding double_67_10 four_ratio four_rest four_km by simp
  have two: "Math_round
     (durationMinutes sevenPointRoute * (1 - 5 / (real (length (path sevenPointRoute)) - 1))) = 2"
    by (simp add: sevenPointRoute_def Math_round_def)
  from four seven exact ne ne' two show ?thesis by blast
qed

lemma at_the_tiger:
  "calculateDistance (liveLocationOf (fixAt 0 90)) (current tiger) = 0"
  by (rule calculateDistance_same) (simp_all add: liveLocationOf_fixAt tiger_def)

theorem hazard_alert_once_witness:
  "length (hazardAlertsFor ''Panthera tigris-1''
     (run [Position (fixAt 0 90), Position (fixAt 0 90)]
        (process (StartNavigation (Some westRoute)) tigerCountry))) = 1"
proof -
  define s where "s = process (StartNavigation (Some westRoute)) tigerCountry"
  have w: "watching s" and na: "navigationAlert s = None"
    and an: "animalsNearRoute s = [tiger]" and lg: "alertLog s = []"
    by (simp_all add: s_def started tigerCountry_def idle_def)
  have sy: "render s = s" unfolding s_def by (rule process_rendered)
  have sh: "shownAnimalAlerts s = {}" unfolding s_def by (rule start_hazards)
  have f: "find (\<lambda>a. calculateDistance (liveLocationOf (fixAt 0 90)) (current a) \<le> 2 \<and>
                     animalId a \<notin> shownAnimalAlerts s) (animalsNearRoute s) = Some tiger"
    by (simp add: an sh at_the_tiger)
  have id: "animalId tiger = ''Panthera tigris-1''" by (simp add: tiger_def)
  have z: "hazardAlertsFor ''Panthera tigris-1'' s = []"
    by (simp add: hazardAlertsFor_def lg)
  from hazard_alert_once[where s' = s and fixA = "fixAt 0 90" and a' = tiger and fixB = "fixAt 0 90"]
    w sy na f
  have "length (hazardAlertsFor (animalId tiger) (run [Position (fixAt 0 90), Position (fixAt 0 90)] s))
        = length (hazardAlertsFor (animalId tiger) s) + 1"
    by blast
  then have "length (hazardAlertsFor ''Panthera tigris-1''
      (run [Position (fixAt 0 90), Position (fixAt 0 90)] s)) = 1"
    by (simp add: id z)
  then show ?thesis by (simp add: s_def)
qed

end
